theory Spec2Isabelle
  imports Complex_Main "HOL-Library.AList"
begin

section \<open>JavaScript strings and numbers used by the identifier generators\<close>

text \<open>
  The generators in \<^verbatim>\<open>server/storage.ts\<close> build codes with template strings,
  \<^verbatim>\<open>String.prototype.startsWith\<close>, \<^verbatim>\<open>substring\<close>, \<^verbatim>\<open>parseInt\<close>,
  \<^verbatim>\<open>Number.prototype.toString\<close> and \<^verbatim>\<open>padStart\<close>. Strings are lists of
  8-bit characters (Latin-1 code units); numbers that hold sequence values are integers.
  JavaScript numbers are doubles: an integer of magnitude below \<open>2^53\<close> is held
  exactly, and so is its successor. What \<^verbatim>\<open>(number + 1).toString()\<close> gives for a
  larger magnitude is decided by the rounding of the engine; it is not computed here but
  taken as the parameter \<open>inexact\<close>, a function of the integer that was read.
\<close>

definition digitChar :: "nat \<Rightarrow> char" where
  "digitChar d = char_of (48 + d)"

fun digits :: "nat \<Rightarrow> string" where
  "digits n = (if n < 10 then [digitChar n] else digits (n div 10) @ [digitChar (n mod 10)])"

declare digits.simps [simp del]

text \<open>\<^verbatim>\<open>Number.prototype.toString()\<close> on an integer value.\<close>

definition toString :: "int \<Rightarrow> string" where
  "toString i = (if i < 0 then CHR ''-'' # digits (nat (- i)) else digits (nat i))"

definition isExact :: "int \<Rightarrow> bool" where
  "isExact number = (\<bar>number\<bar> < 9007199254740992)"

text \<open>\<^verbatim>\<open>(number + 1).toString()\<close>\<close>

definition plusOneToString :: "(int \<Rightarrow> string) \<Rightarrow> int \<Rightarrow> string" where
  "plusOneToString inexact number =
     (if isExact number then toString (number + 1) else inexact number)"

text \<open>\<^verbatim>\<open>s.padStart(targetLength, padString)\<close>: a minimum width, never a truncation.\<close>

definition padStart :: "nat \<Rightarrow> string \<Rightarrow> string \<Rightarrow> string" where
  "padStart targetLength padString s =
     (let fillLen = targetLength - length s in
      if fillLen = 0 \<or> padString = [] then s
      else take fillLen (concat (replicate fillLen padString)) @ s)"

definition startsWith :: "string \<Rightarrow> string \<Rightarrow> bool" where
  "startsWith s searchString = (take (length searchString) s = searchString)"

definition substring :: "string \<Rightarrow> nat \<Rightarrow> string" where
  "substring s start = drop start s"

text \<open>
  \<^verbatim>\<open>parseInt(string)\<close> without a radix, after ECMA-262: leading white space is
  skipped, one sign is read, a \<^verbatim>\<open>0x\<close> prefix switches to radix 16, and the longest
  prefix of digits is converted; \<open>None\<close> stands for \<^verbatim>\<open>NaN\<close>.
\<close>

definition isWhiteSpace :: "char \<Rightarrow> bool" where
  "isWhiteSpace c = ((of_char c :: nat) \<in> {9, 10, 11, 12, 13, 32, 160})"

definition digitValue :: "char \<Rightarrow> nat option" where
  "digitValue c =
     (let n = (of_char c :: nat) in
      if 48 \<le> n \<and> n \<le> 57 then Some (n - 48)
      else if 97 \<le> n \<and> n \<le> 122 then Some (n - 87)
      else if 65 \<le> n \<and> n \<le> 90 then Some (n - 55)
      else None)"

definition isRadixDigit :: "nat \<Rightarrow> char \<Rightarrow> bool" where
  "isRadixDigit R c = (case digitValue c of None \<Rightarrow> False | Some v \<Rightarrow> v < R)"

definition digitsValue :: "nat \<Rightarrow> string \<Rightarrow> nat" where
  "digitsValue R Z = foldl (\<lambda>acc c. acc * R + the (digitValue c)) 0 Z"

definition parseInt :: "string \<Rightarrow> int option" where
  "parseInt str =
     (let S = dropWhile isWhiteSpace str;
          sign = (if S \<noteq> [] \<and> hd S = CHR ''-'' then - 1 else 1 :: int);
          S1 = (if S \<noteq> [] \<and> (hd S = CHR ''+'' \<or> hd S = CHR ''-'') then tl S else S);
          hex = (take 2 S1 = ''0x'' \<or> take 2 S1 = ''0X'');
          R = (if hex then 16 else 10);
          S2 = (if hex then drop 2 S1 else S1);
          Z = takeWhile (isRadixDigit R) S2
      in if Z = [] then None else Some (sign * int (digitsValue R Z)))"

section \<open>Data model (shared/schema.ts)\<close>

text \<open>
  A \<^verbatim>\<open>Date\<close> is observed through \<^verbatim>\<open>getTime\<close>, \<^verbatim>\<open>getFullYear\<close> and
  \<^verbatim>\<open>getMonth\<close> (0 to 11, in the server's time zone).
\<close>

record timestamp =
  getTime :: int
  getFullYear :: int
  getMonth :: nat

text \<open>
  A property of a request object whose column is nullable: the key is missing, or it is
  present with the value \<^verbatim>\<open>undefined\<close>, \<^verbatim>\<open>null\<close> or a value. A property of a
  column that is not nullable is an \<open>option\<close>: \<open>None\<close> is the missing key.
\<close>

datatype 'a field = Missing | Undefined | Null | Value 'a

text \<open>\<^verbatim>\<open>x !== undefined\<close>\<close>

definition isDefined :: "'a field \<Rightarrow> bool" where
  "isDefined x = (case x of Missing \<Rightarrow> False | Undefined \<Rightarrow> False | Null \<Rightarrow> True | Value v \<Rightarrow> True)"

text \<open>\<^verbatim>\<open>x || null\<close> for a value whose truthiness is decided by \<open>truthy\<close>.\<close>

definition orNull :: "('a \<Rightarrow> bool) \<Rightarrow> 'a field \<Rightarrow> 'a option" where
  "orNull truthy x = (case x of Value v \<Rightarrow> (if truthy v then Some v else None) | _ \<Rightarrow> None)"

text \<open>\<^verbatim>\<open>x || d\<close>\<close>

definition orElse :: "('a \<Rightarrow> bool) \<Rightarrow> 'a field \<Rightarrow> 'a \<Rightarrow> 'a" where
  "orElse truthy x d = (case x of Value v \<Rightarrow> (if truthy v then v else d) | _ \<Rightarrow> d)"

definition truthyString :: "string \<Rightarrow> bool" where
  "truthyString s = (s \<noteq> [])"

definition truthyInt :: "int \<Rightarrow> bool" where
  "truthyInt n = (n \<noteq> 0)"

definition truthyNat :: "nat \<Rightarrow> bool" where
  "truthyNat n = (n \<noteq> 0)"

definition truthyReal :: "real \<Rightarrow> bool" where
  "truthyReal r = (r \<noteq> 0)"

definition truthyArray :: "'a list \<Rightarrow> bool" where
  "truthyArray xs = True"

definition truthyDate :: "timestamp \<Rightarrow> bool" where
  "truthyDate d = True"

text \<open>
  What a nullable column holds after an \<^verbatim>\<open>INSERT\<close> built by the query layer: a
  missing or \<^verbatim>\<open>undefined\<close> property takes the column default, \<^verbatim>\<open>null\<close> is stored
  as \<^verbatim>\<open>NULL\<close>.
\<close>

definition columnValue :: "'a option \<Rightarrow> 'a field \<Rightarrow> 'a option" where
  "columnValue dflt x =
     (case x of Missing \<Rightarrow> dflt | Undefined \<Rightarrow> dflt | Null \<Rightarrow> None | Value v \<Rightarrow> Some v)"

text \<open>What a nullable column holds after \<^verbatim>\<open>SET col = $n\<close> with a defined parameter.\<close>

definition setValue :: "'a option \<Rightarrow> 'a field \<Rightarrow> 'a option" where
  "setValue old x =
     (case x of Missing \<Rightarrow> old | Undefined \<Rightarrow> old | Null \<Rightarrow> None | Value v \<Rightarrow> Some v)"

text \<open>
  What an object spread \<^verbatim>\<open>{...existing, ...data}\<close> leaves in a nullable property:
  a key that is present overwrites, also with \<^verbatim>\<open>undefined\<close> (read back as absent).
\<close>

definition spreadValue :: "'a option \<Rightarrow> 'a field \<Rightarrow> 'a option" where
  "spreadValue old x =
     (case x of Missing \<Rightarrow> old | Undefined \<Rightarrow> None | Null \<Rightarrow> None | Value v \<Rightarrow> Some v)"

definition orKeep :: "'a \<Rightarrow> 'a option \<Rightarrow> 'a" where
  "orKeep old x = (case x of None \<Rightarrow> old | Some v \<Rightarrow> v)"

text \<open>Every table has a serial primary key and a creation time.\<close>

record entity =
  id' :: nat
  createdAt :: timestamp

record customer = entity +
  customerNumber :: string
  name :: string
  type :: string
  street :: string
  postalCode :: string
  city :: string
  email :: "string option"
  phone :: "string option"
  status :: string

record insertCustomer =
  customerNumber :: string
  name :: string
  type :: string
  street :: string
  postalCode :: string
  city :: string
  email :: "string field"
  phone :: "string field"
  status :: "string option"

record partialInsertCustomer =
  customerNumber :: "string option"
  name :: "string option"
  type :: "string option"
  street :: "string option"
  postalCode :: "string option"
  city :: "string option"
  email :: "string field"
  phone :: "string field"
  status :: "string option"

record material = entity +
  articleNumber :: string
  name :: string
  brand :: "string option"
  category :: string
  price :: real
  stock :: "int option"
  minStock :: "int option"
  supplier :: "string option"

record insertMaterial =
  articleNumber :: string
  name :: string
  brand :: "string field"
  category :: string
  price :: real
  stock :: "int field"
  minStock :: "int field"
  supplier :: "string field"

record partialInsertMaterial =
  articleNumber :: "string option"
  name :: "string option"
  brand :: "string field"
  category :: "string option"
  price :: "real option"
  stock :: "int field"
  minStock :: "int field"
  supplier :: "string field"

text \<open>The \<^verbatim>\<open>jsonb\<close> columns hold arrays; their element shapes are the client's.\<close>

record workOrderMaterial =
  materialId :: string
  materialName :: string
  quantity :: real
  unitPrice :: real

record invoiceItem =
  itemDescription :: string
  itemQuantity :: real
  itemPrice :: real
  itemTax :: real
  itemTotal :: real

record workOrder = entity +
  orderNumber :: string
  title :: string
  description :: "string option"
  customerId :: nat
  date :: timestamp
  status :: string
  laborHours :: "real option"
  "notes" :: "string option"
  materials :: "workOrderMaterial list option"
  photos :: "string list option"

record insertWorkOrder =
  orderNumber :: string
  title :: string
  description :: "string field"
  customerId :: nat
  date :: timestamp
  status :: "string option"
  laborHours :: "real field"
  "notes" :: "string field"
  materials :: "workOrderMaterial list field"
  photos :: "string list field"

record partialInsertWorkOrder =
  orderNumber :: "string option"
  title :: "string option"
  description :: "string field"
  customerId :: "nat option"
  date :: "timestamp option"
  status :: "string option"
  laborHours :: "real field"
  "notes" :: "string field"
  materials :: "workOrderMaterial list field"
  photos :: "string list field"

record invoice = entity +
  invoiceNumber :: string
  customerId :: nat
  workOrderId :: "nat option"
  date :: timestamp
  dueDate :: timestamp
  amount :: real
  status :: string
  items :: "invoiceItem list option"

record insertInvoice =
  invoiceNumber :: string
  customerId :: nat
  workOrderId :: "nat field"
  date :: timestamp
  dueDate :: timestamp
  amount :: real
  status :: "string option"
  items :: "invoiceItem list field"

record partialInsertInvoice =
  invoiceNumber :: "string option"
  customerId :: "nat option"
  workOrderId :: "nat field"
  date :: "timestamp option"
  dueDate :: "timestamp option"
  amount :: "real option"
  status :: "string option"
  items :: "invoiceItem list field"

record project = entity +
  title :: string
  description :: "string option"
  customerId :: nat
  startDate :: timestamp
  endDate :: "timestamp option"
  progress :: "int option"
  status :: string
  workOrders :: "nat list option"

record insertProject =
  title :: string
  description :: "string field"
  customerId :: nat
  startDate :: timestamp
  endDate :: "timestamp field"
  progress :: "int field"
  status :: "string option"
  workOrders :: "nat list field"

record partialInsertProject =
  title :: "string option"
  description :: "string field"
  customerId :: "nat option"
  startDate :: "timestamp option"
  endDate :: "timestamp field"
  progress :: "int field"
  status :: "string option"
  workOrders :: "nat list field"

record user = entity +
  username :: string
  fullName :: string
  email :: "string option"
  password :: string
  role :: string
  phone :: "string option"

record insertUser =
  username :: string
  fullName :: string
  email :: "string field"
  password :: string
  role :: "string option"
  phone :: "string field"

text \<open>A promise settles with a value or is rejected with an error.\<close>

datatype 'a promise = Resolved 'a | Rejected

definition orDefault :: "('a \<Rightarrow> bool) \<Rightarrow> 'a option \<Rightarrow> 'a \<Rightarrow> 'a" where
  "orDefault truthy x d = (case x of Some v \<Rightarrow> (if truthy v then v else d) | None \<Rightarrow> d)"


section \<open>DatabaseStorage (server/storage.ts)\<close>

text \<open>
  The relational store: one table per entity class, each with its serial sequence. Ids
  are natural numbers.
\<close>

record database =
  users :: "user list"
  users_id_seq :: nat
  customers :: "customer list"
  customers_id_seq :: nat
  materials :: "material list"
  materials_id_seq :: nat
  work_orders :: "workOrder list"
  work_orders_id_seq :: nat
  invoices :: "invoice list"
  invoices_id_seq :: nat
  projects :: "project list"
  projects_id_seq :: nat

text \<open>
  A statement sent to the database is answered or fails: the connection is lost, a
  parameter is refused (a NUL character in a text, a number outside \<^verbatim>\<open>int4\<close> or
  \<^verbatim>\<open>float4\<close>, an id that is \<^verbatim>\<open>NaN\<close>), a constraint other than the unique
  columns modelled below is violated. The model does not decide which happens: every
  method takes, for each statement it sends, whether that statement fails. A failed
  \<^verbatim>\<open>SELECT\<close>, \<^verbatim>\<open>UPDATE\<close> or \<^verbatim>\<open>DELETE\<close> changes nothing. A failed
  \<^verbatim>\<open>INSERT\<close> has either drawn its id from the serial sequence already (a violated
  constraint) or not (a lost connection, a refused parameter); a sequence value that was
  drawn is not given back.

  A \<^verbatim>\<open>real\<close> column holds single precision: the rounding of a stored number is not
  modelled, the value read back is the value written, and numbers are finite.
\<close>

datatype fault = NoFault | Fault

datatype insertFault = NoInsertFault | FaultBeforeId | FaultAfterId

text \<open>\<^verbatim>\<open>ORDER BY id DESC LIMIT 1\<close>\<close>

fun orderByDescIdLimit1 :: "('a entity_scheme) list \<Rightarrow> ('a entity_scheme) list" where
  "orderByDescIdLimit1 [] = []"
| "orderByDescIdLimit1 (r # rs) =
     (case orderByDescIdLimit1 rs of
        [] \<Rightarrow> [r]
      | b # _ \<Rightarrow> (if id' b < id' r then [r] else [b]))"

text \<open>\<^verbatim>\<open>ORDER BY id DESC\<close>\<close>

definition orderByDescId :: "('a entity_scheme) list \<Rightarrow> ('a entity_scheme) list" where
  "orderByDescId rows = rev (sort_key id' rows)"

text \<open>\<^verbatim>\<open>WHERE id = $1\<close>\<close>

definition whereId :: "nat \<Rightarrow> ('a entity_scheme) list \<Rightarrow> ('a entity_scheme) list" where
  "whereId i rows = filter (\<lambda>r. id' r = i) rows"

text \<open>\<^verbatim>\<open>result[0]\<close>\<close>

definition first :: "'a list \<Rightarrow> 'a option" where
  "first xs = (case xs of [] \<Rightarrow> None | x # _ \<Rightarrow> Some x)"

subsection \<open>Users\<close>

definition DatabaseStorage_getUser :: "fault \<Rightarrow> nat \<Rightarrow> database \<Rightarrow> user option promise" where
  "DatabaseStorage_getUser outcome i db =
     (if outcome = Fault then Resolved None else Resolved (first (whereId i (users db))))"

text \<open>\<^verbatim>\<open>username\<close> is a unique column: a duplicate makes the insert throw.\<close>

definition DatabaseStorage_createUser ::
  "insertFault \<Rightarrow> timestamp \<Rightarrow> insertUser \<Rightarrow> database \<Rightarrow> user promise \<times> database" where
  "DatabaseStorage_createUser insertion now draft db =
     (if insertion = FaultBeforeId then (Rejected, db)
      else if insertion = FaultAfterId
              \<or> insertUser.username draft \<in> set (map user.username (users db))
      then (Rejected, db\<lparr> users_id_seq := users_id_seq db + 1 \<rparr>)
      else
        let user =
              \<lparr> id' = users_id_seq db, createdAt = now,
                user.username = insertUser.username draft,
                user.fullName = insertUser.fullName draft,
                user.email = columnValue None (insertUser.email draft),
                user.password = insertUser.password draft,
                user.role = orKeep ''monteur'' (insertUser.role draft),
                user.phone = columnValue None (insertUser.phone draft) \<rparr>
        in (Resolved user,
            db\<lparr> users := users db @ [user], users_id_seq := users_id_seq db + 1 \<rparr>))"

subsection \<open>Customers\<close>

definition DatabaseStorage_getAllCustomers :: "fault \<Rightarrow> database \<Rightarrow> customer list promise" where
  "DatabaseStorage_getAllCustomers outcome db =
     (if outcome = Fault then Resolved [] else Resolved (orderByDescId (customers db)))"

definition DatabaseStorage_getCustomer :: "fault \<Rightarrow> nat \<Rightarrow> database \<Rightarrow> customer option promise" where
  "DatabaseStorage_getCustomer outcome i db =
     (if outcome = Fault then Resolved None else Resolved (first (whereId i (customers db))))"

text \<open>
  The generators send one \<^verbatim>\<open>SELECT\<close>; when it fails, the \<^verbatim>\<open>catch\<close> block
  returns the first code.
\<close>

definition generateCustomerNumber :: "(int \<Rightarrow> string) \<Rightarrow> fault \<Rightarrow> timestamp \<Rightarrow> database \<Rightarrow> string" where
  "generateCustomerNumber inexact lookup clock db =
     (if lookup = Fault then ''KL-'' @ toString (getFullYear clock) @ ''-0001''
      else
        let result = map customer.customerNumber (orderByDescIdLimit1 (customers db));
            year = getFullYear clock;
            prefix = ''KL-'' @ toString year @ ''-''
        in if length result = 0 then prefix @ ''0001''
           else
             let latestNumber = hd result
             in if truthyString latestNumber \<and> startsWith latestNumber prefix
                then (case parseInt (substring latestNumber (length prefix)) of
                        Some number \<Rightarrow> prefix @ padStart 4 ''0'' (plusOneToString inexact number)
                      | None \<Rightarrow> prefix @ ''0001'')
                else prefix @ ''0001'')"

definition DatabaseStorage_createCustomer ::
  "(int \<Rightarrow> string) \<Rightarrow> fault \<Rightarrow> insertFault \<Rightarrow> timestamp \<Rightarrow> timestamp \<Rightarrow> insertCustomer
     \<Rightarrow> database \<Rightarrow> customer promise \<times> database" where
  "DatabaseStorage_createCustomer inexact lookup insertion clock now draft db =
     (let customerNumber = generateCustomerNumber inexact lookup clock db
      in if insertion = FaultBeforeId then (Rejected, db)
         else if insertion = FaultAfterId
         then (Rejected, db\<lparr> customers_id_seq := customers_id_seq db + 1 \<rparr>)
         else
           let customer =
                 \<lparr> id' = customers_id_seq db, createdAt = now,
                   customer.customerNumber = customerNumber,
                   customer.name = insertCustomer.name draft,
                   customer.type = insertCustomer.type draft,
                   customer.street = insertCustomer.street draft,
                   customer.postalCode = insertCustomer.postalCode draft,
                   customer.city = insertCustomer.city draft,
                   customer.email = columnValue None (insertCustomer.email draft),
                   customer.phone = columnValue None (insertCustomer.phone draft),
                   customer.status = orKeep ''Actief'' (insertCustomer.status draft) \<rparr>
           in (Resolved customer,
               db\<lparr> customers := customers db @ [customer],
                   customers_id_seq := customers_id_seq db + 1 \<rparr>))"

text \<open>\<^verbatim>\<open>.set(customerData)\<close>: properties that are \<^verbatim>\<open>undefined\<close> are skipped.\<close>

definition setCustomer :: "partialInsertCustomer \<Rightarrow> customer \<Rightarrow> customer" where
  "setCustomer customerData c =
     c\<lparr> customer.customerNumber :=
           orKeep (customer.customerNumber c) (partialInsertCustomer.customerNumber customerData),
        customer.name := orKeep (customer.name c) (partialInsertCustomer.name customerData),
        customer.type := orKeep (customer.type c) (partialInsertCustomer.type customerData),
        customer.street := orKeep (customer.street c) (partialInsertCustomer.street customerData),
        customer.postalCode :=
           orKeep (customer.postalCode c) (partialInsertCustomer.postalCode customerData),
        customer.city := orKeep (customer.city c) (partialInsertCustomer.city customerData),
        customer.email := setValue (customer.email c) (partialInsertCustomer.email customerData),
        customer.phone := setValue (customer.phone c) (partialInsertCustomer.phone customerData),
        customer.status := orKeep (customer.status c) (partialInsertCustomer.status customerData) \<rparr>"

text \<open>
  An update without any value to set is refused by the outcome layer with an error before
  a statement is sent.
\<close>

definition noCustomerValues :: "partialInsertCustomer \<Rightarrow> bool" where
  "noCustomerValues customerData =
     (partialInsertCustomer.customerNumber customerData = None
      \<and> partialInsertCustomer.name customerData = None
      \<and> partialInsertCustomer.type customerData = None
      \<and> partialInsertCustomer.street customerData = None
      \<and> partialInsertCustomer.postalCode customerData = None
      \<and> partialInsertCustomer.city customerData = None
      \<and> \<not> isDefined (partialInsertCustomer.email customerData)
      \<and> \<not> isDefined (partialInsertCustomer.phone customerData)
      \<and> partialInsertCustomer.status customerData = None)"

definition DatabaseStorage_updateCustomer ::
  "fault \<Rightarrow> nat \<Rightarrow> partialInsertCustomer \<Rightarrow> database \<Rightarrow> customer option promise \<times> database" where
  "DatabaseStorage_updateCustomer outcome i customerData db =
     (if noCustomerValues customerData \<or> outcome = Fault then (Resolved None, db)
      else
        let rows = map (\<lambda>r. if id' r = i then setCustomer customerData r else r) (customers db)
        in (Resolved (first (whereId i rows)), db\<lparr> customers := rows \<rparr>))"

definition DatabaseStorage_deleteCustomer ::
  "fault \<Rightarrow> nat \<Rightarrow> database \<Rightarrow> bool promise \<times> database" where
  "DatabaseStorage_deleteCustomer outcome i db =
     (if outcome = Fault then (Resolved False, db)
      else
        let result = whereId i (customers db)
        in (Resolved (length result > 0),
            db\<lparr> customers := filter (\<lambda>r. id' r \<noteq> i) (customers db) \<rparr>))"

subsection \<open>Materials\<close>

definition DatabaseStorage_getAllMaterials :: "fault \<Rightarrow> database \<Rightarrow> material list promise" where
  "DatabaseStorage_getAllMaterials outcome db =
     (if outcome = Fault then Resolved [] else Resolved (orderByDescId (materials db)))"

definition DatabaseStorage_getMaterial :: "fault \<Rightarrow> nat \<Rightarrow> database \<Rightarrow> material option promise" where
  "DatabaseStorage_getMaterial outcome i db =
     (if outcome = Fault then Resolved None else Resolved (first (whereId i (materials db))))"

definition generateArticleNumber :: "(int \<Rightarrow> string) \<Rightarrow> fault \<Rightarrow> database \<Rightarrow> string" where
  "generateArticleNumber inexact lookup db =
     (if lookup = Fault then ''ART-000001''
      else
        let result = map material.articleNumber (orderByDescIdLimit1 (materials db));
            prefix = ''ART-''
        in if length result = 0 then prefix @ ''000001''
           else
             let latestNumber = hd result
             in if truthyString latestNumber \<and> startsWith latestNumber prefix
                then (case parseInt (substring latestNumber (length prefix)) of
                        Some number \<Rightarrow> prefix @ padStart 6 ''0'' (plusOneToString inexact number)
                      | None \<Rightarrow> prefix @ ''000001'')
                else prefix @ ''000001'')"

text \<open>\<^verbatim>\<open>article_number\<close> is a unique column: a duplicate makes the insert throw.\<close>

definition DatabaseStorage_createMaterial ::
  "(int \<Rightarrow> string) \<Rightarrow> fault \<Rightarrow> insertFault \<Rightarrow> timestamp \<Rightarrow> insertMaterial
     \<Rightarrow> database \<Rightarrow> material promise \<times> database" where
  "DatabaseStorage_createMaterial inexact lookup insertion now draft db =
     (let articleNumber = generateArticleNumber inexact lookup db
      in if insertion = FaultBeforeId then (Rejected, db)
         else if insertion = FaultAfterId
                 \<or> articleNumber \<in> set (map material.articleNumber (materials db))
         then (Rejected, db\<lparr> materials_id_seq := materials_id_seq db + 1 \<rparr>)
         else
           let material =
                 \<lparr> id' = materials_id_seq db, createdAt = now,
                   material.articleNumber = articleNumber,
                   material.name = insertMaterial.name draft,
                   material.brand = columnValue None (insertMaterial.brand draft),
                   material.category = insertMaterial.category draft,
                   material.price = insertMaterial.price draft,
                   material.stock = columnValue (Some 0) (insertMaterial.stock draft),
                   material.minStock = columnValue (Some 0) (insertMaterial.minStock draft),
                   material.supplier = columnValue None (insertMaterial.supplier draft) \<rparr>
           in (Resolved material,
               db\<lparr> materials := materials db @ [material],
                   materials_id_seq := materials_id_seq db + 1 \<rparr>))"

definition setMaterial :: "partialInsertMaterial \<Rightarrow> material \<Rightarrow> material" where
  "setMaterial materialData m =
     m\<lparr> material.articleNumber :=
           orKeep (material.articleNumber m) (partialInsertMaterial.articleNumber materialData),
        material.name := orKeep (material.name m) (partialInsertMaterial.name materialData),
        material.brand := setValue (material.brand m) (partialInsertMaterial.brand materialData),
        material.category :=
           orKeep (material.category m) (partialInsertMaterial.category materialData),
        material.price := orKeep (material.price m) (partialInsertMaterial.price materialData),
        material.stock := setValue (material.stock m) (partialInsertMaterial.stock materialData),
        material.minStock :=
           setValue (material.minStock m) (partialInsertMaterial.minStock materialData),
        material.supplier :=
           setValue (material.supplier m) (partialInsertMaterial.supplier materialData) \<rparr>"

definition noMaterialValues :: "partialInsertMaterial \<Rightarrow> bool" where
  "noMaterialValues materialData =
     (partialInsertMaterial.articleNumber materialData = None
      \<and> partialInsertMaterial.name materialData = None
      \<and> \<not> isDefined (partialInsertMaterial.brand materialData)
      \<and> partialInsertMaterial.category materialData = None
      \<and> partialInsertMaterial.price materialData = None
      \<and> \<not> isDefined (partialInsertMaterial.stock materialData)
      \<and> \<not> isDefined (partialInsertMaterial.minStock materialData)
      \<and> \<not> isDefined (partialInsertMaterial.supplier materialData))"

text \<open>An update that would give two rows the same article number is refused.\<close>

definition DatabaseStorage_updateMaterial ::
  "fault \<Rightarrow> nat \<Rightarrow> partialInsertMaterial \<Rightarrow> database \<Rightarrow> material option promise \<times> database" where
  "DatabaseStorage_updateMaterial outcome i materialData db =
     (if noMaterialValues materialData \<or> outcome = Fault then (Resolved None, db)
      else
        let rows = map (\<lambda>r. if id' r = i then setMaterial materialData r else r) (materials db)
        in if \<exists>r \<in> set rows. \<exists>r' \<in> set rows.
                id' r = i \<and> id' r' \<noteq> i \<and> material.articleNumber r = material.articleNumber r'
           then (Resolved None, db)
           else (Resolved (first (whereId i rows)), db\<lparr> materials := rows \<rparr>))"

definition DatabaseStorage_deleteMaterial ::
  "fault \<Rightarrow> nat \<Rightarrow> database \<Rightarrow> bool promise \<times> database" where
  "DatabaseStorage_deleteMaterial outcome i db =
     (if outcome = Fault then (Resolved False, db)
      else
        let result = whereId i (materials db)
        in (Resolved (length result > 0),
            db\<lparr> materials := filter (\<lambda>r. id' r \<noteq> i) (materials db) \<rparr>))"

subsection \<open>Work orders\<close>

definition DatabaseStorage_getAllWorkOrders :: "fault \<Rightarrow> database \<Rightarrow> workOrder list promise" where
  "DatabaseStorage_getAllWorkOrders outcome db =
     (if outcome = Fault then Resolved [] else Resolved (orderByDescId (work_orders db)))"

definition DatabaseStorage_getWorkOrder :: "fault \<Rightarrow> nat \<Rightarrow> database \<Rightarrow> workOrder option promise" where
  "DatabaseStorage_getWorkOrder outcome i db =
     (if outcome = Fault then Resolved None else Resolved (first (whereId i (work_orders db))))"

definition generateOrderNumber :: "(int \<Rightarrow> string) \<Rightarrow> fault \<Rightarrow> timestamp \<Rightarrow> database \<Rightarrow> string" where
  "generateOrderNumber inexact lookup clock db =
     (if lookup = Fault then ''WB-'' @ toString (getFullYear clock) @ ''-0001''
      else
        let result = map workOrder.orderNumber (orderByDescIdLimit1 (work_orders db));
            year = getFullYear clock;
            prefix = ''WB-'' @ toString year @ ''-''
        in if length result = 0 then prefix @ ''0001''
           else
             let latestNumber = hd result
             in if truthyString latestNumber \<and> startsWith latestNumber prefix
                then (case parseInt (substring latestNumber (length prefix)) of
                        Some number \<Rightarrow> prefix @ padStart 4 ''0'' (plusOneToString inexact number)
                      | None \<Rightarrow> prefix @ ''0001'')
                else prefix @ ''0001'')"

text \<open>
  The insert is a hand-written statement: its column list leaves \<^verbatim>\<open>photos\<close> out, and
  \<^verbatim>\<open>date\<close> is \<^verbatim>\<open>NOW()\<close>, the time of the storage server. A parameter that is
  \<^verbatim>\<open>undefined\<close> is sent as \<^verbatim>\<open>NULL\<close>. \<^verbatim>\<open>order_number\<close> is a unique column.
\<close>

definition DatabaseStorage_createWorkOrder ::
  "(int \<Rightarrow> string) \<Rightarrow> fault \<Rightarrow> insertFault \<Rightarrow> timestamp \<Rightarrow> timestamp \<Rightarrow> insertWorkOrder
     \<Rightarrow> database \<Rightarrow> workOrder promise \<times> database" where
  "DatabaseStorage_createWorkOrder inexact lookup insertion clock now draft db =
     (let orderNumber = generateOrderNumber inexact lookup clock db;
          data = draft\<lparr> insertWorkOrder.orderNumber := orderNumber \<rparr>
      in if insertion = FaultBeforeId then (Rejected, db)
         else if insertion = FaultAfterId
                 \<or> orderNumber \<in> set (map workOrder.orderNumber (work_orders db))
         then (Rejected, db\<lparr> work_orders_id_seq := work_orders_id_seq db + 1 \<rparr>)
         else
           let workOrder =
                 \<lparr> id' = work_orders_id_seq db, createdAt = now,
                   workOrder.orderNumber = orderNumber,
                   workOrder.title = insertWorkOrder.title data,
                   workOrder.description = setValue None (insertWorkOrder.description data),
                   workOrder.customerId = insertWorkOrder.customerId data,
                   workOrder.date = now,
                   workOrder.status =
                     orDefault truthyString (insertWorkOrder.status data) ''Ingepland'',
                   workOrder.laborHours =
                     Some (orElse truthyReal (insertWorkOrder.laborHours data) 0),
                   workOrder.notes = Some (orElse truthyString (insertWorkOrder.notes data) []),
                   workOrder.materials =
                     Some (orElse truthyArray (insertWorkOrder.materials data) []),
                   workOrder.photos = None \<rparr>
           in (Resolved workOrder,
               db\<lparr> work_orders := work_orders db @ [workOrder],
                   work_orders_id_seq := work_orders_id_seq db + 1 \<rparr>))"

text \<open>
  The update builds its \<^verbatim>\<open>SET\<close> clause from eight properties: title, description,
  customerId, status, laborHours, notes, materials and date.
\<close>

definition setWorkOrder :: "partialInsertWorkOrder \<Rightarrow> workOrder \<Rightarrow> workOrder" where
  "setWorkOrder data w =
     w\<lparr> workOrder.title := orKeep (workOrder.title w) (partialInsertWorkOrder.title data),
        workOrder.description :=
           setValue (workOrder.description w) (partialInsertWorkOrder.description data),
        workOrder.customerId :=
           orKeep (workOrder.customerId w) (partialInsertWorkOrder.customerId data),
        workOrder.status := orKeep (workOrder.status w) (partialInsertWorkOrder.status data),
        workOrder.laborHours :=
           setValue (workOrder.laborHours w) (partialInsertWorkOrder.laborHours data),
        workOrder.notes := setValue (workOrder.notes w) (partialInsertWorkOrder.notes data),
        workOrder.materials :=
           setValue (workOrder.materials w) (partialInsertWorkOrder.materials data),
        workOrder.date := orKeep (workOrder.date w) (partialInsertWorkOrder.date data) \<rparr>"

definition updateParts :: "partialInsertWorkOrder \<Rightarrow> nat" where
  "updateParts data =
     (if partialInsertWorkOrder.title data \<noteq> None then 1 else 0)
     + (if isDefined (partialInsertWorkOrder.description data) then 1 else 0)
     + (if partialInsertWorkOrder.customerId data \<noteq> None then 1 else 0)
     + (if partialInsertWorkOrder.status data \<noteq> None then 1 else 0)
     + (if isDefined (partialInsertWorkOrder.laborHours data) then 1 else 0)
     + (if isDefined (partialInsertWorkOrder.notes data) then 1 else 0)
     + (if isDefined (partialInsertWorkOrder.materials data) then 1 else 0)
     + (if partialInsertWorkOrder.date data \<noteq> None then 1 else 0)"

text \<open>
  Two statements: the \<^verbatim>\<open>SELECT\<close> of \<^verbatim>\<open>getWorkOrder\<close>, then the \<^verbatim>\<open>UPDATE\<close>.
  Every error is caught and answered with \<^verbatim>\<open>undefined\<close>.
\<close>

definition DatabaseStorage_updateWorkOrder ::
  "fault \<Rightarrow> fault \<Rightarrow> nat \<Rightarrow> partialInsertWorkOrder \<Rightarrow> database
     \<Rightarrow> workOrder option promise \<times> database" where
  "DatabaseStorage_updateWorkOrder lookup change i workOrderData db =
     (let data = workOrderData
      in case DatabaseStorage_getWorkOrder lookup i db of
           Rejected \<Rightarrow> (Resolved None, db)
         | Resolved None \<Rightarrow> (Resolved None, db)
         | Resolved (Some existingWorkOrder) \<Rightarrow>
             if updateParts data = 0 then (Resolved (Some existingWorkOrder), db)
             else if change = Fault then (Resolved None, db)
             else
               let rows = map (\<lambda>r. if id' r = i then setWorkOrder data r else r) (work_orders db);
                   result = whereId i rows
               in if length result > 0
                  then (Resolved (Some (hd result)), db\<lparr> work_orders := rows \<rparr>)
                  else (Resolved None, db\<lparr> work_orders := rows \<rparr>))"

definition DatabaseStorage_deleteWorkOrder ::
  "fault \<Rightarrow> nat \<Rightarrow> database \<Rightarrow> bool promise \<times> database" where
  "DatabaseStorage_deleteWorkOrder outcome i db =
     (if outcome = Fault then (Resolved False, db)
      else
        let result = whereId i (work_orders db)
        in (Resolved (length result > 0),
            db\<lparr> work_orders := filter (\<lambda>r. id' r \<noteq> i) (work_orders db) \<rparr>))"

subsection \<open>Invoices\<close>

definition DatabaseStorage_getAllInvoices :: "fault \<Rightarrow> database \<Rightarrow> invoice list promise" where
  "DatabaseStorage_getAllInvoices outcome db =
     (if outcome = Fault then Resolved [] else Resolved (orderByDescId (invoices db)))"

definition DatabaseStorage_getInvoice :: "fault \<Rightarrow> nat \<Rightarrow> database \<Rightarrow> invoice option promise" where
  "DatabaseStorage_getInvoice outcome i db =
     (if outcome = Fault then Resolved None else Resolved (first (whereId i (invoices db))))"

definition generateInvoiceNumber :: "(int \<Rightarrow> string) \<Rightarrow> fault \<Rightarrow> timestamp \<Rightarrow> database \<Rightarrow> string" where
  "generateInvoiceNumber inexact lookup clock db =
     (if lookup = Fault then ''F-'' @ toString (getFullYear clock) @ ''-0001''
      else
        let result = map invoice.invoiceNumber (orderByDescIdLimit1 (invoices db));
            year = getFullYear clock;
            prefix = ''F-'' @ toString year @ ''-''
        in if length result = 0 then prefix @ ''0001''
           else
             let latestNumber = hd result
             in if truthyString latestNumber \<and> startsWith latestNumber prefix
                then (case parseInt (substring latestNumber (length prefix)) of
                        Some number \<Rightarrow> prefix @ padStart 4 ''0'' (plusOneToString inexact number)
                      | None \<Rightarrow> prefix @ ''0001'')
                else prefix @ ''0001'')"

text \<open>\<^verbatim>\<open>invoice_number\<close> is a unique column.\<close>

definition DatabaseStorage_createInvoice ::
  "(int \<Rightarrow> string) \<Rightarrow> fault \<Rightarrow> insertFault \<Rightarrow> timestamp \<Rightarrow> timestamp \<Rightarrow> insertInvoice
     \<Rightarrow> database \<Rightarrow> invoice promise \<times> database" where
  "DatabaseStorage_createInvoice inexact lookup insertion clock now draft db =
     (let invoiceNumber = generateInvoiceNumber inexact lookup clock db
      in if insertion = FaultBeforeId then (Rejected, db)
         else if insertion = FaultAfterId
                 \<or> invoiceNumber \<in> set (map invoice.invoiceNumber (invoices db))
         then (Rejected, db\<lparr> invoices_id_seq := invoices_id_seq db + 1 \<rparr>)
         else
           let invoice =
                 \<lparr> id' = invoices_id_seq db, createdAt = now,
                   invoice.invoiceNumber = invoiceNumber,
                   invoice.customerId = insertInvoice.customerId draft,
                   invoice.workOrderId = columnValue None (insertInvoice.workOrderId draft),
                   invoice.date = insertInvoice.date draft,
                   invoice.dueDate = insertInvoice.dueDate draft,
                   invoice.amount = insertInvoice.amount draft,
                   invoice.status = orKeep ''Concept'' (insertInvoice.status draft),
                   invoice.items = columnValue None (insertInvoice.items draft) \<rparr>
           in (Resolved invoice,
               db\<lparr> invoices := invoices db @ [invoice],
                   invoices_id_seq := invoices_id_seq db + 1 \<rparr>))"

definition setInvoice :: "partialInsertInvoice \<Rightarrow> invoice \<Rightarrow> invoice" where
  "setInvoice invoiceData v =
     v\<lparr> invoice.invoiceNumber :=
           orKeep (invoice.invoiceNumber v) (partialInsertInvoice.invoiceNumber invoiceData),
        invoice.customerId :=
           orKeep (invoice.customerId v) (partialInsertInvoice.customerId invoiceData),
        invoice.workOrderId :=
           setValue (invoice.workOrderId v) (partialInsertInvoice.workOrderId invoiceData),
        invoice.date := orKeep (invoice.date v) (partialInsertInvoice.date invoiceData),
        invoice.dueDate := orKeep (invoice.dueDate v) (partialInsertInvoice.dueDate invoiceData),
        invoice.amount := orKeep (invoice.amount v) (partialInsertInvoice.amount invoiceData),
        invoice.status := orKeep (invoice.status v) (partialInsertInvoice.status invoiceData),
        invoice.items := setValue (invoice.items v) (partialInsertInvoice.items invoiceData) \<rparr>"

definition noInvoiceValues :: "partialInsertInvoice \<Rightarrow> bool" where
  "noInvoiceValues invoiceData =
     (partialInsertInvoice.invoiceNumber invoiceData = None
      \<and> partialInsertInvoice.customerId invoiceData = None
      \<and> \<not> isDefined (partialInsertInvoice.workOrderId invoiceData)
      \<and> partialInsertInvoice.date invoiceData = None
      \<and> partialInsertInvoice.dueDate invoiceData = None
      \<and> partialInsertInvoice.amount invoiceData = None
      \<and> partialInsertInvoice.status invoiceData = None
      \<and> \<not> isDefined (partialInsertInvoice.items invoiceData))"

definition DatabaseStorage_updateInvoice ::
  "fault \<Rightarrow> nat \<Rightarrow> partialInsertInvoice \<Rightarrow> database \<Rightarrow> invoice option promise \<times> database" where
  "DatabaseStorage_updateInvoice outcome i invoiceData db =
     (if noInvoiceValues invoiceData \<or> outcome = Fault then (Resolved None, db)
      else
        let rows = map (\<lambda>r. if id' r = i then setInvoice invoiceData r else r) (invoices db)
        in if \<exists>r \<in> set rows. \<exists>r' \<in> set rows.
                id' r = i \<and> id' r' \<noteq> i \<and> invoice.invoiceNumber r = invoice.invoiceNumber r'
           then (Resolved None, db)
           else (Resolved (first (whereId i rows)), db\<lparr> invoices := rows \<rparr>))"

definition DatabaseStorage_deleteInvoice ::
  "fault \<Rightarrow> nat \<Rightarrow> database \<Rightarrow> bool promise \<times> database" where
  "DatabaseStorage_deleteInvoice outcome i db =
     (if outcome = Fault then (Resolved False, db)
      else
        let result = whereId i (invoices db)
        in (Resolved (length result > 0),
            db\<lparr> invoices := filter (\<lambda>r. id' r \<noteq> i) (invoices db) \<rparr>))"

subsection \<open>Projects\<close>

definition DatabaseStorage_getAllProjects :: "fault \<Rightarrow> database \<Rightarrow> project list promise" where
  "DatabaseStorage_getAllProjects outcome db =
     (if outcome = Fault then Resolved [] else Resolved (orderByDescId (projects db)))"

definition DatabaseStorage_getProject :: "fault \<Rightarrow> nat \<Rightarrow> database \<Rightarrow> project option promise" where
  "DatabaseStorage_getProject outcome i db =
     (if outcome = Fault then Resolved None else Resolved (first (whereId i (projects db))))"

definition DatabaseStorage_createProject ::
  "insertFault \<Rightarrow> timestamp \<Rightarrow> insertProject \<Rightarrow> database \<Rightarrow> project promise \<times> database" where
  "DatabaseStorage_createProject insertion now draft db =
     (if insertion = FaultBeforeId then (Rejected, db)
      else if insertion = FaultAfterId
      then (Rejected, db\<lparr> projects_id_seq := projects_id_seq db + 1 \<rparr>)
      else
        let project =
              \<lparr> id' = projects_id_seq db, createdAt = now,
                project.title = insertProject.title draft,
                project.description = columnValue None (insertProject.description draft),
                project.customerId = insertProject.customerId draft,
                project.startDate = insertProject.startDate draft,
                project.endDate = columnValue None (insertProject.endDate draft),
                project.progress = columnValue (Some 0) (insertProject.progress draft),
                project.status = orKeep ''Gepland'' (insertProject.status draft),
                project.workOrders = columnValue None (insertProject.workOrders draft) \<rparr>
        in (Resolved project,
            db\<lparr> projects := projects db @ [project],
                projects_id_seq := projects_id_seq db + 1 \<rparr>))"

definition setProject :: "partialInsertProject \<Rightarrow> project \<Rightarrow> project" where
  "setProject projectData p =
     p\<lparr> project.title := orKeep (project.title p) (partialInsertProject.title projectData),
        project.description :=
           setValue (project.description p) (partialInsertProject.description projectData),
        project.customerId :=
           orKeep (project.customerId p) (partialInsertProject.customerId projectData),
        project.startDate :=
           orKeep (project.startDate p) (partialInsertProject.startDate projectData),
        project.endDate := setValue (project.endDate p) (partialInsertProject.endDate projectData),
        project.progress :=
           setValue (project.progress p) (partialInsertProject.progress projectData),
        project.status := orKeep (project.status p) (partialInsertProject.status projectData),
        project.workOrders :=
           setValue (project.workOrders p) (partialInsertProject.workOrders projectData) \<rparr>"

definition noProjectValues :: "partialInsertProject \<Rightarrow> bool" where
  "noProjectValues projectData =
     (partialInsertProject.title projectData = None
      \<and> \<not> isDefined (partialInsertProject.description projectData)
      \<and> partialInsertProject.customerId projectData = None
      \<and> partialInsertProject.startDate projectData = None
      \<and> \<not> isDefined (partialInsertProject.endDate projectData)
      \<and> \<not> isDefined (partialInsertProject.progress projectData)
      \<and> partialInsertProject.status projectData = None
      \<and> \<not> isDefined (partialInsertProject.workOrders projectData))"

definition DatabaseStorage_updateProject ::
  "fault \<Rightarrow> nat \<Rightarrow> partialInsertProject \<Rightarrow> database \<Rightarrow> project option promise \<times> database" where
  "DatabaseStorage_updateProject outcome i projectData db =
     (if noProjectValues projectData \<or> outcome = Fault then (Resolved None, db)
      else
        let rows = map (\<lambda>r. if id' r = i then setProject projectData r else r) (projects db)
        in (Resolved (first (whereId i rows)), db\<lparr> projects := rows \<rparr>))"

definition DatabaseStorage_deleteProject ::
  "fault \<Rightarrow> nat \<Rightarrow> database \<Rightarrow> bool promise \<times> database" where
  "DatabaseStorage_deleteProject outcome i db =
     (if outcome = Fault then (Resolved False, db)
      else
        let result = whereId i (projects db)
        in (Resolved (length result > 0),
            db\<lparr> projects := filter (\<lambda>r. id' r \<noteq> i) (projects db) \<rparr>))"

section \<open>MemStorage (server/storage.ts)\<close>

text \<open>
  The in-memory variant keeps one \<^verbatim>\<open>Map\<close> per entity class, here an association
  list in insertion order, and one id counter per class. Its methods never reject.
\<close>

record memStorage =
  users :: "(nat \<times> user) list"
  customers :: "(nat \<times> customer) list"
  materials :: "(nat \<times> material) list"
  workOrders :: "(nat \<times> workOrder) list"
  invoices :: "(nat \<times> invoice) list"
  projects :: "(nat \<times> project) list"
  userIdCounter :: nat
  customerIdCounter :: nat
  materialIdCounter :: nat
  workOrderIdCounter :: nat
  invoiceIdCounter :: nat
  projectIdCounter :: nat

text \<open>The state the constructor leaves: empty maps, and the admin user with id 1.\<close>

definition MemStorage_new :: "timestamp \<Rightarrow> memStorage" where
  "MemStorage_new now =
     \<lparr> memStorage.users =
         [(1, \<lparr> id' = 1, createdAt = now,
                 user.username = ''admin'',
                 user.fullName = ''Admin User'',
                 user.email = Some ''admin@spartec.nl'',
                 user.password = ''c7ad44cbad762a5da0a452f9e854fdc1e0e7a52a38015f23f3eab1d80b931dd472634dfac71cd34ebc35d16ab7fb8a90c81f975113d6c7538dc69dd8de9077ec.e5e9fa1ba31ecd1ae84f75caaa474f3a'',
                 user.role = ''beheerder'',
                 user.phone = Some ''06-12345678'' \<rparr>)],
       memStorage.customers = [], memStorage.materials = [], memStorage.workOrders = [],
       memStorage.invoices = [], memStorage.projects = [],
       userIdCounter = 2, customerIdCounter = 1, materialIdCounter = 1,
       workOrderIdCounter = 1, invoiceIdCounter = 1, projectIdCounter = 1 \<rparr>"

text \<open>\<^verbatim>\<open>Map.prototype.delete\<close>: whether the key was there, and the map without it.\<close>

definition mapDelete :: "nat \<Rightarrow> (nat \<times> 'v) list \<Rightarrow> bool \<times> (nat \<times> 'v) list" where
  "mapDelete k m = (map_of m k \<noteq> None, AList.delete k m)"

subsection \<open>Users\<close>

definition MemStorage_getUser :: "nat \<Rightarrow> memStorage \<Rightarrow> user option promise" where
  "MemStorage_getUser i st = Resolved (map_of (memStorage.users st) i)"

definition MemStorage_createUser ::
  "timestamp \<Rightarrow> insertUser \<Rightarrow> memStorage \<Rightarrow> user promise \<times> memStorage" where
  "MemStorage_createUser now draft st =
     (let i = userIdCounter st;
          user =
            \<lparr> id' = i, createdAt = now,
              user.username = insertUser.username draft,
              user.fullName = insertUser.fullName draft,
              user.email = orNull truthyString (insertUser.email draft),
              user.password = insertUser.password draft,
              user.role = orDefault truthyString (insertUser.role draft) ''monteur'',
              user.phone = orNull truthyString (insertUser.phone draft) \<rparr>
      in (Resolved user,
          st\<lparr> memStorage.users := AList.update i user (memStorage.users st),
              userIdCounter := i + 1 \<rparr>))"

subsection \<open>Customers\<close>

definition MemStorage_getAllCustomers :: "memStorage \<Rightarrow> customer list promise" where
  "MemStorage_getAllCustomers st = Resolved (map snd (memStorage.customers st))"

definition MemStorage_getCustomer :: "nat \<Rightarrow> memStorage \<Rightarrow> customer option promise" where
  "MemStorage_getCustomer i st = Resolved (map_of (memStorage.customers st) i)"

definition MemStorage_createCustomer ::
  "timestamp \<Rightarrow> insertCustomer \<Rightarrow> memStorage \<Rightarrow> customer promise \<times> memStorage" where
  "MemStorage_createCustomer now draft st =
     (let i = customerIdCounter st;
          customerNumber = ''KL-'' @ padStart 5 ''0'' (toString (int i));
          customer =
            \<lparr> id' = i, createdAt = now,
              customer.customerNumber = customerNumber,
              customer.name = insertCustomer.name draft,
              customer.type = insertCustomer.type draft,
              customer.street = insertCustomer.street draft,
              customer.postalCode = insertCustomer.postalCode draft,
              customer.city = insertCustomer.city draft,
              customer.email = orNull truthyString (insertCustomer.email draft),
              customer.phone = orNull truthyString (insertCustomer.phone draft),
              customer.status = orDefault truthyString (insertCustomer.status draft) ''Actief'' \<rparr>
      in (Resolved customer,
          st\<lparr> memStorage.customers := AList.update i customer (memStorage.customers st),
              customerIdCounter := i + 1 \<rparr>))"

text \<open>\<^verbatim>\<open>{ ...existingCustomer, ...customerData }\<close>\<close>

definition spreadCustomer :: "customer \<Rightarrow> partialInsertCustomer \<Rightarrow> customer" where
  "spreadCustomer c customerData =
     c\<lparr> customer.customerNumber :=
           orKeep (customer.customerNumber c) (partialInsertCustomer.customerNumber customerData),
        customer.name := orKeep (customer.name c) (partialInsertCustomer.name customerData),
        customer.type := orKeep (customer.type c) (partialInsertCustomer.type customerData),
        customer.street := orKeep (customer.street c) (partialInsertCustomer.street customerData),
        customer.postalCode :=
           orKeep (customer.postalCode c) (partialInsertCustomer.postalCode customerData),
        customer.city := orKeep (customer.city c) (partialInsertCustomer.city customerData),
        customer.email :=
           spreadValue (customer.email c) (partialInsertCustomer.email customerData),
        customer.phone :=
           spreadValue (customer.phone c) (partialInsertCustomer.phone customerData),
        customer.status := orKeep (customer.status c) (partialInsertCustomer.status customerData) \<rparr>"

definition MemStorage_updateCustomer ::
  "nat \<Rightarrow> partialInsertCustomer \<Rightarrow> memStorage \<Rightarrow> customer option promise \<times> memStorage" where
  "MemStorage_updateCustomer i customerData st =
     (case map_of (memStorage.customers st) i of
        None \<Rightarrow> (Resolved None, st)
      | Some existingCustomer \<Rightarrow>
          let updatedCustomer = spreadCustomer existingCustomer customerData
          in (Resolved (Some updatedCustomer),
              st\<lparr> memStorage.customers :=
                    AList.update i updatedCustomer (memStorage.customers st) \<rparr>))"

definition MemStorage_deleteCustomer :: "nat \<Rightarrow> memStorage \<Rightarrow> bool promise \<times> memStorage" where
  "MemStorage_deleteCustomer i st =
     (let (existed, m) = mapDelete i (memStorage.customers st)
      in (Resolved existed, st\<lparr> memStorage.customers := m \<rparr>))"

subsection \<open>Materials\<close>

definition MemStorage_getAllMaterials :: "memStorage \<Rightarrow> material list promise" where
  "MemStorage_getAllMaterials st = Resolved (map snd (memStorage.materials st))"

definition MemStorage_getMaterial :: "nat \<Rightarrow> memStorage \<Rightarrow> material option promise" where
  "MemStorage_getMaterial i st = Resolved (map_of (memStorage.materials st) i)"

definition MemStorage_createMaterial ::
  "timestamp \<Rightarrow> insertMaterial \<Rightarrow> memStorage \<Rightarrow> material promise \<times> memStorage" where
  "MemStorage_createMaterial now draft st =
     (let i = materialIdCounter st;
          articleNumber = ''ART-'' @ padStart 5 ''0'' (toString (int i));
          material =
            \<lparr> id' = i, createdAt = now,
              material.articleNumber = articleNumber,
              material.name = insertMaterial.name draft,
              material.brand = orNull truthyString (insertMaterial.brand draft),
              material.category = insertMaterial.category draft,
              material.price = insertMaterial.price draft,
              material.stock = orNull truthyInt (insertMaterial.stock draft),
              material.minStock = orNull truthyInt (insertMaterial.minStock draft),
              material.supplier = orNull truthyString (insertMaterial.supplier draft) \<rparr>
      in (Resolved material,
          st\<lparr> memStorage.materials := AList.update i material (memStorage.materials st),
              materialIdCounter := i + 1 \<rparr>))"

definition spreadMaterial :: "material \<Rightarrow> partialInsertMaterial \<Rightarrow> material" where
  "spreadMaterial m materialData =
     m\<lparr> material.articleNumber :=
           orKeep (material.articleNumber m) (partialInsertMaterial.articleNumber materialData),
        material.name := orKeep (material.name m) (partialInsertMaterial.name materialData),
        material.brand :=
           spreadValue (material.brand m) (partialInsertMaterial.brand materialData),
        material.category :=
           orKeep (material.category m) (partialInsertMaterial.category materialData),
        material.price := orKeep (material.price m) (partialInsertMaterial.price materialData),
        material.stock :=
           spreadValue (material.stock m) (partialInsertMaterial.stock materialData),
        material.minStock :=
           spreadValue (material.minStock m) (partialInsertMaterial.minStock materialData),
        material.supplier :=
           spreadValue (material.supplier m) (partialInsertMaterial.supplier materialData) \<rparr>"

definition MemStorage_updateMaterial ::
  "nat \<Rightarrow> partialInsertMaterial \<Rightarrow> memStorage \<Rightarrow> material option promise \<times> memStorage" where
  "MemStorage_updateMaterial i materialData st =
     (case map_of (memStorage.materials st) i of
        None \<Rightarrow> (Resolved None, st)
      | Some existingMaterial \<Rightarrow>
          let updatedMaterial = spreadMaterial existingMaterial materialData
          in (Resolved (Some updatedMaterial),
              st\<lparr> memStorage.materials :=
                    AList.update i updatedMaterial (memStorage.materials st) \<rparr>))"

definition MemStorage_deleteMaterial :: "nat \<Rightarrow> memStorage \<Rightarrow> bool promise \<times> memStorage" where
  "MemStorage_deleteMaterial i st =
     (let (existed, m) = mapDelete i (memStorage.materials st)
      in (Resolved existed, st\<lparr> memStorage.materials := m \<rparr>))"

subsection \<open>Work orders\<close>

definition MemStorage_getAllWorkOrders :: "memStorage \<Rightarrow> workOrder list promise" where
  "MemStorage_getAllWorkOrders st = Resolved (map snd (memStorage.workOrders st))"

definition MemStorage_getWorkOrder :: "nat \<Rightarrow> memStorage \<Rightarrow> workOrder option promise" where
  "MemStorage_getWorkOrder i st = Resolved (map_of (memStorage.workOrders st) i)"

text \<open>
  The draft is spread first and \<^verbatim>\<open>photos\<close> is not among the properties given a
  default afterwards, so the record keeps the draft's photos.
\<close>

definition MemStorage_createWorkOrder ::
  "timestamp \<Rightarrow> insertWorkOrder \<Rightarrow> memStorage \<Rightarrow> workOrder promise \<times> memStorage" where
  "MemStorage_createWorkOrder now draft st =
     (let i = workOrderIdCounter st;
          orderNumber =
            ''WB-'' @ toString (getFullYear now) @ ''-'' @ padStart 4 ''0'' (toString (int i));
          workOrder =
            \<lparr> id' = i, createdAt = now,
              workOrder.orderNumber = orderNumber,
              workOrder.title = insertWorkOrder.title draft,
              workOrder.description = orNull truthyString (insertWorkOrder.description draft),
              workOrder.customerId = insertWorkOrder.customerId draft,
              workOrder.date = insertWorkOrder.date draft,
              workOrder.status =
                orDefault truthyString (insertWorkOrder.status draft) ''Ingepland'',
              workOrder.laborHours = orNull truthyReal (insertWorkOrder.laborHours draft),
              workOrder.notes = orNull truthyString (insertWorkOrder.notes draft),
              workOrder.materials =
                Some (orElse truthyArray (insertWorkOrder.materials draft) []),
              workOrder.photos = spreadValue None (insertWorkOrder.photos draft) \<rparr>
      in (Resolved workOrder,
          st\<lparr> memStorage.workOrders := AList.update i workOrder (memStorage.workOrders st),
              workOrderIdCounter := i + 1 \<rparr>))"

definition spreadWorkOrder :: "workOrder \<Rightarrow> partialInsertWorkOrder \<Rightarrow> workOrder" where
  "spreadWorkOrder w workOrderData =
     w\<lparr> workOrder.orderNumber :=
           orKeep (workOrder.orderNumber w) (partialInsertWorkOrder.orderNumber workOrderData),
        workOrder.title := orKeep (workOrder.title w) (partialInsertWorkOrder.title workOrderData),
        workOrder.description :=
           spreadValue (workOrder.description w) (partialInsertWorkOrder.description workOrderData),
        workOrder.customerId :=
           orKeep (workOrder.customerId w) (partialInsertWorkOrder.customerId workOrderData),
        workOrder.date := orKeep (workOrder.date w) (partialInsertWorkOrder.date workOrderData),
        workOrder.status :=
           orKeep (workOrder.status w) (partialInsertWorkOrder.status workOrderData),
        workOrder.laborHours :=
           spreadValue (workOrder.laborHours w) (partialInsertWorkOrder.laborHours workOrderData),
        workOrder.notes :=
           spreadValue (workOrder.notes w) (partialInsertWorkOrder.notes workOrderData),
        workOrder.materials :=
           spreadValue (workOrder.materials w) (partialInsertWorkOrder.materials workOrderData),
        workOrder.photos :=
           spreadValue (workOrder.photos w) (partialInsertWorkOrder.photos workOrderData) \<rparr>"

definition MemStorage_updateWorkOrder ::
  "nat \<Rightarrow> partialInsertWorkOrder \<Rightarrow> memStorage \<Rightarrow> workOrder option promise \<times> memStorage" where
  "MemStorage_updateWorkOrder i workOrderData st =
     (case map_of (memStorage.workOrders st) i of
        None \<Rightarrow> (Resolved None, st)
      | Some existingWorkOrder \<Rightarrow>
          let updatedWorkOrder = spreadWorkOrder existingWorkOrder workOrderData
          in (Resolved (Some updatedWorkOrder),
              st\<lparr> memStorage.workOrders :=
                    AList.update i updatedWorkOrder (memStorage.workOrders st) \<rparr>))"

definition MemStorage_deleteWorkOrder :: "nat \<Rightarrow> memStorage \<Rightarrow> bool promise \<times> memStorage" where
  "MemStorage_deleteWorkOrder i st =
     (let (existed, m) = mapDelete i (memStorage.workOrders st)
      in (Resolved existed, st\<lparr> memStorage.workOrders := m \<rparr>))"

subsection \<open>Invoices\<close>

definition MemStorage_getAllInvoices :: "memStorage \<Rightarrow> invoice list promise" where
  "MemStorage_getAllInvoices st = Resolved (map snd (memStorage.invoices st))"

definition MemStorage_getInvoice :: "nat \<Rightarrow> memStorage \<Rightarrow> invoice option promise" where
  "MemStorage_getInvoice i st = Resolved (map_of (memStorage.invoices st) i)"

definition MemStorage_createInvoice ::
  "timestamp \<Rightarrow> insertInvoice \<Rightarrow> memStorage \<Rightarrow> invoice promise \<times> memStorage" where
  "MemStorage_createInvoice now draft st =
     (let i = invoiceIdCounter st;
          invoiceNumber =
            ''F-'' @ toString (getFullYear now) @ ''-'' @ padStart 4 ''0'' (toString (int i));
          invoice =
            \<lparr> id' = i, createdAt = now,
              invoice.invoiceNumber = invoiceNumber,
              invoice.customerId = insertInvoice.customerId draft,
              invoice.workOrderId = orNull truthyNat (insertInvoice.workOrderId draft),
              invoice.date = insertInvoice.date draft,
              invoice.dueDate = insertInvoice.dueDate draft,
              invoice.amount = insertInvoice.amount draft,
              invoice.status = orDefault truthyString (insertInvoice.status draft) ''Concept'',
              invoice.items = Some (orElse truthyArray (insertInvoice.items draft) []) \<rparr>
      in (Resolved invoice,
          st\<lparr> memStorage.invoices := AList.update i invoice (memStorage.invoices st),
              invoiceIdCounter := i + 1 \<rparr>))"

definition spreadInvoice :: "invoice \<Rightarrow> partialInsertInvoice \<Rightarrow> invoice" where
  "spreadInvoice v invoiceData =
     v\<lparr> invoice.invoiceNumber :=
           orKeep (invoice.invoiceNumber v) (partialInsertInvoice.invoiceNumber invoiceData),
        invoice.customerId :=
           orKeep (invoice.customerId v) (partialInsertInvoice.customerId invoiceData),
        invoice.workOrderId :=
           spreadValue (invoice.workOrderId v) (partialInsertInvoice.workOrderId invoiceData),
        invoice.date := orKeep (invoice.date v) (partialInsertInvoice.date invoiceData),
        invoice.dueDate := orKeep (invoice.dueDate v) (partialInsertInvoice.dueDate invoiceData),
        invoice.amount := orKeep (invoice.amount v) (partialInsertInvoice.amount invoiceData),
        invoice.status := orKeep (invoice.status v) (partialInsertInvoice.status invoiceData),
        invoice.items := spreadValue (invoice.items v) (partialInsertInvoice.items invoiceData) \<rparr>"

definition MemStorage_updateInvoice ::
  "nat \<Rightarrow> partialInsertInvoice \<Rightarrow> memStorage \<Rightarrow> invoice option promise \<times> memStorage" where
  "MemStorage_updateInvoice i invoiceData st =
     (case map_of (memStorage.invoices st) i of
        None \<Rightarrow> (Resolved None, st)
      | Some existingInvoice \<Rightarrow>
          let updatedInvoice = spreadInvoice existingInvoice invoiceData
          in (Resolved (Some updatedInvoice),
              st\<lparr> memStorage.invoices :=
                    AList.update i updatedInvoice (memStorage.invoices st) \<rparr>))"

definition MemStorage_deleteInvoice :: "nat \<Rightarrow> memStorage \<Rightarrow> bool promise \<times> memStorage" where
  "MemStorage_deleteInvoice i st =
     (let (existed, m) = mapDelete i (memStorage.invoices st)
      in (Resolved existed, st\<lparr> memStorage.invoices := m \<rparr>))"

subsection \<open>Projects\<close>

definition MemStorage_getAllProjects :: "memStorage \<Rightarrow> project list promise" where
  "MemStorage_getAllProjects st = Resolved (map snd (memStorage.projects st))"

definition MemStorage_getProject :: "nat \<Rightarrow> memStorage \<Rightarrow> project option promise" where
  "MemStorage_getProject i st = Resolved (map_of (memStorage.projects st) i)"

definition MemStorage_createProject ::
  "timestamp \<Rightarrow> insertProject \<Rightarrow> memStorage \<Rightarrow> project promise \<times> memStorage" where
  "MemStorage_createProject now draft st =
     (let i = projectIdCounter st;
          project =
            \<lparr> id' = i, createdAt = now,
              project.title = insertProject.title draft,
              project.description = orNull truthyString (insertProject.description draft),
              project.customerId = insertProject.customerId draft,
              project.startDate = insertProject.startDate draft,
              project.endDate = orNull truthyDate (insertProject.endDate draft),
              project.progress = Some (orElse truthyInt (insertProject.progress draft) 0),
              project.status = orDefault truthyString (insertProject.status draft) ''Gepland'',
              project.workOrders =
                Some (orElse truthyArray (insertProject.workOrders draft) []) \<rparr>
      in (Resolved project,
          st\<lparr> memStorage.projects := AList.update i project (memStorage.projects st),
              projectIdCounter := i + 1 \<rparr>))"

definition spreadProject :: "project \<Rightarrow> partialInsertProject \<Rightarrow> project" where
  "spreadProject p projectData =
     p\<lparr> project.title := orKeep (project.title p) (partialInsertProject.title projectData),
        project.description :=
           spreadValue (project.description p) (partialInsertProject.description projectData),
        project.customerId :=
           orKeep (project.customerId p) (partialInsertProject.customerId projectData),
        project.startDate :=
           orKeep (project.startDate p) (partialInsertProject.startDate projectData),
        project.endDate :=
           spreadValue (project.endDate p) (partialInsertProject.endDate projectData),
        project.progress :=
           spreadValue (project.progress p) (partialInsertProject.progress projectData),
        project.status := orKeep (project.status p) (partialInsertProject.status projectData),
        project.workOrders :=
           spreadValue (project.workOrders p) (partialInsertProject.workOrders projectData) \<rparr>"

definition MemStorage_updateProject ::
  "nat \<Rightarrow> partialInsertProject \<Rightarrow> memStorage \<Rightarrow> project option promise \<times> memStorage" where
  "MemStorage_updateProject i projectData st =
     (case map_of (memStorage.projects st) i of
        None \<Rightarrow> (Resolved None, st)
      | Some existingProject \<Rightarrow>
          let updatedProject = spreadProject existingProject projectData
          in (Resolved (Some updatedProject),
              st\<lparr> memStorage.projects :=
                    AList.update i updatedProject (memStorage.projects st) \<rparr>))"

definition MemStorage_deleteProject :: "nat \<Rightarrow> memStorage \<Rightarrow> bool promise \<times> memStorage" where
  "MemStorage_deleteProject i st =
     (let (existed, m) = mapDelete i (memStorage.projects st)
      in (Resolved existed, st\<lparr> memStorage.projects := m \<rparr>))"

section \<open>HTTP routes (server/routes.ts)\<close>

text \<open>
  A handler answers with a status code and a JSON entity, a JSON message, or no body.
  The handlers call the storage through the \<^verbatim>\<open>IStorage\<close> interface, so each one
  takes the storage method it calls as an argument; the application binds them to
  \<^verbatim>\<open>DatabaseStorage\<close>. The id of a route is \<^verbatim>\<open>parseInt(req.params.id)\<close>; a path
  segment that is no number gives \<^verbatim>\<open>NaN\<close>, which the database refuses (a failed
  statement) and which is no key of a \<^verbatim>\<open>Map\<close>.
\<close>

datatype 'a body = Json 'a | Message string | End

datatype 'a response = Response (statusCode: nat) (responseBody: "'a body")

subsection \<open>Customers\<close>

definition get_api_customers ::
  "('st \<Rightarrow> customer list promise) \<Rightarrow> 'st \<Rightarrow> customer list response" where
  "get_api_customers getAllCustomers st =
     (case getAllCustomers st of
        Rejected \<Rightarrow> Response 500 (Message ''Error fetching customers'')
      | Resolved allCustomers \<Rightarrow> Response 200 (Json allCustomers))"

definition get_api_customers_id ::
  "(nat \<Rightarrow> 'st \<Rightarrow> customer option promise) \<Rightarrow> nat \<Rightarrow> 'st \<Rightarrow> customer response" where
  "get_api_customers_id getCustomer i st =
     (case getCustomer i st of
        Rejected \<Rightarrow> Response 500 (Message ''Error fetching customer'')
      | Resolved None \<Rightarrow> Response 404 (Message ''Customer not found'')
      | Resolved (Some found) \<Rightarrow> Response 200 (Json found))"

definition post_api_customers ::
  "(insertCustomer \<Rightarrow> 'st \<Rightarrow> customer promise \<times> 'st) \<Rightarrow> insertCustomer \<Rightarrow> 'st
     \<Rightarrow> customer response \<times> 'st" where
  "post_api_customers createCustomer reqBody st =
     (case createCustomer reqBody st of
        (Rejected, st') \<Rightarrow> (Response 500 (Message ''Error creating customer''), st')
      | (Resolved newCustomer, st') \<Rightarrow> (Response 201 (Json newCustomer), st'))"

definition put_api_customers_id ::
  "(nat \<Rightarrow> partialInsertCustomer \<Rightarrow> 'st \<Rightarrow> customer option promise \<times> 'st)
     \<Rightarrow> nat \<Rightarrow> partialInsertCustomer \<Rightarrow> 'st \<Rightarrow> customer response \<times> 'st" where
  "put_api_customers_id updateCustomer i reqBody st =
     (case updateCustomer i reqBody st of
        (Rejected, st') \<Rightarrow> (Response 500 (Message ''Error updating customer''), st')
      | (Resolved None, st') \<Rightarrow> (Response 404 (Message ''Customer not found''), st')
      | (Resolved (Some updatedCustomer), st') \<Rightarrow> (Response 200 (Json updatedCustomer), st'))"

definition delete_api_customers_id ::
  "(nat \<Rightarrow> 'st \<Rightarrow> bool promise \<times> 'st) \<Rightarrow> nat \<Rightarrow> 'st \<Rightarrow> unit response \<times> 'st" where
  "delete_api_customers_id deleteCustomer i st =
     (case deleteCustomer i st of
        (Rejected, st') \<Rightarrow> (Response 500 (Message ''Error deleting customer''), st')
      | (Resolved success, st') \<Rightarrow>
          if \<not> success then (Response 404 (Message ''Customer not found''), st')
          else (Response 204 End, st'))"

subsection \<open>Work orders\<close>

definition get_api_workorders ::
  "('st \<Rightarrow> workOrder list promise) \<Rightarrow> 'st \<Rightarrow> workOrder list response" where
  "get_api_workorders getAllWorkOrders st =
     (case getAllWorkOrders st of
        Rejected \<Rightarrow> Response 500 (Message ''Error fetching work orders'')
      | Resolved allWorkOrders \<Rightarrow> Response 200 (Json allWorkOrders))"

definition get_api_workorders_id ::
  "(nat \<Rightarrow> 'st \<Rightarrow> workOrder option promise) \<Rightarrow> nat \<Rightarrow> 'st \<Rightarrow> workOrder response" where
  "get_api_workorders_id getWorkOrder woId st =
     (case getWorkOrder woId st of
        Rejected \<Rightarrow> Response 500 (Message ''Error fetching work order'')
      | Resolved None \<Rightarrow> Response 404 (Message ''Work order not found'')
      | Resolved (Some found) \<Rightarrow> Response 200 (Json found))"

definition post_api_workorders ::
  "(insertWorkOrder \<Rightarrow> 'st \<Rightarrow> workOrder promise \<times> 'st) \<Rightarrow> insertWorkOrder \<Rightarrow> 'st
     \<Rightarrow> workOrder response \<times> 'st" where
  "post_api_workorders createWorkOrder reqBody st =
     (case createWorkOrder reqBody st of
        (Rejected, st') \<Rightarrow> (Response 500 (Message ''Error creating work order''), st')
      | (Resolved newWorkOrder, st') \<Rightarrow> (Response 201 (Json newWorkOrder), st'))"

definition put_api_workorders_id ::
  "(nat \<Rightarrow> partialInsertWorkOrder \<Rightarrow> 'st \<Rightarrow> workOrder option promise \<times> 'st)
     \<Rightarrow> nat \<Rightarrow> partialInsertWorkOrder \<Rightarrow> 'st \<Rightarrow> workOrder response \<times> 'st" where
  "put_api_workorders_id updateWorkOrder woId reqBody st =
     (case updateWorkOrder woId reqBody st of
        (Rejected, st') \<Rightarrow> (Response 500 (Message ''Error updating work order''), st')
      | (Resolved None, st') \<Rightarrow> (Response 404 (Message ''Work order not found''), st')
      | (Resolved (Some updatedWorkOrder), st') \<Rightarrow> (Response 200 (Json updatedWorkOrder), st'))"

definition delete_api_workorders_id ::
  "(nat \<Rightarrow> 'st \<Rightarrow> bool promise \<times> 'st) \<Rightarrow> nat \<Rightarrow> 'st \<Rightarrow> unit response \<times> 'st" where
  "delete_api_workorders_id deleteWorkOrder woId st =
     (case deleteWorkOrder woId st of
        (Rejected, st') \<Rightarrow> (Response 500 (Message ''Error deleting work order''), st')
      | (Resolved success, st') \<Rightarrow>
          if \<not> success then (Response 404 (Message ''Work order not found''), st')
          else (Response 204 End, st'))"

text \<open>
  The body of \<^verbatim>\<open>PATCH /api/workorders/:id/status\<close>; a status that is missing or
  falsy is a caller error.
\<close>

record statusBody =
  status :: "string field"

definition patch_api_workorders_id_status ::
  "(nat \<Rightarrow> partialInsertWorkOrder \<Rightarrow> 'st \<Rightarrow> workOrder option promise \<times> 'st)
     \<Rightarrow> nat \<Rightarrow> statusBody \<Rightarrow> 'st \<Rightarrow> workOrder response \<times> 'st" where
  "patch_api_workorders_id_status updateWorkOrder woId reqBody st =
     (case orNull truthyString (statusBody.status reqBody) of
        None \<Rightarrow> (Response 400 (Message ''Status is required''), st)
      | Some status' \<Rightarrow>
          (case updateWorkOrder woId
                  \<lparr> partialInsertWorkOrder.orderNumber = None,
                    partialInsertWorkOrder.title = None,
                    partialInsertWorkOrder.description = Missing,
                    partialInsertWorkOrder.customerId = None,
                    partialInsertWorkOrder.date = None,
                    partialInsertWorkOrder.status = Some status',
                    partialInsertWorkOrder.laborHours = Missing,
                    partialInsertWorkOrder.notes = Missing,
                    partialInsertWorkOrder.materials = Missing,
                    partialInsertWorkOrder.photos = Missing \<rparr> st of
             (Rejected, st') \<Rightarrow>
               (Response 500 (Message ''Error updating work order status''), st')
           | (Resolved None, st') \<Rightarrow> (Response 404 (Message ''Work order not found''), st')
           | (Resolved (Some updatedWorkOrder), st') \<Rightarrow>
               (Response 200 (Json updatedWorkOrder), st')))"

text \<open>
  The body of \<^verbatim>\<open>PUT /api/workorders/:id/complete\<close>. Destructuring reads a missing
  key as \<^verbatim>\<open>undefined\<close>, and the object handed to the storage has all four keys.
\<close>

record completeBody =
  "notes" :: "string field"
  laborHours :: "real field"
  photos :: "string list field"

definition destructure :: "'a field \<Rightarrow> 'a field" where
  "destructure x = (case x of Missing \<Rightarrow> Undefined | y \<Rightarrow> y)"

definition put_api_workorders_id_complete ::
  "(nat \<Rightarrow> partialInsertWorkOrder \<Rightarrow> 'st \<Rightarrow> workOrder option promise \<times> 'st)
     \<Rightarrow> nat \<Rightarrow> completeBody \<Rightarrow> 'st \<Rightarrow> workOrder response \<times> 'st" where
  "put_api_workorders_id_complete updateWorkOrder woId reqBody st =
     (let notes' = destructure (completeBody.notes reqBody);
          laborHours' = destructure (completeBody.laborHours reqBody);
          photos' = destructure (completeBody.photos reqBody)
      in if \<not> isDefined laborHours'
         then (Response 400 (Message ''Labor hours are required''), st)
         else
           case updateWorkOrder woId
                  \<lparr> partialInsertWorkOrder.orderNumber = None,
                    partialInsertWorkOrder.title = None,
                    partialInsertWorkOrder.description = Missing,
                    partialInsertWorkOrder.customerId = None,
                    partialInsertWorkOrder.date = None,
                    partialInsertWorkOrder.status = Some ''Voltooid'',
                    partialInsertWorkOrder.laborHours = laborHours',
                    partialInsertWorkOrder.notes = notes',
                    partialInsertWorkOrder.materials = Missing,
                    partialInsertWorkOrder.photos = photos' \<rparr> st of
             (Rejected, st') \<Rightarrow> (Response 500 (Message ''Error completing work order''), st')
           | (Resolved None, st') \<Rightarrow> (Response 404 (Message ''Work order not found''), st')
           | (Resolved (Some updatedWorkOrder), st') \<Rightarrow>
               (Response 200 (Json updatedWorkOrder), st'))"

subsection \<open>Materials\<close>

definition get_api_materials ::
  "('st \<Rightarrow> material list promise) \<Rightarrow> 'st \<Rightarrow> material list response" where
  "get_api_materials getAllMaterials st =
     (case getAllMaterials st of
        Rejected \<Rightarrow> Response 500 (Message ''Error fetching materials'')
      | Resolved allMaterials \<Rightarrow> Response 200 (Json allMaterials))"

definition get_api_materials_id ::
  "(nat \<Rightarrow> 'st \<Rightarrow> material option promise) \<Rightarrow> nat \<Rightarrow> 'st \<Rightarrow> material response" where
  "get_api_materials_id getMaterial i st =
     (case getMaterial i st of
        Rejected \<Rightarrow> Response 500 (Message ''Error fetching material'')
      | Resolved None \<Rightarrow> Response 404 (Message ''Material not found'')
      | Resolved (Some found) \<Rightarrow> Response 200 (Json found))"

definition post_api_materials ::
  "(insertMaterial \<Rightarrow> 'st \<Rightarrow> material promise \<times> 'st) \<Rightarrow> insertMaterial \<Rightarrow> 'st
     \<Rightarrow> material response \<times> 'st" where
  "post_api_materials createMaterial reqBody st =
     (case createMaterial reqBody st of
        (Rejected, st') \<Rightarrow> (Response 500 (Message ''Error creating material''), st')
      | (Resolved newMaterial, st') \<Rightarrow> (Response 201 (Json newMaterial), st'))"

definition put_api_materials_id ::
  "(nat \<Rightarrow> partialInsertMaterial \<Rightarrow> 'st \<Rightarrow> material option promise \<times> 'st)
     \<Rightarrow> nat \<Rightarrow> partialInsertMaterial \<Rightarrow> 'st \<Rightarrow> material response \<times> 'st" where
  "put_api_materials_id updateMaterial i reqBody st =
     (case updateMaterial i reqBody st of
        (Rejected, st') \<Rightarrow> (Response 500 (Message ''Error updating material''), st')
      | (Resolved None, st') \<Rightarrow> (Response 404 (Message ''Material not found''), st')
      | (Resolved (Some updatedMaterial), st') \<Rightarrow> (Response 200 (Json updatedMaterial), st'))"

definition delete_api_materials_id ::
  "(nat \<Rightarrow> 'st \<Rightarrow> bool promise \<times> 'st) \<Rightarrow> nat \<Rightarrow> 'st \<Rightarrow> unit response \<times> 'st" where
  "delete_api_materials_id deleteMaterial i st =
     (case deleteMaterial i st of
        (Rejected, st') \<Rightarrow> (Response 500 (Message ''Error deleting material''), st')
      | (Resolved success, st') \<Rightarrow>
          if \<not> success then (Response 404 (Message ''Material not found''), st')
          else (Response 204 End, st'))"

subsection \<open>Invoices\<close>

definition get_api_invoices ::
  "('st \<Rightarrow> invoice list promise) \<Rightarrow> 'st \<Rightarrow> invoice list response" where
  "get_api_invoices getAllInvoices st =
     (case getAllInvoices st of
        Rejected \<Rightarrow> Response 500 (Message ''Error fetching invoices'')
      | Resolved allInvoices \<Rightarrow> Response 200 (Json allInvoices))"

definition get_api_invoices_id ::
  "(nat \<Rightarrow> 'st \<Rightarrow> invoice option promise) \<Rightarrow> nat \<Rightarrow> 'st \<Rightarrow> invoice response" where
  "get_api_invoices_id getInvoice i st =
     (case getInvoice i st of
        Rejected \<Rightarrow> Response 500 (Message ''Error fetching invoice'')
      | Resolved None \<Rightarrow> Response 404 (Message ''Invoice not found'')
      | Resolved (Some found) \<Rightarrow> Response 200 (Json found))"

definition post_api_invoices ::
  "(insertInvoice \<Rightarrow> 'st \<Rightarrow> invoice promise \<times> 'st) \<Rightarrow> insertInvoice \<Rightarrow> 'st
     \<Rightarrow> invoice response \<times> 'st" where
  "post_api_invoices createInvoice reqBody st =
     (case createInvoice reqBody st of
        (Rejected, st') \<Rightarrow> (Response 500 (Message ''Error creating invoice''), st')
      | (Resolved newInvoice, st') \<Rightarrow> (Response 201 (Json newInvoice), st'))"

definition put_api_invoices_id ::
  "(nat \<Rightarrow> partialInsertInvoice \<Rightarrow> 'st \<Rightarrow> invoice option promise \<times> 'st)
     \<Rightarrow> nat \<Rightarrow> partialInsertInvoice \<Rightarrow> 'st \<Rightarrow> invoice response \<times> 'st" where
  "put_api_invoices_id updateInvoice i reqBody st =
     (case updateInvoice i reqBody st of
        (Rejected, st') \<Rightarrow> (Response 500 (Message ''Error updating invoice''), st')
      | (Resolved None, st') \<Rightarrow> (Response 404 (Message ''Invoice not found''), st')
      | (Resolved (Some updatedInvoice), st') \<Rightarrow> (Response 200 (Json updatedInvoice), st'))"

definition delete_api_invoices_id ::
  "(nat \<Rightarrow> 'st \<Rightarrow> bool promise \<times> 'st) \<Rightarrow> nat \<Rightarrow> 'st \<Rightarrow> unit response \<times> 'st" where
  "delete_api_invoices_id deleteInvoice i st =
     (case deleteInvoice i st of
        (Rejected, st') \<Rightarrow> (Response 500 (Message ''Error deleting invoice''), st')
      | (Resolved success, st') \<Rightarrow>
          if \<not> success then (Response 404 (Message ''Invoice not found''), st')
          else (Response 204 End, st'))"

subsection \<open>Projects\<close>

definition get_api_projects ::
  "('st \<Rightarrow> project list promise) \<Rightarrow> 'st \<Rightarrow> project list response" where
  "get_api_projects getAllProjects st =
     (case getAllProjects st of
        Rejected \<Rightarrow> Response 500 (Message ''Error fetching projects'')
      | Resolved allProjects \<Rightarrow> Response 200 (Json allProjects))"

definition get_api_projects_id ::
  "(nat \<Rightarrow> 'st \<Rightarrow> project option promise) \<Rightarrow> nat \<Rightarrow> 'st \<Rightarrow> project response" where
  "get_api_projects_id getProject i st =
     (case getProject i st of
        Rejected \<Rightarrow> Response 500 (Message ''Error fetching project'')
      | Resolved None \<Rightarrow> Response 404 (Message ''Project not found'')
      | Resolved (Some found) \<Rightarrow> Response 200 (Json found))"

definition post_api_projects ::
  "(insertProject \<Rightarrow> 'st \<Rightarrow> project promise \<times> 'st) \<Rightarrow> insertProject \<Rightarrow> 'st
     \<Rightarrow> project response \<times> 'st" where
  "post_api_projects createProject reqBody st =
     (case createProject reqBody st of
        (Rejected, st') \<Rightarrow> (Response 500 (Message ''Error creating project''), st')
      | (Resolved newProject, st') \<Rightarrow> (Response 201 (Json newProject), st'))"

definition put_api_projects_id ::
  "(nat \<Rightarrow> partialInsertProject \<Rightarrow> 'st \<Rightarrow> project option promise \<times> 'st)
     \<Rightarrow> nat \<Rightarrow> partialInsertProject \<Rightarrow> 'st \<Rightarrow> project response \<times> 'st" where
  "put_api_projects_id updateProject i reqBody st =
     (case updateProject i reqBody st of
        (Rejected, st') \<Rightarrow> (Response 500 (Message ''Error updating project''), st')
      | (Resolved None, st') \<Rightarrow> (Response 404 (Message ''Project not found''), st')
      | (Resolved (Some updatedProject), st') \<Rightarrow> (Response 200 (Json updatedProject), st'))"

definition delete_api_projects_id ::
  "(nat \<Rightarrow> 'st \<Rightarrow> bool promise \<times> 'st) \<Rightarrow> nat \<Rightarrow> 'st \<Rightarrow> unit response \<times> 'st" where
  "delete_api_projects_id deleteProject i st =
     (case deleteProject i st of
        (Rejected, st') \<Rightarrow> (Response 500 (Message ''Error deleting project''), st')
      | (Resolved success, st') \<Rightarrow>
          if \<not> success then (Response 404 (Message ''Project not found''), st')
          else (Response 204 End, st'))"

subsection \<open>Dashboard statistics\<close>

record monthRevenue =
  month :: string
  amount :: real

record workOrderCounts =
  nieuw :: nat
  inBehandeling :: nat
  voltooid :: nat

record invoiceCounts =
  concept :: nat
  verzonden :: nat
  betaald :: nat
  teLaat :: nat

record dashboardStats =
  totalWorkOrders :: nat
  totalCustomers :: nat
  totalMaterials :: nat
  totalInvoices :: nat
  workOrdersByStatus :: workOrderCounts
  invoicesByStatus :: invoiceCounts
  recentInvoices :: "invoice list"
  lowStockMaterials :: "material list"
  monthlyRevenue :: "monthRevenue list"

definition monthNames :: "string list" where
  "monthNames = [''Jan'', ''Feb'', ''Mrt'', ''Apr'', ''Mei'', ''Jun'',
                 ''Jul'', ''Aug'', ''Sep'', ''Okt'', ''Nov'', ''Dec'']"

text \<open>
  The amounts are added as doubles, from the left, starting at 0. The addition of the
  engine rounds, so it is not the addition of the reals: it is the parameter \<open>add\<close>.
\<close>

definition monthlyRevenue ::
  "(real \<Rightarrow> real \<Rightarrow> real) \<Rightarrow> int \<Rightarrow> invoice list \<Rightarrow> monthRevenue list" where
  "monthlyRevenue add currentYear allInvoices =
     map (\<lambda>m.
            let total =
                  foldl (\<lambda>sum inv.
                           add sum (if truthyReal (invoice.amount inv) then invoice.amount inv else 0))
                    0
                    (filter (\<lambda>inv.
                               let invDate = invoice.date inv
                               in getMonth invDate = m
                                  \<and> getFullYear invDate = currentYear
                                  \<and> invoice.status inv \<noteq> ''Concept'')
                       allInvoices)
            in \<lparr> month = monthNames ! m, amount = total \<rparr>)
       [0..<12]"

definition workOrdersByStatus :: "workOrder list \<Rightarrow> workOrderCounts" where
  "workOrdersByStatus allWorkOrders =
     \<lparr> nieuw = length (filter (\<lambda>wo. workOrder.status wo = ''Nieuw'') allWorkOrders),
       inBehandeling = length (filter (\<lambda>wo. workOrder.status wo = ''In behandeling'') allWorkOrders),
       voltooid = length (filter (\<lambda>wo. workOrder.status wo = ''Voltooid'') allWorkOrders) \<rparr>"

definition invoicesByStatus :: "invoice list \<Rightarrow> invoiceCounts" where
  "invoicesByStatus allInvoices =
     \<lparr> concept = length (filter (\<lambda>inv. invoice.status inv = ''Concept'') allInvoices),
       verzonden = length (filter (\<lambda>inv. invoice.status inv = ''Verzonden'') allInvoices),
       betaald = length (filter (\<lambda>inv. invoice.status inv = ''Betaald'') allInvoices),
       teLaat = length (filter (\<lambda>inv. invoice.status inv = ''Te laat'') allInvoices) \<rparr>"

definition lowStockMaterials :: "material list \<Rightarrow> material list" where
  "lowStockMaterials allMaterials =
     take 5 (filter (\<lambda>m. case (material.stock m, material.minStock m) of
                            (Some s, Some ms) \<Rightarrow> s \<le> ms
                          | _ \<Rightarrow> False)
               allMaterials)"

definition recentInvoices :: "invoice list \<Rightarrow> invoice list" where
  "recentInvoices allInvoices =
     take 5 (sort_key (\<lambda>inv. - getTime (invoice.date inv)) allInvoices)"

definition get_api_dashboard_stats ::
  "('st \<Rightarrow> workOrder list promise) \<Rightarrow> ('st \<Rightarrow> customer list promise)
     \<Rightarrow> ('st \<Rightarrow> material list promise) \<Rightarrow> ('st \<Rightarrow> invoice list promise)
     \<Rightarrow> (real \<Rightarrow> real \<Rightarrow> real) \<Rightarrow> timestamp \<Rightarrow> 'st \<Rightarrow> dashboardStats response" where
  "get_api_dashboard_stats getAllWorkOrders getAllCustomers getAllMaterials getAllInvoices
     add clock st =
     (case (getAllWorkOrders st, getAllCustomers st, getAllMaterials st, getAllInvoices st) of
        (Resolved allWorkOrders, Resolved allCustomers, Resolved allMaterials, Resolved allInvoices) \<Rightarrow>
          let currentYear = getFullYear clock
          in Response 200 (Json
               \<lparr> totalWorkOrders = length allWorkOrders,
                 totalCustomers = length allCustomers,
                 totalMaterials = length allMaterials,
                 totalInvoices = length allInvoices,
                 dashboardStats.workOrdersByStatus = workOrdersByStatus allWorkOrders,
                 dashboardStats.invoicesByStatus = invoicesByStatus allInvoices,
                 dashboardStats.recentInvoices = recentInvoices allInvoices,
                 dashboardStats.lowStockMaterials = lowStockMaterials allMaterials,
                 dashboardStats.monthlyRevenue = monthlyRevenue add currentYear allInvoices \<rparr>)
      | _ \<Rightarrow> Response 500 (Message ''Failed to generate dashboard statistics''))"

section \<open>Auxiliary notions for the properties\<close>

text \<open>
  The monthly revenue as the specification words it: the sum of \<open>amount\<close> over the
  invoices dated in month \<open>m\<close> of the current year whose status is not Concept. The
  sum is formed with the addition \<open>add\<close> of the engine, from the left, starting at 0,
  over the invoices in the order given.
\<close>

definition spec_monthRevenue ::
  "(real \<Rightarrow> real \<Rightarrow> real) \<Rightarrow> int \<Rightarrow> nat \<Rightarrow> invoice list \<Rightarrow> real" where
  "spec_monthRevenue add currentYear m allInvoices =
     foldl add 0
       (map invoice.amount
          (filter (\<lambda>inv. getMonth (invoice.date inv) = m
                         \<and> getFullYear (invoice.date inv) = currentYear
                         \<and> invoice.status inv \<noteq> ''Concept'')
             allInvoices))"

subsection \<open>Absent answers\<close>

text \<open>
  The read, the update and the delete of one entity class answer that there is no such
  record: \<^verbatim>\<open>undefined\<close>, \<^verbatim>\<open>undefined\<close> and \<^verbatim>\<open>false\<close>, with the store left as
  it was.
\<close>

definition absentAnswers ::
  "(nat \<Rightarrow> 'st \<Rightarrow> 'r option promise) \<Rightarrow> (nat \<Rightarrow> 'p \<Rightarrow> 'st \<Rightarrow> 'r option promise \<times> 'st)
     \<Rightarrow> (nat \<Rightarrow> 'st \<Rightarrow> bool promise \<times> 'st) \<Rightarrow> nat \<Rightarrow> 'p \<Rightarrow> 'st \<Rightarrow> bool" where
  "absentAnswers get update delete i p st =
     (get i st = Resolved None
      \<and> update i p st = (Resolved None, st)
      \<and> delete i st = (Resolved False, st))"

text \<open>
  The three routes of one entity class that take an id answer 404 with the message of
  the class, and leave the store as it was.
\<close>

definition notFoundResponses ::
  "(nat \<Rightarrow> 'st \<Rightarrow> 'r response) \<Rightarrow> (nat \<Rightarrow> 'p \<Rightarrow> 'st \<Rightarrow> 'r response \<times> 'st)
     \<Rightarrow> (nat \<Rightarrow> 'st \<Rightarrow> unit response \<times> 'st) \<Rightarrow> string \<Rightarrow> nat \<Rightarrow> 'p \<Rightarrow> 'st \<Rightarrow> bool" where
  "notFoundResponses getRoute putRoute deleteRoute message i p st =
     (getRoute i st = Response 404 (Message message)
      \<and> putRoute i p st = (Response 404 (Message message), st)
      \<and> deleteRoute i st = (Response 404 (Message message), st))"

subsection \<open>Notions the properties of the identifier generators are stated with\<close>

text \<open>
  The most recently created record of a table is the row with the greatest id: the serial
  sequence hands out increasing ids.
\<close>

definition latestRecord :: "('a entity_scheme) list \<Rightarrow> 'a entity_scheme \<Rightarrow> bool" where
  "latestRecord rows r = (r \<in> set rows \<and> (\<forall>x \<in> set rows. x = r \<or> id' x < id' r))"

text \<open>A decimal digit, a hexadecimal digit (code units of 0-9, a-f, A-F).\<close>

definition isDigit :: "char \<Rightarrow> bool" where
  "isDigit c = (48 \<le> (of_char c :: nat) \<and> (of_char c :: nat) \<le> 57)"

definition isHexDigit :: "char \<Rightarrow> bool" where
  "isHexDigit c =
     (isDigit c
      \<or> (97 \<le> (of_char c :: nat) \<and> (of_char c :: nat) \<le> 102)
      \<or> (65 \<le> (of_char c :: nat) \<and> (of_char c :: nat) \<le> 70))"

text \<open>\<open>code\<close> begins with \<open>pre\<close>.\<close>

fun beginsWith :: "string \<Rightarrow> string \<Rightarrow> bool" where
  "beginsWith [] code = True"
| "beginsWith (p # pre) [] = False"
| "beginsWith (p # pre) (c # code) = (p = c \<and> beginsWith pre code)"

text \<open>A text without its leading white space and without one sign after that.\<close>

definition withoutSign :: "string \<Rightarrow> string" where
  "withoutSign s =
     (case dropWhile isWhiteSpace s of
        [] \<Rightarrow> []
      | c # t \<Rightarrow> if c = CHR ''+'' \<or> c = CHR ''-'' then t else c # t)"

text \<open>
  No number can be read from a suffix: after white space and sign it is empty or begins
  with a character that is no decimal digit, or it begins with \<^verbatim>\<open>0x\<close> or
  \<^verbatim>\<open>0X\<close> and no hexadecimal digit follows.
\<close>

definition readsNoNumber :: "string \<Rightarrow> bool" where
  "readsNoNumber suffix =
     (let u = withoutSign suffix
      in if beginsWith ''0x'' u \<or> beginsWith ''0X'' u
         then (case drop 2 u of [] \<Rightarrow> True | h # _ \<Rightarrow> \<not> isHexDigit h)
         else (case u of [] \<Rightarrow> True | c # _ \<Rightarrow> \<not> isDigit c))"

text \<open>
  A code does not parse against a scope prefix: it is empty, it does not begin with the
  prefix, or no number can be read from what follows the prefix.
\<close>

definition unparsable :: "string \<Rightarrow> string \<Rightarrow> bool" where
  "unparsable pre code =
     (code = [] \<or> \<not> beginsWith pre code \<or> readsNoNumber (drop (length pre) code))"

text \<open>The number written by a text of decimal digits.\<close>

definition decimal :: "string \<Rightarrow> nat" where
  "decimal ds = foldl (\<lambda>n c. 10 * n + ((of_char c :: nat) - 48)) 0 ds"

text \<open>
  A suffix that begins with the decimal digits \<open>ds\<close>: they are followed by nothing or
  by a character that is no digit, and the suffix does not begin with \<^verbatim>\<open>0x\<close> or
  \<^verbatim>\<open>0X\<close>.
\<close>

definition leadingDigits :: "string \<Rightarrow> string \<Rightarrow> string \<Rightarrow> bool" where
  "leadingDigits ds rest suffix =
     (suffix = ds @ rest \<and> ds \<noteq> [] \<and> list_all isDigit ds
      \<and> (case rest of [] \<Rightarrow> True | c # _ \<Rightarrow> \<not> isDigit c)
      \<and> \<not> beginsWith ''0x'' suffix \<and> \<not> beginsWith ''0X'' suffix)"

text \<open>\<open>pre\<close>, four digits of the year, a hyphen, four digits.\<close>

definition matchesYearCode :: "string \<Rightarrow> string \<Rightarrow> bool" where
  "matchesYearCode pre code =
     (length code = length pre + 9
      \<and> take (length pre) code = pre
      \<and> list_all isDigit (take 4 (drop (length pre) code))
      \<and> code ! (length pre + 4) = CHR ''-''
      \<and> list_all isDigit (drop (length pre + 5) code))"

text \<open>\<open>pre\<close> and then exactly \<open>w\<close> digits.\<close>

definition matchesPlainCode :: "string \<Rightarrow> nat \<Rightarrow> string \<Rightarrow> bool" where
  "matchesPlainCode pre w code =
     (length code = length pre + w
      \<and> take (length pre) code = pre
      \<and> list_all isDigit (drop (length pre) code))"

text \<open>
  Creating records one after the other: each request is handled on the store the
  previous one left.
\<close>

fun createEach ::
  "('req \<Rightarrow> 'st \<Rightarrow> 'r promise \<times> 'st) \<Rightarrow> 'req list \<Rightarrow> 'st \<Rightarrow> 'r promise list \<times> 'st" where
  "createEach create [] st = ([], st)"
| "createEach create (req # reqs) st =
     (case create req st of
        (r, st') \<Rightarrow> (case createEach create reqs st' of (rs, st'') \<Rightarrow> (r # rs, st'')))"

text \<open>The code of a settled creation, if it was resolved.\<close>

definition codeOf :: "('r \<Rightarrow> string) \<Rightarrow> 'r promise \<Rightarrow> string option" where
  "codeOf code p = (case p of Resolved r \<Rightarrow> Some (code r) | Rejected \<Rightarrow> None)"

subsection \<open>Concrete inputs\<close>

definition sampleClock :: timestamp where
  "sampleClock = \<lparr> getTime = 1750000000000, getFullYear = 2025, getMonth = 5 \<rparr>"

definition sampleEarlier :: timestamp where
  "sampleEarlier = \<lparr> getTime = 1740000000000, getFullYear = 2025, getMonth = 1 \<rparr>"

text \<open>The database after the schema is created: empty tables, sequences at 1.\<close>

definition emptyDatabase :: database where
  "emptyDatabase =
     \<lparr> database.users = [], users_id_seq = 1,
       database.customers = [], customers_id_seq = 1,
       database.materials = [], materials_id_seq = 1,
       work_orders = [], work_orders_id_seq = 1,
       database.invoices = [], invoices_id_seq = 1,
       database.projects = [], projects_id_seq = 1 \<rparr>"

text \<open>
  A stand-in for the text the engine gives beyond the exact integers; no concrete input
  below reaches it.
\<close>

definition sampleInexact :: "int \<Rightarrow> string" where
  "sampleInexact number = ''Infinity''"

definition sampleCustomerDraft :: insertCustomer where
  "sampleCustomerDraft =
     \<lparr> insertCustomer.customerNumber = [], insertCustomer.name = ''Jansen'',
       insertCustomer.type = ''Particulier'', insertCustomer.street = ''Dorpsstraat 1'',
       insertCustomer.postalCode = ''1234 AB'', insertCustomer.city = ''Utrecht'',
       insertCustomer.email = Missing, insertCustomer.phone = Missing,
       insertCustomer.status = None \<rparr>"

definition sampleMaterialDraft :: insertMaterial where
  "sampleMaterialDraft =
     \<lparr> insertMaterial.articleNumber = [], insertMaterial.name = ''Koperen buis'',
       insertMaterial.brand = Missing, insertMaterial.category = ''Leidingen'',
       insertMaterial.price = 12, insertMaterial.stock = Value 3,
       insertMaterial.minStock = Value 5, insertMaterial.supplier = Missing \<rparr>"

definition sampleWorkOrderDraft :: insertWorkOrder where
  "sampleWorkOrderDraft =
     \<lparr> insertWorkOrder.orderNumber = [], insertWorkOrder.title = ''Ketel vervangen'',
       insertWorkOrder.description = Missing, insertWorkOrder.customerId = 1,
       insertWorkOrder.date = sampleEarlier, insertWorkOrder.status = None,
       insertWorkOrder.laborHours = Missing, insertWorkOrder.notes = Missing,
       insertWorkOrder.materials = Missing, insertWorkOrder.photos = Missing \<rparr>"

definition sampleInvoiceDraft :: insertInvoice where
  "sampleInvoiceDraft =
     \<lparr> insertInvoice.invoiceNumber = [], insertInvoice.customerId = 1,
       insertInvoice.workOrderId = Missing, insertInvoice.date = sampleEarlier,
       insertInvoice.dueDate = sampleClock, insertInvoice.amount = 250,
       insertInvoice.status = Some ''Verzonden'', insertInvoice.items = Missing \<rparr>"

definition sampleCompleteBody :: completeBody where
  "sampleCompleteBody =
     \<lparr> completeBody.notes = Value ''done'', completeBody.laborHours = Value (7 / 2),
       completeBody.photos = Value [''aGVsbG8=''] \<rparr>"

definition bodyWithoutLaborHours :: completeBody where
  "bodyWithoutLaborHours =
     \<lparr> completeBody.notes = Value ''done'', completeBody.laborHours = Missing,
       completeBody.photos = Value [] \<rparr>"

definition bodyWithoutPhotos :: completeBody where
  "bodyWithoutPhotos =
     \<lparr> completeBody.notes = Value ''done'', completeBody.laborHours = Value 0,
       completeBody.photos = Value [] \<rparr>"

definition sampleCustomerPatch :: partialInsertCustomer where
  "sampleCustomerPatch =
     \<lparr> partialInsertCustomer.customerNumber = None, partialInsertCustomer.name = None,
       partialInsertCustomer.type = None, partialInsertCustomer.street = None,
       partialInsertCustomer.postalCode = None, partialInsertCustomer.city = Some ''Amersfoort'',
       partialInsertCustomer.email = Missing, partialInsertCustomer.phone = Missing,
       partialInsertCustomer.status = None \<rparr>"

definition renumberCustomerPatch :: partialInsertCustomer where
  "renumberCustomerPatch =
     sampleCustomerPatch\<lparr> partialInsertCustomer.customerNumber := Some ''KL-1999-0042'' \<rparr>"

definition sampleMaterialPatch :: partialInsertMaterial where
  "sampleMaterialPatch =
     \<lparr> partialInsertMaterial.articleNumber = None, partialInsertMaterial.name = None,
       partialInsertMaterial.brand = Missing, partialInsertMaterial.category = None,
       partialInsertMaterial.price = None, partialInsertMaterial.stock = Value 10,
       partialInsertMaterial.minStock = Missing, partialInsertMaterial.supplier = Missing \<rparr>"

definition renumberMaterialPatch :: partialInsertMaterial where
  "renumberMaterialPatch =
     sampleMaterialPatch\<lparr> partialInsertMaterial.articleNumber := Some ''ART-000777'' \<rparr>"

definition collidingMaterialPatch :: partialInsertMaterial where
  "collidingMaterialPatch =
     sampleMaterialPatch\<lparr> partialInsertMaterial.articleNumber := Some ''ART-000001'' \<rparr>"

definition sampleWorkOrderPatch :: partialInsertWorkOrder where
  "sampleWorkOrderPatch =
     \<lparr> partialInsertWorkOrder.orderNumber = Some ''WB-1999-0042'',
       partialInsertWorkOrder.title = None, partialInsertWorkOrder.description = Missing,
       partialInsertWorkOrder.customerId = None, partialInsertWorkOrder.date = None,
       partialInsertWorkOrder.status = Some ''In uitvoering'',
       partialInsertWorkOrder.laborHours = Missing, partialInsertWorkOrder.notes = Missing,
       partialInsertWorkOrder.materials = Missing, partialInsertWorkOrder.photos = Missing \<rparr>"

definition statusWorkOrderPatch :: partialInsertWorkOrder where
  "statusWorkOrderPatch = sampleWorkOrderPatch\<lparr> partialInsertWorkOrder.orderNumber := None \<rparr>"

definition sampleInvoicePatch :: partialInsertInvoice where
  "sampleInvoicePatch =
     \<lparr> partialInsertInvoice.invoiceNumber = None, partialInsertInvoice.customerId = None,
       partialInsertInvoice.workOrderId = Missing, partialInsertInvoice.date = None,
       partialInsertInvoice.dueDate = None, partialInsertInvoice.amount = None,
       partialInsertInvoice.status = Some ''Betaald'', partialInsertInvoice.items = Missing \<rparr>"

definition renumberInvoicePatch :: partialInsertInvoice where
  "renumberInvoicePatch =
     sampleInvoicePatch\<lparr> partialInsertInvoice.invoiceNumber := Some ''F-1999-0042'' \<rparr>"

text \<open>
  The rows the database-backed repository returns for the sample drafts on the empty
  database, and the rows the in-memory repository returns for them on a new store.
\<close>

definition sampleCustomer :: customer where
  "sampleCustomer =
     \<lparr> id' = 1, createdAt = sampleClock, customer.customerNumber = ''KL-2025-0001'',
       customer.name = ''Jansen'', customer.type = ''Particulier'',
       customer.street = ''Dorpsstraat 1'', customer.postalCode = ''1234 AB'',
       customer.city = ''Utrecht'', customer.email = None, customer.phone = None,
       customer.status = ''Actief'' \<rparr>"

definition sampleMaterial :: material where
  "sampleMaterial =
     \<lparr> id' = 1, createdAt = sampleClock, material.articleNumber = ''ART-000001'',
       material.name = ''Koperen buis'', material.brand = None,
       material.category = ''Leidingen'', material.price = 12, material.stock = Some 3,
       material.minStock = Some 5, material.supplier = None \<rparr>"

definition sampleWorkOrder :: workOrder where
  "sampleWorkOrder =
     \<lparr> id' = 1, createdAt = sampleClock, workOrder.orderNumber = ''WB-2025-0001'',
       workOrder.title = ''Ketel vervangen'', workOrder.description = None,
       workOrder.customerId = 1, workOrder.date = sampleClock,
       workOrder.status = ''Ingepland'', workOrder.laborHours = Some 0,
       workOrder.notes = Some [], workOrder.materials = Some [], workOrder.photos = None \<rparr>"

definition sampleSentInvoice :: invoice where
  "sampleSentInvoice =
     \<lparr> id' = 1, createdAt = sampleClock, invoice.invoiceNumber = ''F-2025-0001'',
       invoice.customerId = 1, invoice.workOrderId = None, invoice.date = sampleEarlier,
       invoice.dueDate = sampleClock, invoice.amount = 250, invoice.status = ''Verzonden'',
       invoice.items = None \<rparr>"

definition sampleConceptInvoice :: invoice where
  "sampleConceptInvoice =
     \<lparr> id' = 2, createdAt = sampleClock, invoice.invoiceNumber = ''F-2025-0002'',
       invoice.customerId = 1, invoice.workOrderId = None, invoice.date = sampleEarlier,
       invoice.dueDate = sampleClock, invoice.amount = 100, invoice.status = ''Concept'',
       invoice.items = None \<rparr>"

definition memCustomer :: customer where
  "memCustomer = sampleCustomer\<lparr> customer.customerNumber := ''KL-00001'' \<rparr>"

definition memMaterial :: material where
  "memMaterial = sampleMaterial\<lparr> material.articleNumber := ''ART-00001'' \<rparr>"

definition memWorkOrder :: workOrder where
  "memWorkOrder =
     sampleWorkOrder\<lparr> workOrder.date := sampleEarlier, workOrder.laborHours := None,
       workOrder.notes := None \<rparr>"

definition memInvoice :: invoice where
  "memInvoice = sampleSentInvoice\<lparr> invoice.items := Some [] \<rparr>"

text \<open>Stores holding these rows.\<close>

definition oneCustomerDatabase :: database where
  "oneCustomerDatabase =
     emptyDatabase\<lparr> database.customers := [sampleCustomer], customers_id_seq := 2 \<rparr>"

definition oneWorkOrderDatabase :: database where
  "oneWorkOrderDatabase =
     emptyDatabase\<lparr> work_orders := [sampleWorkOrder], work_orders_id_seq := 2 \<rparr>"

definition fullDatabase :: database where
  "fullDatabase =
     \<lparr> database.users = [], users_id_seq = 1,
       database.customers = [sampleCustomer], customers_id_seq = 2,
       database.materials = [sampleMaterial], materials_id_seq = 2,
       work_orders = [sampleWorkOrder], work_orders_id_seq = 2,
       database.invoices = [sampleSentInvoice], invoices_id_seq = 2,
       database.projects = [], projects_id_seq = 1 \<rparr>"

definition oneWorkOrderMemStorage :: memStorage where
  "oneWorkOrderMemStorage =
     (MemStorage_new sampleEarlier)
       \<lparr> memStorage.workOrders := [(1, memWorkOrder)], workOrderIdCounter := 2 \<rparr>"

definition emptiedMemStorage :: memStorage where
  "emptiedMemStorage = (MemStorage_new sampleEarlier)\<lparr> workOrderIdCounter := 2 \<rparr>"

definition fullMemStorage :: memStorage where
  "fullMemStorage =
     (MemStorage_new sampleEarlier)
       \<lparr> memStorage.customers := [(1, memCustomer)],
         memStorage.materials := [(1, memMaterial)],
         memStorage.workOrders := [(1, memWorkOrder)],
         memStorage.invoices := [(1, memInvoice)],
         customerIdCounter := 2, materialIdCounter := 2, workOrderIdCounter := 2,
         invoiceIdCounter := 2 \<rparr>"

text \<open>Stores that hold a record of every class.\<close>

definition sampleProjectDraft :: insertProject where
  "sampleProjectDraft =
     \<lparr> insertProject.title = ''Renovatie badkamer'', insertProject.description = Missing,
       insertProject.customerId = 1, insertProject.startDate = sampleEarlier,
       insertProject.endDate = Missing, insertProject.progress = Missing,
       insertProject.status = None, insertProject.workOrders = Value [1] \<rparr>"

definition sampleProject :: project where
  "sampleProject =
     \<lparr> id' = 1, createdAt = sampleClock, project.title = ''Renovatie badkamer'',
       project.description = None, project.customerId = 1, project.startDate = sampleEarlier,
       project.endDate = None, project.progress = Some 0, project.status = ''Gepland'',
       project.workOrders = Some [1] \<rparr>"

definition sampleProjectPatch :: partialInsertProject where
  "sampleProjectPatch =
     \<lparr> partialInsertProject.title = None, partialInsertProject.description = Missing,
       partialInsertProject.customerId = None, partialInsertProject.startDate = None,
       partialInsertProject.endDate = Missing, partialInsertProject.progress = Value 50,
       partialInsertProject.status = None, partialInsertProject.workOrders = Missing \<rparr>"

definition sampleUserDraft :: insertUser where
  "sampleUserDraft =
     \<lparr> insertUser.username = ''monteur1'', insertUser.fullName = ''Piet de Vries'',
       insertUser.email = Missing, insertUser.password = ''c2NyeXB0'',
       insertUser.role = None, insertUser.phone = Missing \<rparr>"

definition sampleUser :: user where
  "sampleUser =
     \<lparr> id' = 1, createdAt = sampleClock, user.username = ''monteur1'',
       user.fullName = ''Piet de Vries'', user.email = None, user.password = ''c2NyeXB0'',
       user.role = ''monteur'', user.phone = None \<rparr>"

definition sampleStatusBody :: statusBody where
  "sampleStatusBody = \<lparr> statusBody.status = Value ''In uitvoering'' \<rparr>"

definition populatedDatabase :: database where
  "populatedDatabase =
     \<lparr> database.users = [sampleUser], users_id_seq = 2,
       database.customers = [sampleCustomer], customers_id_seq = 2,
       database.materials = [sampleMaterial], materials_id_seq = 2,
       work_orders = [sampleWorkOrder], work_orders_id_seq = 2,
       database.invoices = [sampleSentInvoice], invoices_id_seq = 2,
       database.projects = [sampleProject], projects_id_seq = 2 \<rparr>"

definition populatedMemStorage :: memStorage where
  "populatedMemStorage =
     fullMemStorage\<lparr> memStorage.projects := [(1, sampleProject)], projectIdCounter := 2 \<rparr>"

text \<open>
  A database whose latest codes do not parse: a suffix that is not a number, a foreign
  prefix, the prefix of another year, and an empty code. The latest row, with id 3, is
  neither the first nor the last row of its table.
\<close>

definition garbledDatabase :: database where
  "garbledDatabase =
     \<lparr> database.users = [], users_id_seq = 1,
       database.customers =
         [sampleCustomer,
          sampleCustomer\<lparr> id' := 3, customer.customerNumber := ''KL-2025-abcd'' \<rparr>,
          sampleCustomer\<lparr> id' := 2, customer.customerNumber := ''KL-2025-0002'' \<rparr>],
       customers_id_seq = 4,
       database.materials =
         [sampleMaterial,
          sampleMaterial\<lparr> id' := 3, material.articleNumber := ''X-17'' \<rparr>,
          sampleMaterial\<lparr> id' := 2, material.articleNumber := ''ART-000002'' \<rparr>],
       materials_id_seq = 4,
       work_orders =
         [sampleWorkOrder,
          sampleWorkOrder\<lparr> id' := 3, workOrder.orderNumber := ''WB-2024-0012'' \<rparr>,
          sampleWorkOrder\<lparr> id' := 2, workOrder.orderNumber := ''WB-2025-0002'' \<rparr>],
       work_orders_id_seq = 4,
       database.invoices =
         [sampleSentInvoice,
          sampleSentInvoice\<lparr> id' := 3, invoice.invoiceNumber := [] \<rparr>,
          sampleSentInvoice\<lparr> id' := 2, invoice.invoiceNumber := ''F-2025-0002'' \<rparr>],
       invoices_id_seq = 4,
       database.projects = [], projects_id_seq = 1 \<rparr>"

text \<open>
  A database whose latest codes have a suffix that begins with digits and goes on with
  other characters.
\<close>

definition trailingDatabase :: database where
  "trailingDatabase =
     \<lparr> database.users = [], users_id_seq = 1,
       database.customers =
         [sampleCustomer,
          sampleCustomer\<lparr> id' := 3, customer.customerNumber := ''KL-2025-12ab'' \<rparr>,
          sampleCustomer\<lparr> id' := 2, customer.customerNumber := ''KL-2025-0002'' \<rparr>],
       customers_id_seq = 4,
       database.materials =
         [sampleMaterial,
          sampleMaterial\<lparr> id' := 3, material.articleNumber := ''ART-000041-B'' \<rparr>,
          sampleMaterial\<lparr> id' := 2, material.articleNumber := ''ART-000002'' \<rparr>],
       materials_id_seq = 4,
       work_orders =
         [sampleWorkOrder,
          sampleWorkOrder\<lparr> id' := 3, workOrder.orderNumber := ''WB-2025-7 (kopie)'' \<rparr>,
          sampleWorkOrder\<lparr> id' := 2, workOrder.orderNumber := ''WB-2025-0002'' \<rparr>],
       work_orders_id_seq = 4,
       database.invoices =
         [sampleSentInvoice,
          sampleSentInvoice\<lparr> id' := 3, invoice.invoiceNumber := ''F-2025-0099a'' \<rparr>,
          sampleSentInvoice\<lparr> id' := 2, invoice.invoiceNumber := ''F-2025-0002'' \<rparr>],
       invoices_id_seq = 4,
       database.projects = [], projects_id_seq = 1 \<rparr>"

text \<open>
  A table whose codes are the first \<open>k\<close> codes of a scope, in the order of creation,
  whose ids lie below the sequence, and whose latest row by id is its last row.
\<close>

definition sequenced ::
  "('a entity_scheme \<Rightarrow> string) \<Rightarrow> string \<Rightarrow> nat \<Rightarrow> 'a entity_scheme list \<Rightarrow> nat \<Rightarrow> bool" where
  "sequenced code pre k rows seq =
     (map code rows = map (\<lambda>j. pre @ padStart 4 ''0'' (toString (int j))) [1..<Suc k]
      \<and> list_all (\<lambda>r. id' r < seq) rows
      \<and> orderByDescIdLimit1 rows = (if rows = [] then [] else [last rows]))"

text \<open>Requests for three creations in 2025, each with the clock of the application server,
  the clock of the database (for the database-backed repository) and the draft.\<close>

definition customerRequests :: "(timestamp \<times> timestamp \<times> insertCustomer) list" where
  "customerRequests =
     [(sampleClock, sampleClock, sampleCustomerDraft),
      (sampleEarlier, sampleClock, sampleCustomerDraft),
      (sampleClock, sampleEarlier, sampleCustomerDraft)]"

definition workOrderRequests :: "(timestamp \<times> timestamp \<times> insertWorkOrder) list" where
  "workOrderRequests =
     [(sampleClock, sampleClock, sampleWorkOrderDraft),
      (sampleEarlier, sampleClock, sampleWorkOrderDraft),
      (sampleClock, sampleEarlier, sampleWorkOrderDraft)]"

definition invoiceRequests :: "(timestamp \<times> timestamp \<times> insertInvoice) list" where
  "invoiceRequests =
     [(sampleClock, sampleClock, sampleInvoiceDraft),
      (sampleEarlier, sampleClock, sampleInvoiceDraft),
      (sampleClock, sampleEarlier, sampleInvoiceDraft)]"

definition memWorkOrderRequests :: "(timestamp \<times> insertWorkOrder) list" where
  "memWorkOrderRequests =
     [(sampleClock, sampleWorkOrderDraft), (sampleEarlier, sampleWorkOrderDraft),
      (sampleClock, sampleWorkOrderDraft)]"

definition memInvoiceRequests :: "(timestamp \<times> insertInvoice) list" where
  "memInvoiceRequests =
     [(sampleClock, sampleInvoiceDraft), (sampleEarlier, sampleInvoiceDraft),
      (sampleClock, sampleInvoiceDraft)]"

text \<open>A database whose latest customer has the last four-digit number of 2025.\<close>

definition lastFourDigitDatabase :: database where
  "lastFourDigitDatabase =
     oneCustomerDatabase\<lparr> database.customers :=
       [sampleCustomer\<lparr> customer.customerNumber := ''KL-2025-9999'' \<rparr>] \<rparr>"

section \<open>The concrete stores are reachable\<close>

lemmas sample_defs =
  sampleClock_def sampleEarlier_def emptyDatabase_def sampleCustomerDraft_def
  sampleMaterialDraft_def sampleWorkOrderDraft_def sampleInvoiceDraft_def
  sampleCompleteBody_def bodyWithoutLaborHours_def bodyWithoutPhotos_def
  sampleCustomerPatch_def renumberCustomerPatch_def sampleMaterialPatch_def
  sampleWorkOrderPatch_def statusWorkOrderPatch_def sampleInvoicePatch_def
  sampleCustomer_def sampleMaterial_def sampleWorkOrder_def sampleSentInvoice_def
  sampleConceptInvoice_def memCustomer_def memMaterial_def memWorkOrder_def memInvoice_def
  oneCustomerDatabase_def oneWorkOrderDatabase_def fullDatabase_def oneWorkOrderMemStorage_def
  emptiedMemStorage_def fullMemStorage_def MemStorage_new_def garbledDatabase_def
  trailingDatabase_def customerRequests_def workOrderRequests_def invoiceRequests_def
  memWorkOrderRequests_def memInvoiceRequests_def lastFourDigitDatabase_def
  sampleProjectDraft_def sampleProject_def sampleProjectPatch_def sampleUserDraft_def
  sampleUser_def sampleStatusBody_def populatedDatabase_def populatedMemStorage_def
  renumberMaterialPatch_def collidingMaterialPatch_def renumberInvoicePatch_def

lemma oneCustomerDatabase_reached:
  "DatabaseStorage_createCustomer inexact NoFault NoInsertFault sampleClock sampleClock
       sampleCustomerDraft emptyDatabase
     = (Resolved sampleCustomer, oneCustomerDatabase)"
  by code_simp

lemma oneWorkOrderDatabase_reached:
  "DatabaseStorage_createWorkOrder inexact NoFault NoInsertFault sampleClock sampleClock
       sampleWorkOrderDraft emptyDatabase
     = (Resolved sampleWorkOrder, oneWorkOrderDatabase)"
  by code_simp

lemma fullDatabase_reached:
  "DatabaseStorage_createMaterial inexact NoFault NoInsertFault sampleClock sampleMaterialDraft
       oneCustomerDatabase
     = (Resolved sampleMaterial,
        oneCustomerDatabase\<lparr> database.materials := [sampleMaterial], materials_id_seq := 2 \<rparr>)"
  "DatabaseStorage_createWorkOrder inexact NoFault NoInsertFault sampleClock sampleClock
       sampleWorkOrderDraft
       (oneCustomerDatabase\<lparr> database.materials := [sampleMaterial], materials_id_seq := 2 \<rparr>)
     = (Resolved sampleWorkOrder,
        fullDatabase\<lparr> database.invoices := [], invoices_id_seq := 1 \<rparr>)"
  "DatabaseStorage_createInvoice inexact NoFault NoInsertFault sampleClock sampleClock
       sampleInvoiceDraft (fullDatabase\<lparr> database.invoices := [], invoices_id_seq := 1 \<rparr>)
     = (Resolved sampleSentInvoice, fullDatabase)"
  by code_simp+

lemma memStorage_reached:
  "MemStorage_createWorkOrder sampleClock sampleWorkOrderDraft (MemStorage_new sampleEarlier)
     = (Resolved memWorkOrder, oneWorkOrderMemStorage)"
  "MemStorage_deleteWorkOrder 1 oneWorkOrderMemStorage = (Resolved True, emptiedMemStorage)"
  by code_simp+

lemma fullMemStorage_reached:
  "MemStorage_createCustomer sampleClock sampleCustomerDraft oneWorkOrderMemStorage
     = (Resolved memCustomer,
        oneWorkOrderMemStorage\<lparr> memStorage.customers := [(1, memCustomer)],
          customerIdCounter := 2 \<rparr>)"
  "MemStorage_createMaterial sampleClock sampleMaterialDraft
       (oneWorkOrderMemStorage\<lparr> memStorage.customers := [(1, memCustomer)],
          customerIdCounter := 2 \<rparr>)
     = (Resolved memMaterial,
        fullMemStorage\<lparr> memStorage.invoices := [], invoiceIdCounter := 1 \<rparr>)"
  "MemStorage_createInvoice sampleClock sampleInvoiceDraft
       (fullMemStorage\<lparr> memStorage.invoices := [], invoiceIdCounter := 1 \<rparr>)
     = (Resolved memInvoice, fullMemStorage)"
  by code_simp+

lemma populated_reached:
  "DatabaseStorage_createUser NoInsertFault sampleClock sampleUserDraft fullDatabase
     = (Resolved sampleUser, fullDatabase\<lparr> database.users := [sampleUser], users_id_seq := 2 \<rparr>)"
  "DatabaseStorage_createProject NoInsertFault sampleClock sampleProjectDraft
       (fullDatabase\<lparr> database.users := [sampleUser], users_id_seq := 2 \<rparr>)
     = (Resolved sampleProject, populatedDatabase)"
  "MemStorage_createProject sampleClock sampleProjectDraft fullMemStorage
     = (Resolved sampleProject, populatedMemStorage)"
  by code_simp+

lemmas update_defs =
  DatabaseStorage_getCustomer_def DatabaseStorage_getMaterial_def
  DatabaseStorage_getWorkOrder_def DatabaseStorage_getInvoice_def
  DatabaseStorage_getProject_def DatabaseStorage_getUser_def
  DatabaseStorage_updateCustomer_def DatabaseStorage_updateMaterial_def
  DatabaseStorage_updateWorkOrder_def DatabaseStorage_updateInvoice_def
  DatabaseStorage_updateProject_def
  MemStorage_updateCustomer_def MemStorage_updateMaterial_def
  MemStorage_updateWorkOrder_def MemStorage_updateInvoice_def MemStorage_updateProject_def
  setCustomer_def setMaterial_def setWorkOrder_def setInvoice_def setProject_def
  spreadCustomer_def spreadMaterial_def spreadWorkOrder_def spreadInvoice_def
  spreadProject_def
  noCustomerValues_def noMaterialValues_def noInvoiceValues_def noProjectValues_def
  updateParts_def
  whereId_def first_def orKeep_def setValue_def spreadValue_def isDefined_def Let_def

section \<open>Dashboard statistics\<close>

lemma foldl_amounts:
  "foldl (\<lambda>sum inv. add sum (if truthyReal (invoice.amount inv) then invoice.amount inv else 0))
       a xs
     = foldl add a (map invoice.amount xs)"
proof (induction xs arbitrary: a)
  case Nil
  show ?case by simp
next
  case (Cons x xs)
  have "(if truthyReal (invoice.amount x) then invoice.amount x else 0) = invoice.amount x"
    by (simp add: truthyReal_def)
  then show ?case
    by (simp add: Cons.IH)
qed

lemma monthlyRevenue_amounts:
  "map monthRevenue.amount (monthlyRevenue add currentYear allInvoices)
     = map (\<lambda>m. spec_monthRevenue add currentYear m allInvoices) [0..<12]"
  unfolding monthlyRevenue_def spec_monthRevenue_def Let_def map_map comp_def
  by (simp only: monthRevenue.simps foldl_amounts)

lemma monthlyRevenue_months:
  "map monthRevenue.month (monthlyRevenue add currentYear allInvoices) = monthNames"
proof -
  have l: "length monthNames = 12"
    by (simp add: monthNames_def)
  have "map monthRevenue.month (monthlyRevenue add currentYear allInvoices)
      = map (\<lambda>m. monthNames ! m) [0..<12]"
    unfolding monthlyRevenue_def Let_def map_map comp_def
    by (simp only: monthRevenue.simps)
  also have "\<dots> = map (\<lambda>m. monthNames ! m) [0..<length monthNames]"
    by (simp only: l)
  also have "\<dots> = monthNames"
    by (rule map_nth)
  finally show ?thesis .
qed

lemma spec_monthRevenue_without_concept:
  "spec_monthRevenue add y m (filter (\<lambda>v. invoice.status v \<noteq> ''Concept'') allInvoices)
     = spec_monthRevenue add y m allInvoices"
proof -
  have "filter (\<lambda>inv. getMonth (invoice.date inv) = m \<and> getFullYear (invoice.date inv) = y
                \<and> invoice.status inv \<noteq> ''Concept'')
          (filter (\<lambda>v. invoice.status v \<noteq> ''Concept'') allInvoices)
      = filter (\<lambda>inv. getMonth (invoice.date inv) = m \<and> getFullYear (invoice.date inv) = y
                \<and> invoice.status inv \<noteq> ''Concept'') allInvoices"
    by (induction allInvoices) simp_all
  then show ?thesis
    by (simp only: spec_monthRevenue_def)
qed

lemma newest_first_without_concept:
  "filter P (rev (sort_key id' rows)) = rev (sort_key id' (filter P rows))"
  by (simp add: rev_filter [symmetric] filter_sort)

lemma dashboard_database:
  "get_api_dashboard_stats (DatabaseStorage_getAllWorkOrders fw)
       (DatabaseStorage_getAllCustomers fc) (DatabaseStorage_getAllMaterials fm)
       (DatabaseStorage_getAllInvoices fi) add clock db
     = Response 200 (Json
         \<lparr> totalWorkOrders = length (if fw = Fault then [] else orderByDescId (work_orders db)),
           totalCustomers = length (if fc = Fault then [] else orderByDescId (database.customers db)),
           totalMaterials = length (if fm = Fault then [] else orderByDescId (database.materials db)),
           totalInvoices = length (if fi = Fault then [] else orderByDescId (database.invoices db)),
           dashboardStats.workOrdersByStatus =
             workOrdersByStatus (if fw = Fault then [] else orderByDescId (work_orders db)),
           dashboardStats.invoicesByStatus =
             invoicesByStatus (if fi = Fault then [] else orderByDescId (database.invoices db)),
           dashboardStats.recentInvoices =
             recentInvoices (if fi = Fault then [] else orderByDescId (database.invoices db)),
           dashboardStats.lowStockMaterials =
             lowStockMaterials (if fm = Fault then [] else orderByDescId (database.materials db)),
           dashboardStats.monthlyRevenue =
             monthlyRevenue add (getFullYear clock)
               (if fi = Fault then [] else rev (sort_key id' (database.invoices db))) \<rparr>)"
  by (simp add: get_api_dashboard_stats_def DatabaseStorage_getAllWorkOrders_def
      DatabaseStorage_getAllCustomers_def DatabaseStorage_getAllMaterials_def
      DatabaseStorage_getAllInvoices_def orderByDescId_def Let_def)

text \<open>
  Claim C8. The status breakdown of the dashboard should count every work order of the
  status domain (Ingepland, In uitvoering, Voltooid, Geannuleerd) in some bucket, so that
  the buckets sum to \<open>totalWorkOrders\<close>. The handler counts the statuses
  \<^verbatim>\<open>Nieuw\<close>, \<^verbatim>\<open>In behandeling\<close> and \<^verbatim>\<open>Voltooid\<close> instead: a work order created
  with the default status Ingepland is in the total and in no bucket.
\<close>

theorem C8_scheduled_work_order_in_no_bucket:
  "(case get_api_dashboard_stats (DatabaseStorage_getAllWorkOrders NoFault)
           (DatabaseStorage_getAllCustomers NoFault) (DatabaseStorage_getAllMaterials NoFault)
           (DatabaseStorage_getAllInvoices NoFault) add sampleClock oneWorkOrderDatabase of
      Response code (Json stats) \<Rightarrow>
        code = 200
        \<and> map workOrder.status (work_orders oneWorkOrderDatabase) = [''Ingepland'']
        \<and> totalWorkOrders stats = 1
        \<and> nieuw (dashboardStats.workOrdersByStatus stats)
            + inBehandeling (dashboardStats.workOrdersByStatus stats)
            + voltooid (dashboardStats.workOrdersByStatus stats) = 0
    | _ \<Rightarrow> False)"
  by code_simp

text \<open>
  Claim C9 says that the dashboard's entry for a month is the sum of \<open>amount\<close> over the
  invoices of that month. The handler sums what \<^verbatim>\<open>getAllInvoices\<close> returns, and the
  database-backed repository answers a failed query with the empty list: the dashboard
  is then sent with status 200 and 0 for every month, although the store holds an
  invoice of 250 that was sent in February of the current year.
\<close>

theorem C9_failed_query_shows_no_revenue:
  "map (\<lambda>v. (getFullYear (invoice.date v), getMonth (invoice.date v), invoice.status v,
             invoice.amount v)) (database.invoices fullDatabase)
     = [(2025, 1, ''Verzonden'', 250)]
   \<and> getFullYear sampleClock = 2025
   \<and> (\<forall>add. \<exists>stats.
         get_api_dashboard_stats (DatabaseStorage_getAllWorkOrders NoFault)
             (DatabaseStorage_getAllCustomers NoFault) (DatabaseStorage_getAllMaterials NoFault)
             (DatabaseStorage_getAllInvoices Fault) add sampleClock fullDatabase
           = Response 200 (Json stats)
         \<and> map monthRevenue.amount (dashboardStats.monthlyRevenue stats)
             = [0, 0, 0, 0, 0, 0, 0, 0, 0, 0, 0, 0])"
proof (intro conjI allI)
  show "map (\<lambda>v. (getFullYear (invoice.date v), getMonth (invoice.date v), invoice.status v,
             invoice.amount v)) (database.invoices fullDatabase)
     = [(2025, 1, ''Verzonden'', 250)]"
    by (simp add: sample_defs)
  show "getFullYear sampleClock = 2025"
    by (simp add: sample_defs)
  fix add :: "real \<Rightarrow> real \<Rightarrow> real"
  have "map (\<lambda>m. spec_monthRevenue add (getFullYear sampleClock) m []) [0..<12]
      = [0, 0, 0, 0, 0, 0, 0, 0, 0, 0, 0, 0]"
    by (simp add: spec_monthRevenue_def upt_conv_Cons del: upt_Suc)
  then show "\<exists>stats.
         get_api_dashboard_stats (DatabaseStorage_getAllWorkOrders NoFault)
             (DatabaseStorage_getAllCustomers NoFault) (DatabaseStorage_getAllMaterials NoFault)
             (DatabaseStorage_getAllInvoices Fault) add sampleClock fullDatabase
           = Response 200 (Json stats)
         \<and> map monthRevenue.amount (dashboardStats.monthlyRevenue stats)
             = [0, 0, 0, 0, 0, 0, 0, 0, 0, 0, 0, 0]"
    by (simp add: dashboard_database monthlyRevenue_amounts)
qed

text \<open>
  Claim C9, as the code has it. The dashboard is always sent with status 200. Its twelve
  entries carry the month names, and the entry of month \<open>m\<close> is the sum of \<open>amount\<close>
  over exactly the invoices that the invoice query returns, dated in month \<open>m\<close> of the
  year of the server clock, whose status is not Concept: all stored invoices, newest id
  first, when the query is answered, and none when it fails. The sum is formed with the
  addition of the engine. The invoices with status Concept contribute nothing: the
  entries are those of the store without them.
\<close>

theorem C9_dashboard_monthly_revenue:
  "\<exists>stats.
     get_api_dashboard_stats (DatabaseStorage_getAllWorkOrders fw)
         (DatabaseStorage_getAllCustomers fc) (DatabaseStorage_getAllMaterials fm)
         (DatabaseStorage_getAllInvoices fi) add clock db
       = Response 200 (Json stats)
     \<and> map monthRevenue.month (dashboardStats.monthlyRevenue stats) = monthNames
     \<and> map monthRevenue.amount (dashboardStats.monthlyRevenue stats)
         = map (\<lambda>m. spec_monthRevenue add (getFullYear clock) m
                  (if fi = Fault then [] else rev (sort_key id' (database.invoices db))))
             [0..<12]
     \<and> map monthRevenue.amount (dashboardStats.monthlyRevenue stats)
         = map (\<lambda>m. spec_monthRevenue add (getFullYear clock) m
                  (if fi = Fault then []
                   else rev (sort_key id'
                          (filter (\<lambda>v. invoice.status v \<noteq> ''Concept'')
                             (database.invoices db)))))
             [0..<12]"
proof -
  have c: "spec_monthRevenue add (getFullYear clock) m
        (if fi = Fault then []
         else rev (sort_key id'
                (filter (\<lambda>v. invoice.status v \<noteq> ''Concept'') (database.invoices db))))
      = spec_monthRevenue add (getFullYear clock) m
        (if fi = Fault then [] else rev (sort_key id' (database.invoices db)))" for m
  proof (cases "fi = Fault")
    case True
    then show ?thesis by simp
  next
    case False
    have "spec_monthRevenue add (getFullYear clock) m
        (rev (sort_key id'
           (filter (\<lambda>v. invoice.status v \<noteq> ''Concept'') (database.invoices db))))
      = spec_monthRevenue add (getFullYear clock) m
        (filter (\<lambda>v. invoice.status v \<noteq> ''Concept'')
           (rev (sort_key id' (database.invoices db))))"
      by (simp only: newest_first_without_concept)
    also have "\<dots> = spec_monthRevenue add (getFullYear clock) m
        (rev (sort_key id' (database.invoices db)))"
      by (rule spec_monthRevenue_without_concept)
    finally show ?thesis using False by simp
  qed
  show ?thesis
    by (simp only: dashboard_database response.inject body.inject simp_thms ex_simps
        dashboardStats.simps monthlyRevenue_amounts monthlyRevenue_months c)
qed

section \<open>Work orders: creation date and completion\<close>

lemma createWorkOrder_ignores_date:
  "DatabaseStorage_createWorkOrder inexact lookup insertion clock now
       (draft\<lparr> insertWorkOrder.date := d \<rparr>) db
     = DatabaseStorage_createWorkOrder inexact lookup insertion clock now draft db"
  by (simp add: DatabaseStorage_createWorkOrder_def Let_def)

lemma createWorkOrder_date_now:
  "DatabaseStorage_createWorkOrder inexact lookup insertion clock now draft db = (Resolved w, db')
     \<Longrightarrow> workOrder.date w = now \<and> work_orders db' = work_orders db @ [w]"
  by (auto simp add: DatabaseStorage_createWorkOrder_def Let_def split: if_splits)

text \<open>
  Claim C10. In the database-backed repository the date of a created work order is the
  storage server's current time at insertion: the date of the draft is discarded (the
  outcome does not depend on it), and the row that is returned and appended to the table
  carries \<open>now\<close>.
\<close>

theorem C10_work_order_date_is_now:
  "DatabaseStorage_createWorkOrder inexact lookup insertion clock now
       (draft\<lparr> insertWorkOrder.date := d \<rparr>) db
     = DatabaseStorage_createWorkOrder inexact lookup insertion clock now draft db
   \<and> (DatabaseStorage_createWorkOrder inexact lookup insertion clock now draft db
         = (Resolved w, db')
        \<longrightarrow> workOrder.date w = now \<and> work_orders db' = work_orders db @ [w])"
  using createWorkOrder_ignores_date createWorkOrder_date_now by blast

theorem C10_work_order_date_is_now_witness:
  "insertWorkOrder.date sampleWorkOrderDraft = sampleEarlier
   \<and> DatabaseStorage_createWorkOrder sampleInexact NoFault NoInsertFault sampleClock sampleClock
         sampleWorkOrderDraft emptyDatabase
       = (Resolved (last (work_orders oneWorkOrderDatabase)), oneWorkOrderDatabase)
   \<and> workOrder.date (last (work_orders oneWorkOrderDatabase)) = sampleClock
   \<and> sampleClock \<noteq> sampleEarlier"
proof -
  have h: "DatabaseStorage_createWorkOrder sampleInexact NoFault NoInsertFault sampleClock
         sampleClock sampleWorkOrderDraft emptyDatabase
       = (Resolved (last (work_orders oneWorkOrderDatabase)), oneWorkOrderDatabase)"
    by code_simp
  have d: "insertWorkOrder.date sampleWorkOrderDraft = sampleEarlier"
    by (simp add: sampleWorkOrderDraft_def)
  have n: "sampleClock \<noteq> sampleEarlier"
    by (simp add: sampleClock_def sampleEarlier_def)
  from C10_work_order_date_is_now [where inexact = sampleInexact and lookup = NoFault
      and insertion = NoInsertFault and clock = sampleClock and now = sampleClock
      and draft = sampleWorkOrderDraft and d = sampleEarlier and db = emptyDatabase
      and w = "last (work_orders oneWorkOrderDatabase)" and db' = oneWorkOrderDatabase] h d n
  show ?thesis by blast
qed

text \<open>
  Claim C4. Completing an existing work order should store status Voltooid, the
  submitted notes and labour hours, and the submitted photos. Through the database-backed
  repository the photos are not stored: the update statement has no \<^verbatim>\<open>photos\<close>
  column, so the record keeps the photos it had, here none.
\<close>

theorem C4_database_complete_drops_photos:
  "(case put_api_workorders_id_complete (DatabaseStorage_updateWorkOrder NoFault NoFault) 1
           sampleCompleteBody oneWorkOrderDatabase of
      (Response code (Json w), db') \<Rightarrow>
        code = 200
        \<and> map workOrder.photos (work_orders oneWorkOrderDatabase) = [None]
        \<and> work_orders db' = [w]
        \<and> workOrder.status w = ''Voltooid''
        \<and> workOrder.notes w = Some ''done''
        \<and> workOrder.laborHours w = Some (7 / 2)
        \<and> workOrder.photos w = None
        \<and> completeBody.photos sampleCompleteBody = Value [''aGVsbG8='']
    | _ \<Rightarrow> False)"
  by code_simp

section \<open>Absent values and storage failures\<close>

lemma whereId_absent: "i \<notin> set (map id' rows) \<Longrightarrow> whereId i rows = []"
  by (induction rows) (auto simp add: whereId_def)

lemma map_absent:
  "i \<notin> set (map id' rows) \<Longrightarrow> map (\<lambda>r. if id' r = i then f r else r) rows = rows"
  by (induction rows) auto

lemma filter_absent:
  "i \<notin> set (map id' rows) \<Longrightarrow> filter (\<lambda>r. id' r \<noteq> i) rows = rows"
  by (induction rows) auto

lemma delete_absent: "map_of m k = None \<Longrightarrow> mapDelete k m = (False, m)"
  by (simp add: mapDelete_def map_of_eq_None_iff delete_id)

lemma absent_Customer_db:
  "i \<notin> set (map id' (database.customers db))
     \<longrightarrow> absentAnswers (DatabaseStorage_getCustomer g) (DatabaseStorage_updateCustomer u)
           (DatabaseStorage_deleteCustomer d) i pc db"
  by (simp add: DatabaseStorage_getCustomer_def DatabaseStorage_updateCustomer_def DatabaseStorage_deleteCustomer_def
      absentAnswers_def whereId_absent map_absent filter_absent first_def Let_def)

lemma absent_Material_db:
  "i \<notin> set (map id' (database.materials db))
     \<longrightarrow> absentAnswers (DatabaseStorage_getMaterial g) (DatabaseStorage_updateMaterial u)
           (DatabaseStorage_deleteMaterial d) i pm db"
  by (auto simp add: DatabaseStorage_getMaterial_def DatabaseStorage_updateMaterial_def DatabaseStorage_deleteMaterial_def
      absentAnswers_def whereId_absent map_absent filter_absent first_def Let_def)

lemma absent_WorkOrder_db:
  "i \<notin> set (map id' (work_orders db))
     \<longrightarrow> absentAnswers (DatabaseStorage_getWorkOrder g) (DatabaseStorage_updateWorkOrder lookup change)
           (DatabaseStorage_deleteWorkOrder d) i pw db"
  by (simp add: DatabaseStorage_getWorkOrder_def DatabaseStorage_updateWorkOrder_def DatabaseStorage_deleteWorkOrder_def
      DatabaseStorage_getWorkOrder_def absentAnswers_def whereId_absent map_absent filter_absent first_def Let_def)

lemma absent_Invoice_db:
  "i \<notin> set (map id' (database.invoices db))
     \<longrightarrow> absentAnswers (DatabaseStorage_getInvoice g) (DatabaseStorage_updateInvoice u)
           (DatabaseStorage_deleteInvoice d) i pv db"
  by (auto simp add: DatabaseStorage_getInvoice_def DatabaseStorage_updateInvoice_def DatabaseStorage_deleteInvoice_def
      absentAnswers_def whereId_absent map_absent filter_absent first_def Let_def)

lemma absent_Project_db:
  "i \<notin> set (map id' (database.projects db))
     \<longrightarrow> absentAnswers (DatabaseStorage_getProject g) (DatabaseStorage_updateProject u)
           (DatabaseStorage_deleteProject d) i pp db"
  by (simp add: DatabaseStorage_getProject_def DatabaseStorage_updateProject_def DatabaseStorage_deleteProject_def
      absentAnswers_def whereId_absent map_absent filter_absent first_def Let_def)

lemma absent_User_db:
  "i \<notin> set (map id' (database.users db))
     \<longrightarrow> DatabaseStorage_getUser g i db = Resolved None"
  by (simp add: DatabaseStorage_getUser_def whereId_absent first_def)

lemma absent_Customer_mem:
  "map_of (memStorage.customers st) i = None
     \<longrightarrow> absentAnswers MemStorage_getCustomer MemStorage_updateCustomer MemStorage_deleteCustomer i pc st"
  by (simp add: absentAnswers_def MemStorage_getCustomer_def MemStorage_updateCustomer_def
      MemStorage_deleteCustomer_def delete_absent)

lemma absent_Material_mem:
  "map_of (memStorage.materials st) i = None
     \<longrightarrow> absentAnswers MemStorage_getMaterial MemStorage_updateMaterial MemStorage_deleteMaterial i pm st"
  by (simp add: absentAnswers_def MemStorage_getMaterial_def MemStorage_updateMaterial_def
      MemStorage_deleteMaterial_def delete_absent)

lemma absent_WorkOrder_mem:
  "map_of (memStorage.workOrders st) i = None
     \<longrightarrow> absentAnswers MemStorage_getWorkOrder MemStorage_updateWorkOrder MemStorage_deleteWorkOrder i pw st"
  by (simp add: absentAnswers_def MemStorage_getWorkOrder_def MemStorage_updateWorkOrder_def
      MemStorage_deleteWorkOrder_def delete_absent)

lemma absent_Invoice_mem:
  "map_of (memStorage.invoices st) i = None
     \<longrightarrow> absentAnswers MemStorage_getInvoice MemStorage_updateInvoice MemStorage_deleteInvoice i pv st"
  by (simp add: absentAnswers_def MemStorage_getInvoice_def MemStorage_updateInvoice_def
      MemStorage_deleteInvoice_def delete_absent)

lemma absent_Project_mem:
  "map_of (memStorage.projects st) i = None
     \<longrightarrow> absentAnswers MemStorage_getProject MemStorage_updateProject MemStorage_deleteProject i pp st"
  by (simp add: absentAnswers_def MemStorage_getProject_def MemStorage_updateProject_def
      MemStorage_deleteProject_def delete_absent)

lemma absent_User_mem:
  "map_of (memStorage.users st) i = None \<longrightarrow> MemStorage_getUser i st = Resolved None"
  by (simp add: MemStorage_getUser_def)

lemma failed_Customer_db:
  "absentAnswers (DatabaseStorage_getCustomer Fault) (DatabaseStorage_updateCustomer Fault)
       (DatabaseStorage_deleteCustomer Fault) j pc db"
  by (simp add: DatabaseStorage_getCustomer_def DatabaseStorage_updateCustomer_def DatabaseStorage_deleteCustomer_def
      absentAnswers_def)

lemma failed_allCustomers_db:
  "DatabaseStorage_getAllCustomers Fault db = Resolved []"
  by (simp add: DatabaseStorage_getAllCustomers_def)

lemma failed_Material_db:
  "absentAnswers (DatabaseStorage_getMaterial Fault) (DatabaseStorage_updateMaterial Fault)
       (DatabaseStorage_deleteMaterial Fault) j pm db"
  by (simp add: DatabaseStorage_getMaterial_def DatabaseStorage_updateMaterial_def DatabaseStorage_deleteMaterial_def
      absentAnswers_def)

lemma failed_allMaterials_db:
  "DatabaseStorage_getAllMaterials Fault db = Resolved []"
  by (simp add: DatabaseStorage_getAllMaterials_def)

lemma failed_WorkOrder_db:
  "absentAnswers (DatabaseStorage_getWorkOrder Fault) (DatabaseStorage_updateWorkOrder Fault change)
       (DatabaseStorage_deleteWorkOrder Fault) j pw db"
  by (simp add: DatabaseStorage_getWorkOrder_def DatabaseStorage_updateWorkOrder_def DatabaseStorage_deleteWorkOrder_def
      DatabaseStorage_getWorkOrder_def absentAnswers_def)

lemma failed_allWorkOrders_db:
  "DatabaseStorage_getAllWorkOrders Fault db = Resolved []"
  by (simp add: DatabaseStorage_getAllWorkOrders_def)

lemma failed_Invoice_db:
  "absentAnswers (DatabaseStorage_getInvoice Fault) (DatabaseStorage_updateInvoice Fault)
       (DatabaseStorage_deleteInvoice Fault) j pv db"
  by (simp add: DatabaseStorage_getInvoice_def DatabaseStorage_updateInvoice_def DatabaseStorage_deleteInvoice_def
      absentAnswers_def)

lemma failed_allInvoices_db:
  "DatabaseStorage_getAllInvoices Fault db = Resolved []"
  by (simp add: DatabaseStorage_getAllInvoices_def)

lemma failed_Project_db:
  "absentAnswers (DatabaseStorage_getProject Fault) (DatabaseStorage_updateProject Fault)
       (DatabaseStorage_deleteProject Fault) j pp db"
  by (simp add: DatabaseStorage_getProject_def DatabaseStorage_updateProject_def DatabaseStorage_deleteProject_def
      absentAnswers_def)

lemma failed_allProjects_db:
  "DatabaseStorage_getAllProjects Fault db = Resolved []"
  by (simp add: DatabaseStorage_getAllProjects_def)

lemma failed_User_db:
  "DatabaseStorage_getUser Fault j db = Resolved None"
  by (simp add: DatabaseStorage_getUser_def)

lemma failed_change_db:
  "updateParts pw \<noteq> 0
     \<longrightarrow> DatabaseStorage_updateWorkOrder lookup Fault j pw db = (Resolved None, db)"
  by (simp add: DatabaseStorage_updateWorkOrder_def Let_def
      split: promise.splits option.splits)

lemma absent_Customer_routes:
  "i \<notin> set (map id' (database.customers db))
     \<longrightarrow> notFoundResponses (get_api_customers_id (DatabaseStorage_getCustomer g))
           (put_api_customers_id (DatabaseStorage_updateCustomer u))
           (delete_api_customers_id (DatabaseStorage_deleteCustomer d))
           ''Customer not found'' i pc db"
  using absent_Customer_db [of i db g u d pc]
  by (simp add: absentAnswers_def notFoundResponses_def get_api_customers_id_def
      put_api_customers_id_def delete_api_customers_id_def)

lemma absent_Material_routes:
  "i \<notin> set (map id' (database.materials db))
     \<longrightarrow> notFoundResponses (get_api_materials_id (DatabaseStorage_getMaterial g))
           (put_api_materials_id (DatabaseStorage_updateMaterial u))
           (delete_api_materials_id (DatabaseStorage_deleteMaterial d))
           ''Material not found'' i pm db"
  using absent_Material_db [of i db g u d pm]
  by (simp add: absentAnswers_def notFoundResponses_def get_api_materials_id_def
      put_api_materials_id_def delete_api_materials_id_def)

lemma absent_WorkOrder_routes:
  "i \<notin> set (map id' (work_orders db))
     \<longrightarrow> notFoundResponses (get_api_workorders_id (DatabaseStorage_getWorkOrder g))
           (put_api_workorders_id (DatabaseStorage_updateWorkOrder lookup change))
           (delete_api_workorders_id (DatabaseStorage_deleteWorkOrder d))
           ''Work order not found'' i pw db"
  using absent_WorkOrder_db [of i db g lookup change d pw]
  by (simp add: absentAnswers_def notFoundResponses_def get_api_workorders_id_def
      put_api_workorders_id_def delete_api_workorders_id_def)

lemma absent_Invoice_routes:
  "i \<notin> set (map id' (database.invoices db))
     \<longrightarrow> notFoundResponses (get_api_invoices_id (DatabaseStorage_getInvoice g))
           (put_api_invoices_id (DatabaseStorage_updateInvoice u))
           (delete_api_invoices_id (DatabaseStorage_deleteInvoice d))
           ''Invoice not found'' i pv db"
  using absent_Invoice_db [of i db g u d pv]
  by (simp add: absentAnswers_def notFoundResponses_def get_api_invoices_id_def
      put_api_invoices_id_def delete_api_invoices_id_def)

lemma absent_Project_routes:
  "i \<notin> set (map id' (database.projects db))
     \<longrightarrow> notFoundResponses (get_api_projects_id (DatabaseStorage_getProject g))
           (put_api_projects_id (DatabaseStorage_updateProject u))
           (delete_api_projects_id (DatabaseStorage_deleteProject d))
           ''Project not found'' i pp db"
  using absent_Project_db [of i db g u d pp]
  by (simp add: absentAnswers_def notFoundResponses_def get_api_projects_id_def
      put_api_projects_id_def delete_api_projects_id_def)

lemma failed_Customer_routes:
  "notFoundResponses (get_api_customers_id (DatabaseStorage_getCustomer Fault))
       (put_api_customers_id (DatabaseStorage_updateCustomer Fault))
       (delete_api_customers_id (DatabaseStorage_deleteCustomer Fault))
       ''Customer not found'' j pc db"
  using failed_Customer_db [of j pc db]
  by (simp add: absentAnswers_def notFoundResponses_def get_api_customers_id_def
      put_api_customers_id_def delete_api_customers_id_def)

lemma failed_allCustomers_route:
  "get_api_customers (DatabaseStorage_getAllCustomers Fault) db = Response 200 (Json [])"
  by (simp add: get_api_customers_def DatabaseStorage_getAllCustomers_def)

lemma failed_Material_routes:
  "notFoundResponses (get_api_materials_id (DatabaseStorage_getMaterial Fault))
       (put_api_materials_id (DatabaseStorage_updateMaterial Fault))
       (delete_api_materials_id (DatabaseStorage_deleteMaterial Fault))
       ''Material not found'' j pm db"
  using failed_Material_db [of j pm db]
  by (simp add: absentAnswers_def notFoundResponses_def get_api_materials_id_def
      put_api_materials_id_def delete_api_materials_id_def)

lemma failed_allMaterials_route:
  "get_api_materials (DatabaseStorage_getAllMaterials Fault) db = Response 200 (Json [])"
  by (simp add: get_api_materials_def DatabaseStorage_getAllMaterials_def)

lemma failed_WorkOrder_routes:
  "notFoundResponses (get_api_workorders_id (DatabaseStorage_getWorkOrder Fault))
       (put_api_workorders_id (DatabaseStorage_updateWorkOrder Fault change))
       (delete_api_workorders_id (DatabaseStorage_deleteWorkOrder Fault))
       ''Work order not found'' j pw db"
  using failed_WorkOrder_db [of change j pw db]
  by (simp add: absentAnswers_def notFoundResponses_def get_api_workorders_id_def
      put_api_workorders_id_def delete_api_workorders_id_def)

lemma failed_allWorkOrders_route:
  "get_api_workorders (DatabaseStorage_getAllWorkOrders Fault) db = Response 200 (Json [])"
  by (simp add: get_api_workorders_def DatabaseStorage_getAllWorkOrders_def)

lemma failed_Invoice_routes:
  "notFoundResponses (get_api_invoices_id (DatabaseStorage_getInvoice Fault))
       (put_api_invoices_id (DatabaseStorage_updateInvoice Fault))
       (delete_api_invoices_id (DatabaseStorage_deleteInvoice Fault))
       ''Invoice not found'' j pv db"
  using failed_Invoice_db [of j pv db]
  by (simp add: absentAnswers_def notFoundResponses_def get_api_invoices_id_def
      put_api_invoices_id_def delete_api_invoices_id_def)

lemma failed_allInvoices_route:
  "get_api_invoices (DatabaseStorage_getAllInvoices Fault) db = Response 200 (Json [])"
  by (simp add: get_api_invoices_def DatabaseStorage_getAllInvoices_def)

lemma failed_Project_routes:
  "notFoundResponses (get_api_projects_id (DatabaseStorage_getProject Fault))
       (put_api_projects_id (DatabaseStorage_updateProject Fault))
       (delete_api_projects_id (DatabaseStorage_deleteProject Fault))
       ''Project not found'' j pp db"
  using failed_Project_db [of j pp db]
  by (simp add: absentAnswers_def notFoundResponses_def get_api_projects_id_def
      put_api_projects_id_def delete_api_projects_id_def)

lemma failed_allProjects_route:
  "get_api_projects (DatabaseStorage_getAllProjects Fault) db = Response 200 (Json [])"
  by (simp add: get_api_projects_def DatabaseStorage_getAllProjects_def)

lemma failed_change_route:
  "updateParts pw \<noteq> 0
     \<longrightarrow> put_api_workorders_id (DatabaseStorage_updateWorkOrder lookup Fault) j pw db
         = (Response 404 (Message ''Work order not found''), db)"
  using failed_change_db [of pw lookup j db]
  by (simp add: put_api_workorders_id_def)

lemma failed_status_route:
  "(lookup = Fault \<or> change = Fault) \<and> orNull truthyString (statusBody.status sb) \<noteq> None
     \<longrightarrow> patch_api_workorders_id_status (DatabaseStorage_updateWorkOrder lookup change) j sb db
         = (Response 404 (Message ''Work order not found''), db)"
  by (auto simp add: patch_api_workorders_id_status_def DatabaseStorage_updateWorkOrder_def
      DatabaseStorage_getWorkOrder_def updateParts_def Let_def
      split: option.splits)

lemma failed_complete_route:
  "(lookup = Fault \<or> change = Fault) \<and> isDefined (destructure (completeBody.laborHours cb))
     \<longrightarrow> put_api_workorders_id_complete (DatabaseStorage_updateWorkOrder lookup change) j cb db
         = (Response 404 (Message ''Work order not found''), db)"
  by (auto simp add: put_api_workorders_id_complete_def DatabaseStorage_updateWorkOrder_def
      DatabaseStorage_getWorkOrder_def updateParts_def Let_def
      split: option.splits)

lemma failed_createCustomer:
  "insertion \<noteq> NoInsertFault
     \<longrightarrow> fst (DatabaseStorage_createCustomer inexact lookup insertion clock now dc db) = Rejected
       \<and> fst (post_api_customers (DatabaseStorage_createCustomer inexact lookup insertion clock now) dc db)
           = Response 500 (Message ''Error creating customer'')"
  by (cases insertion)
    (simp_all add: DatabaseStorage_createCustomer_def post_api_customers_def Let_def)

lemma failed_createMaterial:
  "insertion \<noteq> NoInsertFault
     \<longrightarrow> fst (DatabaseStorage_createMaterial inexact lookup insertion now dm db) = Rejected
       \<and> fst (post_api_materials (DatabaseStorage_createMaterial inexact lookup insertion now) dm db)
           = Response 500 (Message ''Error creating material'')"
  by (cases insertion)
    (simp_all add: DatabaseStorage_createMaterial_def post_api_materials_def Let_def)

lemma failed_createWorkOrder:
  "insertion \<noteq> NoInsertFault
     \<longrightarrow> fst (DatabaseStorage_createWorkOrder inexact lookup insertion clock now dw db) = Rejected
       \<and> fst (post_api_workorders (DatabaseStorage_createWorkOrder inexact lookup insertion clock now) dw db)
           = Response 500 (Message ''Error creating work order'')"
  by (cases insertion)
    (simp_all add: DatabaseStorage_createWorkOrder_def post_api_workorders_def Let_def)

lemma failed_createInvoice:
  "insertion \<noteq> NoInsertFault
     \<longrightarrow> fst (DatabaseStorage_createInvoice inexact lookup insertion clock now dv db) = Rejected
       \<and> fst (post_api_invoices (DatabaseStorage_createInvoice inexact lookup insertion clock now) dv db)
           = Response 500 (Message ''Error creating invoice'')"
  by (cases insertion)
    (simp_all add: DatabaseStorage_createInvoice_def post_api_invoices_def Let_def)

lemma failed_createProject:
  "insertion \<noteq> NoInsertFault
     \<longrightarrow> fst (DatabaseStorage_createProject insertion now dp db) = Rejected
       \<and> fst (post_api_projects (DatabaseStorage_createProject insertion now) dp db)
           = Response 500 (Message ''Error creating project'')"
  by (cases insertion)
    (simp_all add: DatabaseStorage_createProject_def post_api_projects_def Let_def)

lemma failed_createUser:
  "insertion \<noteq> NoInsertFault
     \<longrightarrow> fst (DatabaseStorage_createUser insertion now du db) = Rejected"
  by (cases insertion) (simp_all add: DatabaseStorage_createUser_def Let_def)

lemma failed_generateCustomerNumber:
  "generateCustomerNumber inexact Fault clock db = ''KL-'' @ toString (getFullYear clock) @ ''-0001''"
  by (simp add: generateCustomerNumber_def)

lemma failed_generateArticleNumber:
  "generateArticleNumber inexact Fault db = ''ART-000001''"
  by (simp add: generateArticleNumber_def)

lemma failed_generateOrderNumber:
  "generateOrderNumber inexact Fault clock db = ''WB-'' @ toString (getFullYear clock) @ ''-0001''"
  by (simp add: generateOrderNumber_def)

lemma failed_generateInvoiceNumber:
  "generateInvoiceNumber inexact Fault clock db = ''F-'' @ toString (getFullYear clock) @ ''-0001''"
  by (simp add: generateInvoiceNumber_def)

text \<open>
  Claim C7 says that a read, update or delete of an id that does not exist returns an
  explicit absent value and never throws, and that a storage failure reaches the HTTP
  boundary as a 500-class response and never as the not-found outcome. The second half
  fails: customer 1 is stored and its update is answered with 200, but when the
  \<^verbatim>\<open>UPDATE\<close> statement fails the same request is answered with 404.
\<close>

theorem C7_storage_failure_answers_404:
  "map id' (database.customers oneCustomerDatabase) = [1]
   \<and> put_api_customers_id (DatabaseStorage_updateCustomer Fault) 1 sampleCustomerPatch
         oneCustomerDatabase
       = (Response 404 (Message ''Customer not found''), oneCustomerDatabase)
   \<and> statusCode (fst (put_api_customers_id (DatabaseStorage_updateCustomer NoFault) 1
         sampleCustomerPatch oneCustomerDatabase)) = 200"
  by (simp add: sample_defs put_api_customers_id_def DatabaseStorage_updateCustomer_def
      noCustomerValues_def setCustomer_def whereId_def first_def orKeep_def setValue_def
      isDefined_def Let_def)

text \<open>
  Claim C7, as the code has it. In both repositories \<^verbatim>\<open>getUser\<close> and the read, update
  and delete of customers, materials, work orders, invoices and projects resolve, for an
  id that does not exist, to the absent value (\<open>None\<close> for \<^verbatim>\<open>undefined\<close>, \<open>False\<close>)
  and leave the store as it was, whether or not the statements of the database-backed
  repository fail; its routes answer 404. When a statement of a read, update or delete
  of the database-backed repository fails, the method resolves to the same absent value
  (the empty list for the \<^verbatim>\<open>getAll\<close> methods), for every id: the routes of the five
  classes answer 404, or 200 with an empty list, and so do the status route and the
  complete route of the work orders. A failed lookup of an identifier generator is
  answered with the first code. Only a failed \<^verbatim>\<open>INSERT\<close> of a create method is
  propagated: the create is rejected and its route answers 500.
\<close>

theorem C7_absent_values_and_storage_failures:
  "(i \<notin> set (map id' (database.customers db))
     \<longrightarrow> absentAnswers (DatabaseStorage_getCustomer g) (DatabaseStorage_updateCustomer u)
           (DatabaseStorage_deleteCustomer d) i pc db)
   \<and> (i \<notin> set (map id' (database.materials db))
     \<longrightarrow> absentAnswers (DatabaseStorage_getMaterial g) (DatabaseStorage_updateMaterial u)
           (DatabaseStorage_deleteMaterial d) i pm db)
   \<and> (i \<notin> set (map id' (work_orders db))
     \<longrightarrow> absentAnswers (DatabaseStorage_getWorkOrder g) (DatabaseStorage_updateWorkOrder lookup change)
           (DatabaseStorage_deleteWorkOrder d) i pw db)
   \<and> (i \<notin> set (map id' (database.invoices db))
     \<longrightarrow> absentAnswers (DatabaseStorage_getInvoice g) (DatabaseStorage_updateInvoice u)
           (DatabaseStorage_deleteInvoice d) i pv db)
   \<and> (i \<notin> set (map id' (database.projects db))
     \<longrightarrow> absentAnswers (DatabaseStorage_getProject g) (DatabaseStorage_updateProject u)
           (DatabaseStorage_deleteProject d) i pp db)
   \<and> (i \<notin> set (map id' (database.users db))
     \<longrightarrow> DatabaseStorage_getUser g i db = Resolved None)
   \<and> (map_of (memStorage.customers st) i = None
     \<longrightarrow> absentAnswers MemStorage_getCustomer MemStorage_updateCustomer MemStorage_deleteCustomer i pc st)
   \<and> (map_of (memStorage.materials st) i = None
     \<longrightarrow> absentAnswers MemStorage_getMaterial MemStorage_updateMaterial MemStorage_deleteMaterial i pm st)
   \<and> (map_of (memStorage.workOrders st) i = None
     \<longrightarrow> absentAnswers MemStorage_getWorkOrder MemStorage_updateWorkOrder MemStorage_deleteWorkOrder i pw st)
   \<and> (map_of (memStorage.invoices st) i = None
     \<longrightarrow> absentAnswers MemStorage_getInvoice MemStorage_updateInvoice MemStorage_deleteInvoice i pv st)
   \<and> (map_of (memStorage.projects st) i = None
     \<longrightarrow> absentAnswers MemStorage_getProject MemStorage_updateProject MemStorage_deleteProject i pp st)
   \<and> (map_of (memStorage.users st) i = None \<longrightarrow> MemStorage_getUser i st = Resolved None)
   \<and> (absentAnswers (DatabaseStorage_getCustomer Fault) (DatabaseStorage_updateCustomer Fault)
       (DatabaseStorage_deleteCustomer Fault) j pc db)
   \<and> (DatabaseStorage_getAllCustomers Fault db = Resolved [])
   \<and> (absentAnswers (DatabaseStorage_getMaterial Fault) (DatabaseStorage_updateMaterial Fault)
       (DatabaseStorage_deleteMaterial Fault) j pm db)
   \<and> (DatabaseStorage_getAllMaterials Fault db = Resolved [])
   \<and> (absentAnswers (DatabaseStorage_getWorkOrder Fault) (DatabaseStorage_updateWorkOrder Fault change)
       (DatabaseStorage_deleteWorkOrder Fault) j pw db)
   \<and> (DatabaseStorage_getAllWorkOrders Fault db = Resolved [])
   \<and> (absentAnswers (DatabaseStorage_getInvoice Fault) (DatabaseStorage_updateInvoice Fault)
       (DatabaseStorage_deleteInvoice Fault) j pv db)
   \<and> (DatabaseStorage_getAllInvoices Fault db = Resolved [])
   \<and> (absentAnswers (DatabaseStorage_getProject Fault) (DatabaseStorage_updateProject Fault)
       (DatabaseStorage_deleteProject Fault) j pp db)
   \<and> (DatabaseStorage_getAllProjects Fault db = Resolved [])
   \<and> (DatabaseStorage_getUser Fault j db = Resolved None)
   \<and> (updateParts pw \<noteq> 0
     \<longrightarrow> DatabaseStorage_updateWorkOrder lookup Fault j pw db = (Resolved None, db))
   \<and> (i \<notin> set (map id' (database.customers db))
     \<longrightarrow> notFoundResponses (get_api_customers_id (DatabaseStorage_getCustomer g))
           (put_api_customers_id (DatabaseStorage_updateCustomer u))
           (delete_api_customers_id (DatabaseStorage_deleteCustomer d))
           ''Customer not found'' i pc db)
   \<and> (i \<notin> set (map id' (database.materials db))
     \<longrightarrow> notFoundResponses (get_api_materials_id (DatabaseStorage_getMaterial g))
           (put_api_materials_id (DatabaseStorage_updateMaterial u))
           (delete_api_materials_id (DatabaseStorage_deleteMaterial d))
           ''Material not found'' i pm db)
   \<and> (i \<notin> set (map id' (work_orders db))
     \<longrightarrow> notFoundResponses (get_api_workorders_id (DatabaseStorage_getWorkOrder g))
           (put_api_workorders_id (DatabaseStorage_updateWorkOrder lookup change))
           (delete_api_workorders_id (DatabaseStorage_deleteWorkOrder d))
           ''Work order not found'' i pw db)
   \<and> (i \<notin> set (map id' (database.invoices db))
     \<longrightarrow> notFoundResponses (get_api_invoices_id (DatabaseStorage_getInvoice g))
           (put_api_invoices_id (DatabaseStorage_updateInvoice u))
           (delete_api_invoices_id (DatabaseStorage_deleteInvoice d))
           ''Invoice not found'' i pv db)
   \<and> (i \<notin> set (map id' (database.projects db))
     \<longrightarrow> notFoundResponses (get_api_projects_id (DatabaseStorage_getProject g))
           (put_api_projects_id (DatabaseStorage_updateProject u))
           (delete_api_projects_id (DatabaseStorage_deleteProject d))
           ''Project not found'' i pp db)
   \<and> (notFoundResponses (get_api_customers_id (DatabaseStorage_getCustomer Fault))
       (put_api_customers_id (DatabaseStorage_updateCustomer Fault))
       (delete_api_customers_id (DatabaseStorage_deleteCustomer Fault))
       ''Customer not found'' j pc db)
   \<and> (get_api_customers (DatabaseStorage_getAllCustomers Fault) db = Response 200 (Json []))
   \<and> (notFoundResponses (get_api_materials_id (DatabaseStorage_getMaterial Fault))
       (put_api_materials_id (DatabaseStorage_updateMaterial Fault))
       (delete_api_materials_id (DatabaseStorage_deleteMaterial Fault))
       ''Material not found'' j pm db)
   \<and> (get_api_materials (DatabaseStorage_getAllMaterials Fault) db = Response 200 (Json []))
   \<and> (notFoundResponses (get_api_workorders_id (DatabaseStorage_getWorkOrder Fault))
       (put_api_workorders_id (DatabaseStorage_updateWorkOrder Fault change))
       (delete_api_workorders_id (DatabaseStorage_deleteWorkOrder Fault))
       ''Work order not found'' j pw db)
   \<and> (get_api_workorders (DatabaseStorage_getAllWorkOrders Fault) db = Response 200 (Json []))
   \<and> (notFoundResponses (get_api_invoices_id (DatabaseStorage_getInvoice Fault))
       (put_api_invoices_id (DatabaseStorage_updateInvoice Fault))
       (delete_api_invoices_id (DatabaseStorage_deleteInvoice Fault))
       ''Invoice not found'' j pv db)
   \<and> (get_api_invoices (DatabaseStorage_getAllInvoices Fault) db = Response 200 (Json []))
   \<and> (notFoundResponses (get_api_projects_id (DatabaseStorage_getProject Fault))
       (put_api_projects_id (DatabaseStorage_updateProject Fault))
       (delete_api_projects_id (DatabaseStorage_deleteProject Fault))
       ''Project not found'' j pp db)
   \<and> (get_api_projects (DatabaseStorage_getAllProjects Fault) db = Response 200 (Json []))
   \<and> (updateParts pw \<noteq> 0
     \<longrightarrow> put_api_workorders_id (DatabaseStorage_updateWorkOrder lookup Fault) j pw db
         = (Response 404 (Message ''Work order not found''), db))
   \<and> ((lookup = Fault \<or> change = Fault) \<and> orNull truthyString (statusBody.status sb) \<noteq> None
     \<longrightarrow> patch_api_workorders_id_status (DatabaseStorage_updateWorkOrder lookup change) j sb db
         = (Response 404 (Message ''Work order not found''), db))
   \<and> ((lookup = Fault \<or> change = Fault) \<and> isDefined (destructure (completeBody.laborHours cb))
     \<longrightarrow> put_api_workorders_id_complete (DatabaseStorage_updateWorkOrder lookup change) j cb db
         = (Response 404 (Message ''Work order not found''), db))
   \<and> (insertion \<noteq> NoInsertFault
     \<longrightarrow> fst (DatabaseStorage_createCustomer inexact lookup insertion clock now dc db) = Rejected
       \<and> fst (post_api_customers (DatabaseStorage_createCustomer inexact lookup insertion clock now) dc db)
           = Response 500 (Message ''Error creating customer''))
   \<and> (insertion \<noteq> NoInsertFault
     \<longrightarrow> fst (DatabaseStorage_createMaterial inexact lookup insertion now dm db) = Rejected
       \<and> fst (post_api_materials (DatabaseStorage_createMaterial inexact lookup insertion now) dm db)
           = Response 500 (Message ''Error creating material''))
   \<and> (insertion \<noteq> NoInsertFault
     \<longrightarrow> fst (DatabaseStorage_createWorkOrder inexact lookup insertion clock now dw db) = Rejected
       \<and> fst (post_api_workorders (DatabaseStorage_createWorkOrder inexact lookup insertion clock now) dw db)
           = Response 500 (Message ''Error creating work order''))
   \<and> (insertion \<noteq> NoInsertFault
     \<longrightarrow> fst (DatabaseStorage_createInvoice inexact lookup insertion clock now dv db) = Rejected
       \<and> fst (post_api_invoices (DatabaseStorage_createInvoice inexact lookup insertion clock now) dv db)
           = Response 500 (Message ''Error creating invoice''))
   \<and> (insertion \<noteq> NoInsertFault
     \<longrightarrow> fst (DatabaseStorage_createProject insertion now dp db) = Rejected
       \<and> fst (post_api_projects (DatabaseStorage_createProject insertion now) dp db)
           = Response 500 (Message ''Error creating project''))
   \<and> (insertion \<noteq> NoInsertFault
     \<longrightarrow> fst (DatabaseStorage_createUser insertion now du db) = Rejected)
   \<and> (generateCustomerNumber inexact Fault clock db = ''KL-'' @ toString (getFullYear clock) @ ''-0001'')
   \<and> (generateArticleNumber inexact Fault db = ''ART-000001'')
   \<and> (generateOrderNumber inexact Fault clock db = ''WB-'' @ toString (getFullYear clock) @ ''-0001'')
   \<and> (generateInvoiceNumber inexact Fault clock db = ''F-'' @ toString (getFullYear clock) @ ''-0001'')"
  by (intro conjI)
    (rule absent_Customer_db
      absent_Material_db
      absent_WorkOrder_db
      absent_Invoice_db
      absent_Project_db
      absent_User_db
      absent_Customer_mem
      absent_Material_mem
      absent_WorkOrder_mem
      absent_Invoice_mem
      absent_Project_mem
      absent_User_mem
      failed_Customer_db
      failed_allCustomers_db
      failed_Material_db
      failed_allMaterials_db
      failed_WorkOrder_db
      failed_allWorkOrders_db
      failed_Invoice_db
      failed_allInvoices_db
      failed_Project_db
      failed_allProjects_db
      failed_User_db
      failed_change_db
      absent_Customer_routes
      absent_Material_routes
      absent_WorkOrder_routes
      absent_Invoice_routes
      absent_Project_routes
      failed_Customer_routes
      failed_allCustomers_route
      failed_Material_routes
      failed_allMaterials_route
      failed_WorkOrder_routes
      failed_allWorkOrders_route
      failed_Invoice_routes
      failed_allInvoices_route
      failed_Project_routes
      failed_allProjects_route
      failed_change_route
      failed_status_route
      failed_complete_route
      failed_createCustomer
      failed_createMaterial
      failed_createWorkOrder
      failed_createInvoice
      failed_createProject
      failed_createUser
      failed_generateCustomerNumber
      failed_generateArticleNumber
      failed_generateOrderNumber
      failed_generateInvoiceNumber)+

theorem C7_absent_values_and_storage_failures_witness:
  "7 \<notin> set (map id' (database.users populatedDatabase))
   \<and> 7 \<notin> set (map id' (database.customers populatedDatabase))
   \<and> 7 \<notin> set (map id' (database.materials populatedDatabase))
   \<and> 7 \<notin> set (map id' (work_orders populatedDatabase))
   \<and> 7 \<notin> set (map id' (database.invoices populatedDatabase))
   \<and> 7 \<notin> set (map id' (database.projects populatedDatabase))
   \<and> map id' (database.customers populatedDatabase) = [1]
   \<and> map_of (memStorage.users populatedMemStorage) 7 = None
   \<and> map_of (memStorage.customers populatedMemStorage) 7 = None
   \<and> map_of (memStorage.materials populatedMemStorage) 7 = None
   \<and> map_of (memStorage.workOrders populatedMemStorage) 7 = None
   \<and> map_of (memStorage.invoices populatedMemStorage) 7 = None
   \<and> map_of (memStorage.projects populatedMemStorage) 7 = None
   \<and> updateParts statusWorkOrderPatch \<noteq> 0
   \<and> orNull truthyString (statusBody.status sampleStatusBody) \<noteq> None
   \<and> isDefined (destructure (completeBody.laborHours sampleCompleteBody))
   \<and> DatabaseStorage_getCustomer NoFault 7 populatedDatabase = Resolved None
   \<and> DatabaseStorage_updateCustomer NoFault 7 sampleCustomerPatch populatedDatabase
       = (Resolved None, populatedDatabase)
   \<and> DatabaseStorage_deleteCustomer NoFault 7 populatedDatabase
       = (Resolved False, populatedDatabase)
   \<and> DatabaseStorage_updateWorkOrder NoFault Fault 7 statusWorkOrderPatch populatedDatabase
       = (Resolved None, populatedDatabase)
   \<and> MemStorage_deleteWorkOrder 7 populatedMemStorage = (Resolved False, populatedMemStorage)
   \<and> MemStorage_getUser 7 populatedMemStorage = Resolved None
   \<and> put_api_projects_id (DatabaseStorage_updateProject NoFault) 7 sampleProjectPatch
         populatedDatabase
       = (Response 404 (Message ''Project not found''), populatedDatabase)
   \<and> put_api_customers_id (DatabaseStorage_updateCustomer Fault) 1 sampleCustomerPatch
         populatedDatabase
       = (Response 404 (Message ''Customer not found''), populatedDatabase)
   \<and> DatabaseStorage_updateWorkOrder NoFault Fault 1 statusWorkOrderPatch populatedDatabase
       = (Resolved None, populatedDatabase)
   \<and> patch_api_workorders_id_status (DatabaseStorage_updateWorkOrder NoFault Fault) 1
         sampleStatusBody populatedDatabase
       = (Response 404 (Message ''Work order not found''), populatedDatabase)
   \<and> put_api_workorders_id_complete (DatabaseStorage_updateWorkOrder NoFault Fault) 1
         sampleCompleteBody populatedDatabase
       = (Response 404 (Message ''Work order not found''), populatedDatabase)
   \<and> get_api_invoices (DatabaseStorage_getAllInvoices Fault) populatedDatabase
       = Response 200 (Json [])
   \<and> fst (post_api_customers
         (DatabaseStorage_createCustomer sampleInexact NoFault FaultAfterId sampleClock
            sampleClock)
         sampleCustomerDraft populatedDatabase)
       = Response 500 (Message ''Error creating customer'')"
proof -
  have h: "7 \<notin> set (map id' (database.users populatedDatabase))"
    "7 \<notin> set (map id' (database.customers populatedDatabase))"
    "7 \<notin> set (map id' (database.materials populatedDatabase))"
    "7 \<notin> set (map id' (work_orders populatedDatabase))"
    "7 \<notin> set (map id' (database.invoices populatedDatabase))"
    "7 \<notin> set (map id' (database.projects populatedDatabase))"
    "map id' (database.customers populatedDatabase) = [1]"
    "map_of (memStorage.users populatedMemStorage) 7 = None"
    "map_of (memStorage.customers populatedMemStorage) 7 = None"
    "map_of (memStorage.materials populatedMemStorage) 7 = None"
    "map_of (memStorage.workOrders populatedMemStorage) 7 = None"
    "map_of (memStorage.invoices populatedMemStorage) 7 = None"
    "map_of (memStorage.projects populatedMemStorage) 7 = None"
    by (simp_all add: sample_defs)
  have k: "updateParts statusWorkOrderPatch \<noteq> 0"
    "orNull truthyString (statusBody.status sampleStatusBody) \<noteq> None"
    "isDefined (destructure (completeBody.laborHours sampleCompleteBody))"
    "(NoFault = Fault \<or> Fault = Fault)
      \<and> orNull truthyString (statusBody.status sampleStatusBody) \<noteq> None"
    "(NoFault = Fault \<or> Fault = Fault)
      \<and> isDefined (destructure (completeBody.laborHours sampleCompleteBody))"
    "FaultAfterId \<noteq> NoInsertFault"
    by (simp_all add: sample_defs updateParts_def orNull_def truthyString_def isDefined_def
        destructure_def)
  note t = C7_absent_values_and_storage_failures [where i = 7 and j = 1
      and db = populatedDatabase and st = populatedMemStorage and g = NoFault and u = NoFault
      and d = NoFault and lookup = NoFault and change = Fault and insertion = FaultAfterId
      and inexact = sampleInexact and clock = sampleClock and now = sampleClock
      and pc = sampleCustomerPatch and pm = sampleMaterialPatch and pw = statusWorkOrderPatch
      and pv = sampleInvoicePatch and pp = sampleProjectPatch and sb = sampleStatusBody
      and cb = sampleCompleteBody and dc = sampleCustomerDraft and dm = sampleMaterialDraft
      and dw = sampleWorkOrderDraft and dv = sampleInvoiceDraft and dp = sampleProjectDraft
      and du = sampleUserDraft]
  show ?thesis
    using h k t unfolding absentAnswers_def notFoundResponses_def
    by simp
qed

section \<open>Updates and the code field\<close>

lemma whereId_map_if:
  "(\<And>r. id' (g r) = id' r)
     \<Longrightarrow> whereId i (map (\<lambda>r. if id' r = i then g r else r) rows) = map g (whereId i rows)"
  by (induction rows) (simp_all add: whereId_def)

lemma first_map: "first (map g xs) = map_option g (first xs)"
  by (cases xs) (simp_all add: first_def)

lemma first_None: "first xs = None \<longleftrightarrow> xs = []"
  by (cases xs) (simp_all add: first_def)

lemma whereId_empty: "whereId i rows = [] \<Longrightarrow> i \<notin> set (map id' rows)"
  unfolding whereId_def by (induction rows) (auto split: if_splits)

lemma map_code_unchanged:
  "(\<And>r. code (g r) = code r)
     \<Longrightarrow> map code (map (\<lambda>r. if id' r = i then g r else r) rows) = map code rows"
  by (induction rows) simp_all

lemma untouched_rows:
  assumes "\<And>r. id' (g r) = id' r"
    and "first (whereId i (map (\<lambda>r. if id' r = i then g r else r) rows)) = None"
  shows "map (\<lambda>r. if id' r = i then g r else r) rows = rows"
proof -
  have "map g (whereId i rows) = []"
    using assms(2) by (simp add: whereId_map_if [OF assms(1)] first_None)
  then have "whereId i rows = []"
    by simp
  then have "i \<notin> set (map id' rows)"
    by (rule whereId_empty)
  then show ?thesis
    by (rule map_absent)
qed

lemma setCustomer_id: "id' (setCustomer p c) = id' c"
  by (simp add: setCustomer_def)

lemma setMaterial_id: "id' (setMaterial p m) = id' m"
  by (simp add: setMaterial_def)

lemma setWorkOrder_id: "id' (setWorkOrder p w) = id' w"
  by (simp add: setWorkOrder_def)

lemma setInvoice_id: "id' (setInvoice p v) = id' v"
  by (simp add: setInvoice_def)

lemma update_same_code:
  "map_of m i = Some r \<Longrightarrow> code r' = code r
     \<Longrightarrow> map (code \<circ> snd) (AList.update i r' m) = map (code \<circ> snd) m"
  by (induction m) (auto split: if_splits)

lemma updateWorkOrder_db_keeps:
  "map workOrder.orderNumber
       (work_orders (snd (DatabaseStorage_updateWorkOrder lookup change i pw db)))
     = map workOrder.orderNumber (work_orders db)"
proof -
  have "workOrder.orderNumber (setWorkOrder pw r) = workOrder.orderNumber r" for r :: workOrder
    by (simp add: setWorkOrder_def)
  then have "map workOrder.orderNumber
       (map (\<lambda>r. if id' r = i then setWorkOrder pw r else r) (work_orders db))
     = map workOrder.orderNumber (work_orders db)"
    by (rule map_code_unchanged)
  then show ?thesis
    by (simp add: DatabaseStorage_updateWorkOrder_def DatabaseStorage_getWorkOrder_def Let_def
        split: option.splits promise.splits)
qed

lemma updateWorkOrder_db_returned:
  "DatabaseStorage_updateWorkOrder lookup change i pw db = (Resolved (Some w'), dbw)
     \<and> first (whereId i (work_orders db)) = Some w
   \<longrightarrow> workOrder.orderNumber w' = workOrder.orderNumber w
     \<and> first (whereId i (work_orders dbw)) = Some w'"
proof (intro impI, elim conjE)
  assume a: "DatabaseStorage_updateWorkOrder lookup change i pw db = (Resolved (Some w'), dbw)"
    and b: "first (whereId i (work_orders db)) = Some w"
  have m: "whereId i (map (\<lambda>r. if id' r = i then setWorkOrder pw r else r) (work_orders db))
      = map (setWorkOrder pw) (whereId i (work_orders db))"
    by (rule whereId_map_if) (rule setWorkOrder_id)
  obtain rest where w: "whereId i (work_orders db) = w # rest"
    using b by (auto simp add: first_def split: list.splits)
  have "(w' = w \<and> dbw = db)
      \<or> (w' = setWorkOrder pw w
         \<and> dbw = db\<lparr> work_orders :=
             map (\<lambda>r. if id' r = i then setWorkOrder pw r else r) (work_orders db) \<rparr>)"
    using a w
    by (auto simp add: DatabaseStorage_updateWorkOrder_def DatabaseStorage_getWorkOrder_def
        Let_def m first_def split: if_splits)
  then show "workOrder.orderNumber w' = workOrder.orderNumber w
     \<and> first (whereId i (work_orders dbw)) = Some w'"
    using b w by (auto simp add: setWorkOrder_def m first_def)
qed

lemma updateWorkOrder_db_none:
  "fst (DatabaseStorage_updateWorkOrder lookup change j pw db) = Resolved None
   \<longrightarrow> snd (DatabaseStorage_updateWorkOrder lookup change j pw db) = db"
proof -
  have m: "whereId j (map (\<lambda>r. if id' r = j then setWorkOrder pw r else r) (work_orders db))
      = map (setWorkOrder pw) (whereId j (work_orders db))"
    by (rule whereId_map_if) (rule setWorkOrder_id)
  show ?thesis
    by (auto simp add: DatabaseStorage_updateWorkOrder_def DatabaseStorage_getWorkOrder_def
        Let_def m first_def split: if_splits list.splits)
qed

lemma updateCustomer_db_frame:
  "partialInsertCustomer.customerNumber fc = None
   \<longrightarrow> map customer.customerNumber (database.customers (snd (DatabaseStorage_updateCustomer q i fc db)))
       = map customer.customerNumber (database.customers db)"
proof
  assume a: "partialInsertCustomer.customerNumber fc = None"
  have "customer.customerNumber (setCustomer fc r) = customer.customerNumber r" for r :: customer
    using a by (simp add: setCustomer_def orKeep_def)
  then have "map customer.customerNumber
       (map (\<lambda>r. if id' r = i then setCustomer fc r else r) (database.customers db))
     = map customer.customerNumber (database.customers db)"
    by (rule map_code_unchanged)
  then show "map customer.customerNumber (database.customers (snd (DatabaseStorage_updateCustomer q i fc db)))
       = map customer.customerNumber (database.customers db)"
    by (simp add: DatabaseStorage_updateCustomer_def Let_def)
qed

lemma updateCustomer_db_returned:
  "DatabaseStorage_updateCustomer q i pc db = (Resolved (Some c'), dbc)
     \<and> first (whereId i (database.customers db)) = Some c
   \<longrightarrow> customer.customerNumber c' = orKeep (customer.customerNumber c) (partialInsertCustomer.customerNumber pc)
     \<and> first (whereId i (database.customers dbc)) = Some c'"
proof (intro impI, elim conjE)
  assume a: "DatabaseStorage_updateCustomer q i pc db = (Resolved (Some c'), dbc)"
    and b: "first (whereId i (database.customers db)) = Some c"
  have e: "whereId i (map (\<lambda>r. if id' r = i then setCustomer pc r else r) (database.customers db))
      = map (setCustomer pc) (whereId i (database.customers db))"
    by (rule whereId_map_if) (rule setCustomer_id)
  have "c' = setCustomer pc c
      \<and> dbc = db\<lparr> database.customers :=
          map (\<lambda>r. if id' r = i then setCustomer pc r else r) (database.customers db) \<rparr>"
    using a b
    by (auto simp add: DatabaseStorage_updateCustomer_def Let_def e first_map split: if_splits)
  then show "customer.customerNumber c' = orKeep (customer.customerNumber c) (partialInsertCustomer.customerNumber pc)
     \<and> first (whereId i (database.customers dbc)) = Some c'"
    using b by (simp add: setCustomer_def e first_map)
qed

lemma updateCustomer_db_none:
  "fst (DatabaseStorage_updateCustomer q j pc db) = Resolved None
   \<longrightarrow> snd (DatabaseStorage_updateCustomer q j pc db) = db"
proof
  assume a: "fst (DatabaseStorage_updateCustomer q j pc db) = Resolved None"
  show "snd (DatabaseStorage_updateCustomer q j pc db) = db"
  proof (cases "first (whereId j (map (\<lambda>r. if id' r = j then setCustomer pc r else r)
      (database.customers db))) = None")
    case True
    have "map (\<lambda>r. if id' r = j then setCustomer pc r else r) (database.customers db) = database.customers db"
      by (rule untouched_rows [OF setCustomer_id True])
    then show ?thesis
      by (simp add: DatabaseStorage_updateCustomer_def Let_def)
  next
    case False
    with a show ?thesis
      by (auto simp add: DatabaseStorage_updateCustomer_def Let_def split: if_splits)
  qed
qed

lemma updateMaterial_db_frame:
  "partialInsertMaterial.articleNumber fm = None
   \<longrightarrow> map material.articleNumber (database.materials (snd (DatabaseStorage_updateMaterial q i fm db)))
       = map material.articleNumber (database.materials db)"
proof
  assume a: "partialInsertMaterial.articleNumber fm = None"
  have "material.articleNumber (setMaterial fm r) = material.articleNumber r" for r :: material
    using a by (simp add: setMaterial_def orKeep_def)
  then have "map material.articleNumber
       (map (\<lambda>r. if id' r = i then setMaterial fm r else r) (database.materials db))
     = map material.articleNumber (database.materials db)"
    by (rule map_code_unchanged)
  then show "map material.articleNumber (database.materials (snd (DatabaseStorage_updateMaterial q i fm db)))
       = map material.articleNumber (database.materials db)"
    by (simp add: DatabaseStorage_updateMaterial_def Let_def)
qed

lemma updateMaterial_db_returned:
  "DatabaseStorage_updateMaterial q i pm db = (Resolved (Some m'), dbm)
     \<and> first (whereId i (database.materials db)) = Some m
   \<longrightarrow> material.articleNumber m' = orKeep (material.articleNumber m) (partialInsertMaterial.articleNumber pm)
     \<and> first (whereId i (database.materials dbm)) = Some m'"
proof (intro impI, elim conjE)
  assume a: "DatabaseStorage_updateMaterial q i pm db = (Resolved (Some m'), dbm)"
    and b: "first (whereId i (database.materials db)) = Some m"
  have e: "whereId i (map (\<lambda>r. if id' r = i then setMaterial pm r else r) (database.materials db))
      = map (setMaterial pm) (whereId i (database.materials db))"
    by (rule whereId_map_if) (rule setMaterial_id)
  have "m' = setMaterial pm m
      \<and> dbm = db\<lparr> database.materials :=
          map (\<lambda>r. if id' r = i then setMaterial pm r else r) (database.materials db) \<rparr>"
    using a b
    by (auto simp add: DatabaseStorage_updateMaterial_def Let_def e first_map split: if_splits)
  then show "material.articleNumber m' = orKeep (material.articleNumber m) (partialInsertMaterial.articleNumber pm)
     \<and> first (whereId i (database.materials dbm)) = Some m'"
    using b by (simp add: setMaterial_def e first_map)
qed

lemma updateMaterial_db_none:
  "fst (DatabaseStorage_updateMaterial q j pm db) = Resolved None
   \<longrightarrow> snd (DatabaseStorage_updateMaterial q j pm db) = db"
proof
  assume a: "fst (DatabaseStorage_updateMaterial q j pm db) = Resolved None"
  show "snd (DatabaseStorage_updateMaterial q j pm db) = db"
  proof (cases "first (whereId j (map (\<lambda>r. if id' r = j then setMaterial pm r else r)
      (database.materials db))) = None")
    case True
    have "map (\<lambda>r. if id' r = j then setMaterial pm r else r) (database.materials db) = database.materials db"
      by (rule untouched_rows [OF setMaterial_id True])
    then show ?thesis
      by (simp add: DatabaseStorage_updateMaterial_def Let_def)
  next
    case False
    with a show ?thesis
      by (auto simp add: DatabaseStorage_updateMaterial_def Let_def split: if_splits)
  qed
qed

lemma updateInvoice_db_frame:
  "partialInsertInvoice.invoiceNumber fv = None
   \<longrightarrow> map invoice.invoiceNumber (database.invoices (snd (DatabaseStorage_updateInvoice q i fv db)))
       = map invoice.invoiceNumber (database.invoices db)"
proof
  assume a: "partialInsertInvoice.invoiceNumber fv = None"
  have "invoice.invoiceNumber (setInvoice fv r) = invoice.invoiceNumber r" for r :: invoice
    using a by (simp add: setInvoice_def orKeep_def)
  then have "map invoice.invoiceNumber
       (map (\<lambda>r. if id' r = i then setInvoice fv r else r) (database.invoices db))
     = map invoice.invoiceNumber (database.invoices db)"
    by (rule map_code_unchanged)
  then show "map invoice.invoiceNumber (database.invoices (snd (DatabaseStorage_updateInvoice q i fv db)))
       = map invoice.invoiceNumber (database.invoices db)"
    by (simp add: DatabaseStorage_updateInvoice_def Let_def)
qed

lemma updateInvoice_db_returned:
  "DatabaseStorage_updateInvoice q i pv db = (Resolved (Some v'), dbv)
     \<and> first (whereId i (database.invoices db)) = Some v
   \<longrightarrow> invoice.invoiceNumber v' = orKeep (invoice.invoiceNumber v) (partialInsertInvoice.invoiceNumber pv)
     \<and> first (whereId i (database.invoices dbv)) = Some v'"
proof (intro impI, elim conjE)
  assume a: "DatabaseStorage_updateInvoice q i pv db = (Resolved (Some v'), dbv)"
    and b: "first (whereId i (database.invoices db)) = Some v"
  have e: "whereId i (map (\<lambda>r. if id' r = i then setInvoice pv r else r) (database.invoices db))
      = map (setInvoice pv) (whereId i (database.invoices db))"
    by (rule whereId_map_if) (rule setInvoice_id)
  have "v' = setInvoice pv v
      \<and> dbv = db\<lparr> database.invoices :=
          map (\<lambda>r. if id' r = i then setInvoice pv r else r) (database.invoices db) \<rparr>"
    using a b
    by (auto simp add: DatabaseStorage_updateInvoice_def Let_def e first_map split: if_splits)
  then show "invoice.invoiceNumber v' = orKeep (invoice.invoiceNumber v) (partialInsertInvoice.invoiceNumber pv)
     \<and> first (whereId i (database.invoices dbv)) = Some v'"
    using b by (simp add: setInvoice_def e first_map)
qed

lemma updateInvoice_db_none:
  "fst (DatabaseStorage_updateInvoice q j pv db) = Resolved None
   \<longrightarrow> snd (DatabaseStorage_updateInvoice q j pv db) = db"
proof
  assume a: "fst (DatabaseStorage_updateInvoice q j pv db) = Resolved None"
  show "snd (DatabaseStorage_updateInvoice q j pv db) = db"
  proof (cases "first (whereId j (map (\<lambda>r. if id' r = j then setInvoice pv r else r)
      (database.invoices db))) = None")
    case True
    have "map (\<lambda>r. if id' r = j then setInvoice pv r else r) (database.invoices db) = database.invoices db"
      by (rule untouched_rows [OF setInvoice_id True])
    then show ?thesis
      by (simp add: DatabaseStorage_updateInvoice_def Let_def)
  next
    case False
    with a show ?thesis
      by (auto simp add: DatabaseStorage_updateInvoice_def Let_def split: if_splits)
  qed
qed

lemma updateCustomer_mem_frame:
  "partialInsertCustomer.customerNumber fc = None
   \<longrightarrow> map (customer.customerNumber \<circ> snd) (memStorage.customers (snd (MemStorage_updateCustomer i fc st)))
       = map (customer.customerNumber \<circ> snd) (memStorage.customers st)"
  by (auto simp add: MemStorage_updateCustomer_def Let_def spreadCustomer_def orKeep_def
      update_same_code split: option.splits)

lemma updateCustomer_mem_returned:
  "MemStorage_updateCustomer i pc st = (Resolved (Some mc'), stc)
     \<and> map_of (memStorage.customers st) i = Some mc
   \<longrightarrow> customer.customerNumber mc' = orKeep (customer.customerNumber mc) (partialInsertCustomer.customerNumber pc)
     \<and> map_of (memStorage.customers stc) i = Some mc'"
  by (auto simp add: MemStorage_updateCustomer_def Let_def spreadCustomer_def update_conv')

lemma updateCustomer_mem_none:
  "fst (MemStorage_updateCustomer j pc st) = Resolved None
   \<longrightarrow> snd (MemStorage_updateCustomer j pc st) = st"
  by (simp add: MemStorage_updateCustomer_def Let_def split: option.splits)

lemma updateMaterial_mem_frame:
  "partialInsertMaterial.articleNumber fm = None
   \<longrightarrow> map (material.articleNumber \<circ> snd) (memStorage.materials (snd (MemStorage_updateMaterial i fm st)))
       = map (material.articleNumber \<circ> snd) (memStorage.materials st)"
  by (auto simp add: MemStorage_updateMaterial_def Let_def spreadMaterial_def orKeep_def
      update_same_code split: option.splits)

lemma updateMaterial_mem_returned:
  "MemStorage_updateMaterial i pm st = (Resolved (Some mm'), stm)
     \<and> map_of (memStorage.materials st) i = Some mm
   \<longrightarrow> material.articleNumber mm' = orKeep (material.articleNumber mm) (partialInsertMaterial.articleNumber pm)
     \<and> map_of (memStorage.materials stm) i = Some mm'"
  by (auto simp add: MemStorage_updateMaterial_def Let_def spreadMaterial_def update_conv')

lemma updateMaterial_mem_none:
  "fst (MemStorage_updateMaterial j pm st) = Resolved None
   \<longrightarrow> snd (MemStorage_updateMaterial j pm st) = st"
  by (simp add: MemStorage_updateMaterial_def Let_def split: option.splits)

lemma updateWorkOrder_mem_frame:
  "partialInsertWorkOrder.orderNumber fw = None
   \<longrightarrow> map (workOrder.orderNumber \<circ> snd) (memStorage.workOrders (snd (MemStorage_updateWorkOrder i fw st)))
       = map (workOrder.orderNumber \<circ> snd) (memStorage.workOrders st)"
  by (auto simp add: MemStorage_updateWorkOrder_def Let_def spreadWorkOrder_def orKeep_def
      update_same_code split: option.splits)

lemma updateWorkOrder_mem_returned:
  "MemStorage_updateWorkOrder i pw st = (Resolved (Some mw'), stw)
     \<and> map_of (memStorage.workOrders st) i = Some mw
   \<longrightarrow> workOrder.orderNumber mw' = orKeep (workOrder.orderNumber mw) (partialInsertWorkOrder.orderNumber pw)
     \<and> map_of (memStorage.workOrders stw) i = Some mw'"
  by (auto simp add: MemStorage_updateWorkOrder_def Let_def spreadWorkOrder_def update_conv')

lemma updateWorkOrder_mem_none:
  "fst (MemStorage_updateWorkOrder j pw st) = Resolved None
   \<longrightarrow> snd (MemStorage_updateWorkOrder j pw st) = st"
  by (simp add: MemStorage_updateWorkOrder_def Let_def split: option.splits)

lemma updateInvoice_mem_frame:
  "partialInsertInvoice.invoiceNumber fv = None
   \<longrightarrow> map (invoice.invoiceNumber \<circ> snd) (memStorage.invoices (snd (MemStorage_updateInvoice i fv st)))
       = map (invoice.invoiceNumber \<circ> snd) (memStorage.invoices st)"
  by (auto simp add: MemStorage_updateInvoice_def Let_def spreadInvoice_def orKeep_def
      update_same_code split: option.splits)

lemma updateInvoice_mem_returned:
  "MemStorage_updateInvoice i pv st = (Resolved (Some mv'), stv)
     \<and> map_of (memStorage.invoices st) i = Some mv
   \<longrightarrow> invoice.invoiceNumber mv' = orKeep (invoice.invoiceNumber mv) (partialInsertInvoice.invoiceNumber pv)
     \<and> map_of (memStorage.invoices stv) i = Some mv'"
  by (auto simp add: MemStorage_updateInvoice_def Let_def spreadInvoice_def update_conv')

lemma updateInvoice_mem_none:
  "fst (MemStorage_updateInvoice j pv st) = Resolved None
   \<longrightarrow> snd (MemStorage_updateInvoice j pv st) = st"
  by (simp add: MemStorage_updateInvoice_def Let_def split: option.splits)

text \<open>
  Claim C3 says that an update never changes the code of a record, also when the payload
  carries another code. It does: the customer update of the database-backed repository
  sets every column the payload has, \<^verbatim>\<open>customer_number\<close> among them.
\<close>

theorem C3_update_overwrites_customerNumber:
  "map customer.customerNumber (database.customers oneCustomerDatabase) = [''KL-2025-0001'']
   \<and> partialInsertCustomer.customerNumber renumberCustomerPatch = Some ''KL-1999-0042''
   \<and> fst (DatabaseStorage_updateCustomer NoFault 1 renumberCustomerPatch oneCustomerDatabase)
       = Resolved (Some (hd (database.customers
           (snd (DatabaseStorage_updateCustomer NoFault 1 renumberCustomerPatch
              oneCustomerDatabase)))))
   \<and> map customer.customerNumber (database.customers
         (snd (DatabaseStorage_updateCustomer NoFault 1 renumberCustomerPatch
            oneCustomerDatabase)))
       = [''KL-1999-0042'']"
  by (simp add: sample_defs update_defs)

text \<open>
  Claim C3, as the code has it. The work-order update of the database-backed repository
  never changes an order number, whatever the payload: its statement sets eight other
  columns; the record it returns is the stored one and carries the stored order number.
  Every other update (customers, materials and invoices in both repositories, work
  orders in memory) leaves all stored codes as they were when the payload has no code
  field. When such an update returns a record, that record is the one stored under the
  id, and its code is the payload's code when the payload has one and the code stored
  before otherwise. An update that returns no record (the id does not exist, the
  statement fails, the payload has nothing to set, or the new article or invoice number
  is already used by another row of the database) leaves the store as it was.
\<close>

theorem C3_update_and_code_field:
  "(map workOrder.orderNumber
       (work_orders (snd (DatabaseStorage_updateWorkOrder lookup change i pw db)))
     = map workOrder.orderNumber (work_orders db))
   \<and> (DatabaseStorage_updateWorkOrder lookup change i pw db = (Resolved (Some w'), dbw)
     \<and> first (whereId i (work_orders db)) = Some w
   \<longrightarrow> workOrder.orderNumber w' = workOrder.orderNumber w
     \<and> first (whereId i (work_orders dbw)) = Some w')
   \<and> (fst (DatabaseStorage_updateWorkOrder lookup change j pw db) = Resolved None
   \<longrightarrow> snd (DatabaseStorage_updateWorkOrder lookup change j pw db) = db)
   \<and> (partialInsertCustomer.customerNumber fc = None
   \<longrightarrow> map customer.customerNumber (database.customers (snd (DatabaseStorage_updateCustomer q i fc db)))
       = map customer.customerNumber (database.customers db))
   \<and> (DatabaseStorage_updateCustomer q i pc db = (Resolved (Some c'), dbc)
     \<and> first (whereId i (database.customers db)) = Some c
   \<longrightarrow> customer.customerNumber c' = orKeep (customer.customerNumber c) (partialInsertCustomer.customerNumber pc)
     \<and> first (whereId i (database.customers dbc)) = Some c')
   \<and> (fst (DatabaseStorage_updateCustomer q j pc db) = Resolved None
   \<longrightarrow> snd (DatabaseStorage_updateCustomer q j pc db) = db)
   \<and> (partialInsertMaterial.articleNumber fm = None
   \<longrightarrow> map material.articleNumber (database.materials (snd (DatabaseStorage_updateMaterial q i fm db)))
       = map material.articleNumber (database.materials db))
   \<and> (DatabaseStorage_updateMaterial q i pm db = (Resolved (Some m'), dbm)
     \<and> first (whereId i (database.materials db)) = Some m
   \<longrightarrow> material.articleNumber m' = orKeep (material.articleNumber m) (partialInsertMaterial.articleNumber pm)
     \<and> first (whereId i (database.materials dbm)) = Some m')
   \<and> (fst (DatabaseStorage_updateMaterial q j pm db) = Resolved None
   \<longrightarrow> snd (DatabaseStorage_updateMaterial q j pm db) = db)
   \<and> (partialInsertInvoice.invoiceNumber fv = None
   \<longrightarrow> map invoice.invoiceNumber (database.invoices (snd (DatabaseStorage_updateInvoice q i fv db)))
       = map invoice.invoiceNumber (database.invoices db))
   \<and> (DatabaseStorage_updateInvoice q i pv db = (Resolved (Some v'), dbv)
     \<and> first (whereId i (database.invoices db)) = Some v
   \<longrightarrow> invoice.invoiceNumber v' = orKeep (invoice.invoiceNumber v) (partialInsertInvoice.invoiceNumber pv)
     \<and> first (whereId i (database.invoices dbv)) = Some v')
   \<and> (fst (DatabaseStorage_updateInvoice q j pv db) = Resolved None
   \<longrightarrow> snd (DatabaseStorage_updateInvoice q j pv db) = db)
   \<and> (partialInsertCustomer.customerNumber fc = None
   \<longrightarrow> map (customer.customerNumber \<circ> snd) (memStorage.customers (snd (MemStorage_updateCustomer i fc st)))
       = map (customer.customerNumber \<circ> snd) (memStorage.customers st))
   \<and> (MemStorage_updateCustomer i pc st = (Resolved (Some mc'), stc)
     \<and> map_of (memStorage.customers st) i = Some mc
   \<longrightarrow> customer.customerNumber mc' = orKeep (customer.customerNumber mc) (partialInsertCustomer.customerNumber pc)
     \<and> map_of (memStorage.customers stc) i = Some mc')
   \<and> (fst (MemStorage_updateCustomer j pc st) = Resolved None
   \<longrightarrow> snd (MemStorage_updateCustomer j pc st) = st)
   \<and> (partialInsertMaterial.articleNumber fm = None
   \<longrightarrow> map (material.articleNumber \<circ> snd) (memStorage.materials (snd (MemStorage_updateMaterial i fm st)))
       = map (material.articleNumber \<circ> snd) (memStorage.materials st))
   \<and> (MemStorage_updateMaterial i pm st = (Resolved (Some mm'), stm)
     \<and> map_of (memStorage.materials st) i = Some mm
   \<longrightarrow> material.articleNumber mm' = orKeep (material.articleNumber mm) (partialInsertMaterial.articleNumber pm)
     \<and> map_of (memStorage.materials stm) i = Some mm')
   \<and> (fst (MemStorage_updateMaterial j pm st) = Resolved None
   \<longrightarrow> snd (MemStorage_updateMaterial j pm st) = st)
   \<and> (partialInsertWorkOrder.orderNumber fw = None
   \<longrightarrow> map (workOrder.orderNumber \<circ> snd) (memStorage.workOrders (snd (MemStorage_updateWorkOrder i fw st)))
       = map (workOrder.orderNumber \<circ> snd) (memStorage.workOrders st))
   \<and> (MemStorage_updateWorkOrder i pw st = (Resolved (Some mw'), stw)
     \<and> map_of (memStorage.workOrders st) i = Some mw
   \<longrightarrow> workOrder.orderNumber mw' = orKeep (workOrder.orderNumber mw) (partialInsertWorkOrder.orderNumber pw)
     \<and> map_of (memStorage.workOrders stw) i = Some mw')
   \<and> (fst (MemStorage_updateWorkOrder j pw st) = Resolved None
   \<longrightarrow> snd (MemStorage_updateWorkOrder j pw st) = st)
   \<and> (partialInsertInvoice.invoiceNumber fv = None
   \<longrightarrow> map (invoice.invoiceNumber \<circ> snd) (memStorage.invoices (snd (MemStorage_updateInvoice i fv st)))
       = map (invoice.invoiceNumber \<circ> snd) (memStorage.invoices st))
   \<and> (MemStorage_updateInvoice i pv st = (Resolved (Some mv'), stv)
     \<and> map_of (memStorage.invoices st) i = Some mv
   \<longrightarrow> invoice.invoiceNumber mv' = orKeep (invoice.invoiceNumber mv) (partialInsertInvoice.invoiceNumber pv)
     \<and> map_of (memStorage.invoices stv) i = Some mv')
   \<and> (fst (MemStorage_updateInvoice j pv st) = Resolved None
   \<longrightarrow> snd (MemStorage_updateInvoice j pv st) = st)"
  by (intro conjI)
    (rule updateWorkOrder_db_keeps
      updateWorkOrder_db_returned
      updateWorkOrder_db_none
      updateCustomer_db_frame
      updateCustomer_db_returned
      updateCustomer_db_none
      updateMaterial_db_frame
      updateMaterial_db_returned
      updateMaterial_db_none
      updateInvoice_db_frame
      updateInvoice_db_returned
      updateInvoice_db_none
      updateCustomer_mem_frame
      updateCustomer_mem_returned
      updateCustomer_mem_none
      updateMaterial_mem_frame
      updateMaterial_mem_returned
      updateMaterial_mem_none
      updateWorkOrder_mem_frame
      updateWorkOrder_mem_returned
      updateWorkOrder_mem_none
      updateInvoice_mem_frame
      updateInvoice_mem_returned
      updateInvoice_mem_none)+

theorem C3_update_and_code_field_witness:
  "(DatabaseStorage_updateWorkOrder NoFault NoFault 1 sampleWorkOrderPatch fullDatabase
       = (Resolved (Some (setWorkOrder sampleWorkOrderPatch sampleWorkOrder)), fullDatabase\<lparr> work_orders := [setWorkOrder sampleWorkOrderPatch sampleWorkOrder] \<rparr>)
     \<and> first (whereId 1 (work_orders fullDatabase)) = Some sampleWorkOrder)
   \<and> (partialInsertCustomer.customerNumber sampleCustomerPatch = None)
   \<and> (DatabaseStorage_updateCustomer NoFault 1 renumberCustomerPatch fullDatabase
       = (Resolved (Some (setCustomer renumberCustomerPatch sampleCustomer)), fullDatabase\<lparr> database.customers := [setCustomer renumberCustomerPatch sampleCustomer] \<rparr>)
     \<and> first (whereId 1 (database.customers fullDatabase)) = Some sampleCustomer)
   \<and> (partialInsertMaterial.articleNumber sampleMaterialPatch = None)
   \<and> (DatabaseStorage_updateMaterial NoFault 1 renumberMaterialPatch fullDatabase
       = (Resolved (Some (setMaterial renumberMaterialPatch sampleMaterial)), fullDatabase\<lparr> database.materials := [setMaterial renumberMaterialPatch sampleMaterial] \<rparr>)
     \<and> first (whereId 1 (database.materials fullDatabase)) = Some sampleMaterial)
   \<and> (partialInsertInvoice.invoiceNumber sampleInvoicePatch = None)
   \<and> (DatabaseStorage_updateInvoice NoFault 1 renumberInvoicePatch fullDatabase
       = (Resolved (Some (setInvoice renumberInvoicePatch sampleSentInvoice)), fullDatabase\<lparr> database.invoices := [setInvoice renumberInvoicePatch sampleSentInvoice] \<rparr>)
     \<and> first (whereId 1 (database.invoices fullDatabase)) = Some sampleSentInvoice)
   \<and> (MemStorage_updateCustomer 1 renumberCustomerPatch fullMemStorage
       = (Resolved (Some (spreadCustomer memCustomer renumberCustomerPatch)), fullMemStorage\<lparr> memStorage.customers := [(1, spreadCustomer memCustomer renumberCustomerPatch)] \<rparr>)
     \<and> map_of (memStorage.customers fullMemStorage) 1 = Some memCustomer)
   \<and> (MemStorage_updateMaterial 1 renumberMaterialPatch fullMemStorage
       = (Resolved (Some (spreadMaterial memMaterial renumberMaterialPatch)), fullMemStorage\<lparr> memStorage.materials := [(1, spreadMaterial memMaterial renumberMaterialPatch)] \<rparr>)
     \<and> map_of (memStorage.materials fullMemStorage) 1 = Some memMaterial)
   \<and> (partialInsertWorkOrder.orderNumber statusWorkOrderPatch = None)
   \<and> (MemStorage_updateWorkOrder 1 sampleWorkOrderPatch fullMemStorage
       = (Resolved (Some (spreadWorkOrder memWorkOrder sampleWorkOrderPatch)), fullMemStorage\<lparr> memStorage.workOrders := [(1, spreadWorkOrder memWorkOrder sampleWorkOrderPatch)] \<rparr>)
     \<and> map_of (memStorage.workOrders fullMemStorage) 1 = Some memWorkOrder)
   \<and> (MemStorage_updateInvoice 1 renumberInvoicePatch fullMemStorage
       = (Resolved (Some (spreadInvoice memInvoice renumberInvoicePatch)), fullMemStorage\<lparr> memStorage.invoices := [(1, spreadInvoice memInvoice renumberInvoicePatch)] \<rparr>)
     \<and> map_of (memStorage.invoices fullMemStorage) 1 = Some memInvoice)
   \<and> (fst (DatabaseStorage_updateWorkOrder NoFault NoFault 7 sampleWorkOrderPatch fullDatabase) = Resolved None)
   \<and> (fst (DatabaseStorage_updateCustomer NoFault 7 renumberCustomerPatch fullDatabase) = Resolved None)
   \<and> (fst (DatabaseStorage_updateMaterial NoFault 7 renumberMaterialPatch fullDatabase) = Resolved None)
   \<and> (fst (DatabaseStorage_updateInvoice NoFault 7 renumberInvoicePatch fullDatabase) = Resolved None)
   \<and> (fst (MemStorage_updateCustomer 7 renumberCustomerPatch fullMemStorage) = Resolved None)
   \<and> (fst (MemStorage_updateMaterial 7 renumberMaterialPatch fullMemStorage) = Resolved None)
   \<and> (fst (MemStorage_updateWorkOrder 7 sampleWorkOrderPatch fullMemStorage) = Resolved None)
   \<and> (fst (MemStorage_updateInvoice 7 renumberInvoicePatch fullMemStorage) = Resolved None)
   \<and> (map (\<lambda>r. (id' r, material.articleNumber r)) (database.materials garbledDatabase)
       = [(1, ''ART-000001''), (3, ''X-17''), (2, ''ART-000002'')]
     \<and> partialInsertMaterial.articleNumber collidingMaterialPatch = Some ''ART-000001'')
   \<and> (fst (DatabaseStorage_updateMaterial NoFault 2 collidingMaterialPatch garbledDatabase) = Resolved None)
   \<and> (fst (DatabaseStorage_updateCustomer Fault 1 renumberCustomerPatch fullDatabase) = Resolved None)
   \<and> (workOrder.orderNumber (setWorkOrder sampleWorkOrderPatch sampleWorkOrder) = workOrder.orderNumber sampleWorkOrder
     \<and> first (whereId 1 (work_orders (fullDatabase\<lparr> work_orders := [setWorkOrder sampleWorkOrderPatch sampleWorkOrder] \<rparr>))) = Some (setWorkOrder sampleWorkOrderPatch sampleWorkOrder))
   \<and> (map customer.customerNumber (database.customers (snd (DatabaseStorage_updateCustomer NoFault 1 sampleCustomerPatch fullDatabase)))
       = map customer.customerNumber (database.customers fullDatabase))
   \<and> (customer.customerNumber (setCustomer renumberCustomerPatch sampleCustomer) = orKeep (customer.customerNumber sampleCustomer) (partialInsertCustomer.customerNumber renumberCustomerPatch)
     \<and> first (whereId 1 (database.customers (fullDatabase\<lparr> database.customers := [setCustomer renumberCustomerPatch sampleCustomer] \<rparr>))) = Some (setCustomer renumberCustomerPatch sampleCustomer))
   \<and> (map material.articleNumber (database.materials (snd (DatabaseStorage_updateMaterial NoFault 1 sampleMaterialPatch fullDatabase)))
       = map material.articleNumber (database.materials fullDatabase))
   \<and> (material.articleNumber (setMaterial renumberMaterialPatch sampleMaterial) = orKeep (material.articleNumber sampleMaterial) (partialInsertMaterial.articleNumber renumberMaterialPatch)
     \<and> first (whereId 1 (database.materials (fullDatabase\<lparr> database.materials := [setMaterial renumberMaterialPatch sampleMaterial] \<rparr>))) = Some (setMaterial renumberMaterialPatch sampleMaterial))
   \<and> (map invoice.invoiceNumber (database.invoices (snd (DatabaseStorage_updateInvoice NoFault 1 sampleInvoicePatch fullDatabase)))
       = map invoice.invoiceNumber (database.invoices fullDatabase))
   \<and> (invoice.invoiceNumber (setInvoice renumberInvoicePatch sampleSentInvoice) = orKeep (invoice.invoiceNumber sampleSentInvoice) (partialInsertInvoice.invoiceNumber renumberInvoicePatch)
     \<and> first (whereId 1 (database.invoices (fullDatabase\<lparr> database.invoices := [setInvoice renumberInvoicePatch sampleSentInvoice] \<rparr>))) = Some (setInvoice renumberInvoicePatch sampleSentInvoice))
   \<and> (map (customer.customerNumber \<circ> snd) (memStorage.customers (snd (MemStorage_updateCustomer 1 sampleCustomerPatch fullMemStorage)))
       = map (customer.customerNumber \<circ> snd) (memStorage.customers fullMemStorage))
   \<and> (customer.customerNumber (spreadCustomer memCustomer renumberCustomerPatch) = orKeep (customer.customerNumber memCustomer) (partialInsertCustomer.customerNumber renumberCustomerPatch)
     \<and> map_of (memStorage.customers (fullMemStorage\<lparr> memStorage.customers := [(1, spreadCustomer memCustomer renumberCustomerPatch)] \<rparr>)) 1 = Some (spreadCustomer memCustomer renumberCustomerPatch))
   \<and> (map (material.articleNumber \<circ> snd) (memStorage.materials (snd (MemStorage_updateMaterial 1 sampleMaterialPatch fullMemStorage)))
       = map (material.articleNumber \<circ> snd) (memStorage.materials fullMemStorage))
   \<and> (material.articleNumber (spreadMaterial memMaterial renumberMaterialPatch) = orKeep (material.articleNumber memMaterial) (partialInsertMaterial.articleNumber renumberMaterialPatch)
     \<and> map_of (memStorage.materials (fullMemStorage\<lparr> memStorage.materials := [(1, spreadMaterial memMaterial renumberMaterialPatch)] \<rparr>)) 1 = Some (spreadMaterial memMaterial renumberMaterialPatch))
   \<and> (map (workOrder.orderNumber \<circ> snd) (memStorage.workOrders (snd (MemStorage_updateWorkOrder 1 statusWorkOrderPatch fullMemStorage)))
       = map (workOrder.orderNumber \<circ> snd) (memStorage.workOrders fullMemStorage))
   \<and> (workOrder.orderNumber (spreadWorkOrder memWorkOrder sampleWorkOrderPatch) = orKeep (workOrder.orderNumber memWorkOrder) (partialInsertWorkOrder.orderNumber sampleWorkOrderPatch)
     \<and> map_of (memStorage.workOrders (fullMemStorage\<lparr> memStorage.workOrders := [(1, spreadWorkOrder memWorkOrder sampleWorkOrderPatch)] \<rparr>)) 1 = Some (spreadWorkOrder memWorkOrder sampleWorkOrderPatch))
   \<and> (map (invoice.invoiceNumber \<circ> snd) (memStorage.invoices (snd (MemStorage_updateInvoice 1 sampleInvoicePatch fullMemStorage)))
       = map (invoice.invoiceNumber \<circ> snd) (memStorage.invoices fullMemStorage))
   \<and> (invoice.invoiceNumber (spreadInvoice memInvoice renumberInvoicePatch) = orKeep (invoice.invoiceNumber memInvoice) (partialInsertInvoice.invoiceNumber renumberInvoicePatch)
     \<and> map_of (memStorage.invoices (fullMemStorage\<lparr> memStorage.invoices := [(1, spreadInvoice memInvoice renumberInvoicePatch)] \<rparr>)) 1 = Some (spreadInvoice memInvoice renumberInvoicePatch))
   \<and> (snd (DatabaseStorage_updateWorkOrder NoFault NoFault 7 sampleWorkOrderPatch fullDatabase) = fullDatabase)
   \<and> (snd (DatabaseStorage_updateCustomer NoFault 7 renumberCustomerPatch fullDatabase) = fullDatabase)
   \<and> (snd (DatabaseStorage_updateMaterial NoFault 7 renumberMaterialPatch fullDatabase) = fullDatabase)
   \<and> (snd (DatabaseStorage_updateInvoice NoFault 7 renumberInvoicePatch fullDatabase) = fullDatabase)
   \<and> (snd (MemStorage_updateCustomer 7 renumberCustomerPatch fullMemStorage) = fullMemStorage)
   \<and> (snd (MemStorage_updateMaterial 7 renumberMaterialPatch fullMemStorage) = fullMemStorage)
   \<and> (snd (MemStorage_updateWorkOrder 7 sampleWorkOrderPatch fullMemStorage) = fullMemStorage)
   \<and> (snd (MemStorage_updateInvoice 7 renumberInvoicePatch fullMemStorage) = fullMemStorage)
   \<and> (snd (DatabaseStorage_updateMaterial NoFault 2 collidingMaterialPatch garbledDatabase) = garbledDatabase)
   \<and> (snd (DatabaseStorage_updateCustomer Fault 1 renumberCustomerPatch fullDatabase) = fullDatabase)"
proof -
  have hw1: "DatabaseStorage_updateWorkOrder NoFault NoFault 1 sampleWorkOrderPatch fullDatabase
       = (Resolved (Some (setWorkOrder sampleWorkOrderPatch sampleWorkOrder)), fullDatabase\<lparr> work_orders := [setWorkOrder sampleWorkOrderPatch sampleWorkOrder] \<rparr>)"
    by (simp add: sample_defs update_defs)
  have hw2: "first (whereId 1 (work_orders fullDatabase)) = Some sampleWorkOrder"
    by (simp add: sample_defs update_defs)
  have hfc: "partialInsertCustomer.customerNumber sampleCustomerPatch = None"
    by (simp add: sample_defs update_defs)
  have hrc1: "DatabaseStorage_updateCustomer NoFault 1 renumberCustomerPatch fullDatabase
       = (Resolved (Some (setCustomer renumberCustomerPatch sampleCustomer)), fullDatabase\<lparr> database.customers := [setCustomer renumberCustomerPatch sampleCustomer] \<rparr>)"
    by (simp add: sample_defs update_defs)
  have hrc2: "first (whereId 1 (database.customers fullDatabase)) = Some sampleCustomer"
    by (simp add: sample_defs update_defs)
  have hfm: "partialInsertMaterial.articleNumber sampleMaterialPatch = None"
    by (simp add: sample_defs update_defs)
  have hrm1: "DatabaseStorage_updateMaterial NoFault 1 renumberMaterialPatch fullDatabase
       = (Resolved (Some (setMaterial renumberMaterialPatch sampleMaterial)), fullDatabase\<lparr> database.materials := [setMaterial renumberMaterialPatch sampleMaterial] \<rparr>)"
    by (simp add: sample_defs update_defs)
  have hrm2: "first (whereId 1 (database.materials fullDatabase)) = Some sampleMaterial"
    by (simp add: sample_defs update_defs)
  have hfv: "partialInsertInvoice.invoiceNumber sampleInvoicePatch = None"
    by (simp add: sample_defs update_defs)
  have hrv1: "DatabaseStorage_updateInvoice NoFault 1 renumberInvoicePatch fullDatabase
       = (Resolved (Some (setInvoice renumberInvoicePatch sampleSentInvoice)), fullDatabase\<lparr> database.invoices := [setInvoice renumberInvoicePatch sampleSentInvoice] \<rparr>)"
    by (simp add: sample_defs update_defs)
  have hrv2: "first (whereId 1 (database.invoices fullDatabase)) = Some sampleSentInvoice"
    by (simp add: sample_defs update_defs)
  have hmc1: "MemStorage_updateCustomer 1 renumberCustomerPatch fullMemStorage
       = (Resolved (Some (spreadCustomer memCustomer renumberCustomerPatch)), fullMemStorage\<lparr> memStorage.customers := [(1, spreadCustomer memCustomer renumberCustomerPatch)] \<rparr>)"
    by (simp add: sample_defs update_defs)
  have hmc2: "map_of (memStorage.customers fullMemStorage) 1 = Some memCustomer"
    by (simp add: sample_defs update_defs)
  have hmm1: "MemStorage_updateMaterial 1 renumberMaterialPatch fullMemStorage
       = (Resolved (Some (spreadMaterial memMaterial renumberMaterialPatch)), fullMemStorage\<lparr> memStorage.materials := [(1, spreadMaterial memMaterial renumberMaterialPatch)] \<rparr>)"
    by (simp add: sample_defs update_defs)
  have hmm2: "map_of (memStorage.materials fullMemStorage) 1 = Some memMaterial"
    by (simp add: sample_defs update_defs)
  have hfw: "partialInsertWorkOrder.orderNumber statusWorkOrderPatch = None"
    by (simp add: sample_defs update_defs)
  have hmw1: "MemStorage_updateWorkOrder 1 sampleWorkOrderPatch fullMemStorage
       = (Resolved (Some (spreadWorkOrder memWorkOrder sampleWorkOrderPatch)), fullMemStorage\<lparr> memStorage.workOrders := [(1, spreadWorkOrder memWorkOrder sampleWorkOrderPatch)] \<rparr>)"
    by (simp add: sample_defs update_defs)
  have hmw2: "map_of (memStorage.workOrders fullMemStorage) 1 = Some memWorkOrder"
    by (simp add: sample_defs update_defs)
  have hmv1: "MemStorage_updateInvoice 1 renumberInvoicePatch fullMemStorage
       = (Resolved (Some (spreadInvoice memInvoice renumberInvoicePatch)), fullMemStorage\<lparr> memStorage.invoices := [(1, spreadInvoice memInvoice renumberInvoicePatch)] \<rparr>)"
    by (simp add: sample_defs update_defs)
  have hmv2: "map_of (memStorage.invoices fullMemStorage) 1 = Some memInvoice"
    by (simp add: sample_defs update_defs)
  have nw: "fst (DatabaseStorage_updateWorkOrder NoFault NoFault 7 sampleWorkOrderPatch fullDatabase) = Resolved None"
    by (simp add: sample_defs update_defs)
  have nc: "fst (DatabaseStorage_updateCustomer NoFault 7 renumberCustomerPatch fullDatabase) = Resolved None"
    by (simp add: sample_defs update_defs)
  have nm: "fst (DatabaseStorage_updateMaterial NoFault 7 renumberMaterialPatch fullDatabase) = Resolved None"
    by (simp add: sample_defs update_defs)
  have nv: "fst (DatabaseStorage_updateInvoice NoFault 7 renumberInvoicePatch fullDatabase) = Resolved None"
    by (simp add: sample_defs update_defs)
  have nmc: "fst (MemStorage_updateCustomer 7 renumberCustomerPatch fullMemStorage) = Resolved None"
    by (simp add: sample_defs update_defs)
  have nmm: "fst (MemStorage_updateMaterial 7 renumberMaterialPatch fullMemStorage) = Resolved None"
    by (simp add: sample_defs update_defs)
  have nmw: "fst (MemStorage_updateWorkOrder 7 sampleWorkOrderPatch fullMemStorage) = Resolved None"
    by (simp add: sample_defs update_defs)
  have nmv: "fst (MemStorage_updateInvoice 7 renumberInvoicePatch fullMemStorage) = Resolved None"
    by (simp add: sample_defs update_defs)
  have nd1: "map (\<lambda>r. (id' r, material.articleNumber r)) (database.materials garbledDatabase)
       = [(1, ''ART-000001''), (3, ''X-17''), (2, ''ART-000002'')]"
    by (simp add: sample_defs update_defs)
  have nd2: "partialInsertMaterial.articleNumber collidingMaterialPatch = Some ''ART-000001''"
    by (simp add: sample_defs update_defs)
  have ncol: "fst (DatabaseStorage_updateMaterial NoFault 2 collidingMaterialPatch garbledDatabase) = Resolved None"
    by (simp add: sample_defs update_defs)
  have ne: "fst (DatabaseStorage_updateCustomer Fault 1 renumberCustomerPatch fullDatabase) = Resolved None"
    by (simp add: sample_defs update_defs)
  note ta = C3_update_and_code_field [where i = 1
      and db = fullDatabase
      and st = fullMemStorage
      and lookup = NoFault
      and change = NoFault
      and q = NoFault
      and pw = sampleWorkOrderPatch
      and w = sampleWorkOrder
      and w' = "setWorkOrder sampleWorkOrderPatch sampleWorkOrder"
      and dbw = "fullDatabase\<lparr> work_orders := [setWorkOrder sampleWorkOrderPatch sampleWorkOrder] \<rparr>"
      and fc = sampleCustomerPatch
      and pc = renumberCustomerPatch
      and c = sampleCustomer
      and c' = "setCustomer renumberCustomerPatch sampleCustomer"
      and dbc = "fullDatabase\<lparr> database.customers := [setCustomer renumberCustomerPatch sampleCustomer] \<rparr>"
      and fm = sampleMaterialPatch
      and pm = renumberMaterialPatch
      and m = sampleMaterial
      and m' = "setMaterial renumberMaterialPatch sampleMaterial"
      and dbm = "fullDatabase\<lparr> database.materials := [setMaterial renumberMaterialPatch sampleMaterial] \<rparr>"
      and fv = sampleInvoicePatch
      and pv = renumberInvoicePatch
      and v = sampleSentInvoice
      and v' = "setInvoice renumberInvoicePatch sampleSentInvoice"
      and dbv = "fullDatabase\<lparr> database.invoices := [setInvoice renumberInvoicePatch sampleSentInvoice] \<rparr>"
      and mc = memCustomer
      and mc' = "spreadCustomer memCustomer renumberCustomerPatch"
      and stc = "fullMemStorage\<lparr> memStorage.customers := [(1, spreadCustomer memCustomer renumberCustomerPatch)] \<rparr>"
      and mm = memMaterial
      and mm' = "spreadMaterial memMaterial renumberMaterialPatch"
      and stm = "fullMemStorage\<lparr> memStorage.materials := [(1, spreadMaterial memMaterial renumberMaterialPatch)] \<rparr>"
      and fw = statusWorkOrderPatch
      and mw = memWorkOrder
      and mw' = "spreadWorkOrder memWorkOrder sampleWorkOrderPatch"
      and stw = "fullMemStorage\<lparr> memStorage.workOrders := [(1, spreadWorkOrder memWorkOrder sampleWorkOrderPatch)] \<rparr>"
      and mv = memInvoice
      and mv' = "spreadInvoice memInvoice renumberInvoicePatch"
      and stv = "fullMemStorage\<lparr> memStorage.invoices := [(1, spreadInvoice memInvoice renumberInvoicePatch)] \<rparr>"]
  note tb = C3_update_and_code_field [where j = 7
      and db = fullDatabase
      and st = fullMemStorage
      and lookup = NoFault
      and change = NoFault
      and q = NoFault
      and pw = sampleWorkOrderPatch
      and pc = renumberCustomerPatch
      and pm = renumberMaterialPatch
      and pv = renumberInvoicePatch]
  note td = C3_update_and_code_field [where j = 2
      and db = garbledDatabase
      and q = NoFault
      and pm = collidingMaterialPatch]
  note te = C3_update_and_code_field [where j = 1
      and db = fullDatabase
      and q = Fault
      and pc = renumberCustomerPatch]
  have c1: "workOrder.orderNumber (setWorkOrder sampleWorkOrderPatch sampleWorkOrder) = workOrder.orderNumber sampleWorkOrder"
    by (rule conjunct1 [OF mp [OF ta [THEN conjunct2, THEN conjunct1]
      conjI [OF hw1 hw2]]])
  have d1: "first (whereId 1 (work_orders (fullDatabase\<lparr> work_orders := [setWorkOrder sampleWorkOrderPatch sampleWorkOrder] \<rparr>))) = Some (setWorkOrder sampleWorkOrderPatch sampleWorkOrder)"
    by (rule conjunct2 [OF mp [OF ta [THEN conjunct2, THEN conjunct1]
      conjI [OF hw1 hw2]]])
  have c2: "map customer.customerNumber (database.customers (snd (DatabaseStorage_updateCustomer NoFault 1 sampleCustomerPatch fullDatabase)))
       = map customer.customerNumber (database.customers fullDatabase)"
    by (rule mp [OF ta [THEN conjunct2, THEN conjunct2, THEN conjunct2, THEN conjunct1] hfc])
  have c3: "customer.customerNumber (setCustomer renumberCustomerPatch sampleCustomer) = orKeep (customer.customerNumber sampleCustomer) (partialInsertCustomer.customerNumber renumberCustomerPatch)"
    by (rule conjunct1 [OF mp [OF ta [THEN conjunct2, THEN conjunct2, THEN conjunct2, THEN conjunct2, THEN conjunct1]
      conjI [OF hrc1 hrc2]]])
  have d3: "first (whereId 1 (database.customers (fullDatabase\<lparr> database.customers := [setCustomer renumberCustomerPatch sampleCustomer] \<rparr>))) = Some (setCustomer renumberCustomerPatch sampleCustomer)"
    by (rule conjunct2 [OF mp [OF ta [THEN conjunct2, THEN conjunct2, THEN conjunct2, THEN conjunct2, THEN conjunct1]
      conjI [OF hrc1 hrc2]]])
  have c4: "map material.articleNumber (database.materials (snd (DatabaseStorage_updateMaterial NoFault 1 sampleMaterialPatch fullDatabase)))
       = map material.articleNumber (database.materials fullDatabase)"
    by (rule mp [OF ta [THEN conjunct2, THEN conjunct2, THEN conjunct2, THEN conjunct2, THEN conjunct2, THEN conjunct2, THEN conjunct1] hfm])
  have c5: "material.articleNumber (setMaterial renumberMaterialPatch sampleMaterial) = orKeep (material.articleNumber sampleMaterial) (partialInsertMaterial.articleNumber renumberMaterialPatch)"
    by (rule conjunct1 [OF mp [OF ta [THEN conjunct2, THEN conjunct2, THEN conjunct2, THEN conjunct2, THEN conjunct2, THEN conjunct2, THEN conjunct2, THEN conjunct1]
      conjI [OF hrm1 hrm2]]])
  have d5: "first (whereId 1 (database.materials (fullDatabase\<lparr> database.materials := [setMaterial renumberMaterialPatch sampleMaterial] \<rparr>))) = Some (setMaterial renumberMaterialPatch sampleMaterial)"
    by (rule conjunct2 [OF mp [OF ta [THEN conjunct2, THEN conjunct2, THEN conjunct2, THEN conjunct2, THEN conjunct2, THEN conjunct2, THEN conjunct2, THEN conjunct1]
      conjI [OF hrm1 hrm2]]])
  have c6: "map invoice.invoiceNumber (database.invoices (snd (DatabaseStorage_updateInvoice NoFault 1 sampleInvoicePatch fullDatabase)))
       = map invoice.invoiceNumber (database.invoices fullDatabase)"
    by (rule mp [OF ta [THEN conjunct2, THEN conjunct2, THEN conjunct2, THEN conjunct2, THEN conjunct2, THEN conjunct2, THEN conjunct2, THEN conjunct2, THEN conjunct2, THEN conjunct1] hfv])
  have c7: "invoice.invoiceNumber (setInvoice renumberInvoicePatch sampleSentInvoice) = orKeep (invoice.invoiceNumber sampleSentInvoice) (partialInsertInvoice.invoiceNumber renumberInvoicePatch)"
    by (rule conjunct1 [OF mp [OF ta [THEN conjunct2, THEN conjunct2, THEN conjunct2, THEN conjunct2, THEN conjunct2, THEN conjunct2, THEN conjunct2, THEN conjunct2, THEN conjunct2, THEN conjunct2, THEN conjunct1]
      conjI [OF hrv1 hrv2]]])
  have d7: "first (whereId 1 (database.invoices (fullDatabase\<lparr> database.invoices := [setInvoice renumberInvoicePatch sampleSentInvoice] \<rparr>))) = Some (setInvoice renumberInvoicePatch sampleSentInvoice)"
    by (rule conjunct2 [OF mp [OF ta [THEN conjunct2, THEN conjunct2, THEN conjunct2, THEN conjunct2, THEN conjunct2, THEN conjunct2, THEN conjunct2, THEN conjunct2, THEN conjunct2, THEN conjunct2, THEN conjunct1]
      conjI [OF hrv1 hrv2]]])
  have c8: "map (customer.customerNumber \<circ> snd) (memStorage.customers (snd (MemStorage_updateCustomer 1 sampleCustomerPatch fullMemStorage)))
       = map (customer.customerNumber \<circ> snd) (memStorage.customers fullMemStorage)"
    by (rule mp [OF ta [THEN conjunct2, THEN conjunct2, THEN conjunct2, THEN conjunct2, THEN conjunct2, THEN conjunct2, THEN conjunct2, THEN conjunct2, THEN conjunct2, THEN conjunct2, THEN conjunct2, THEN conjunct2, THEN conjunct1] hfc])
  have c9: "customer.customerNumber (spreadCustomer memCustomer renumberCustomerPatch) = orKeep (customer.customerNumber memCustomer) (partialInsertCustomer.customerNumber renumberCustomerPatch)"
    by (rule conjunct1 [OF mp [OF ta [THEN conjunct2, THEN conjunct2, THEN conjunct2, THEN conjunct2, THEN conjunct2, THEN conjunct2, THEN conjunct2, THEN conjunct2, THEN conjunct2, THEN conjunct2, THEN conjunct2, THEN conjunct2, THEN conjunct2, THEN conjunct1]
      conjI [OF hmc1 hmc2]]])
  have d9: "map_of (memStorage.customers (fullMemStorage\<lparr> memStorage.customers := [(1, spreadCustomer memCustomer renumberCustomerPatch)] \<rparr>)) 1 = Some (spreadCustomer memCustomer renumberCustomerPatch)"
    by (rule conjunct2 [OF mp [OF ta [THEN conjunct2, THEN conjunct2, THEN conjunct2, THEN conjunct2, THEN conjunct2, THEN conjunct2, THEN conjunct2, THEN conjunct2, THEN conjunct2, THEN conjunct2, THEN conjunct2, THEN conjunct2, THEN conjunct2, THEN conjunct1]
      conjI [OF hmc1 hmc2]]])
  have c10: "map (material.articleNumber \<circ> snd) (memStorage.materials (snd (MemStorage_updateMaterial 1 sampleMaterialPatch fullMemStorage)))
       = map (material.articleNumber \<circ> snd) (memStorage.materials fullMemStorage)"
    by (rule mp [OF ta [THEN conjunct2, THEN conjunct2, THEN conjunct2, THEN conjunct2, THEN conjunct2, THEN conjunct2, THEN conjunct2, THEN conjunct2, THEN conjunct2, THEN conjunct2, THEN conjunct2, THEN conjunct2, THEN conjunct2, THEN conjunct2, THEN conjunct2, THEN conjunct1] hfm])
  have c11: "material.articleNumber (spreadMaterial memMaterial renumberMaterialPatch) = orKeep (material.articleNumber memMaterial) (partialInsertMaterial.articleNumber renumberMaterialPatch)"
    by (rule conjunct1 [OF mp [OF ta [THEN conjunct2, THEN conjunct2, THEN conjunct2, THEN conjunct2, THEN conjunct2, THEN conjunct2, THEN conjunct2, THEN conjunct2, THEN conjunct2, THEN conjunct2, THEN conjunct2, THEN conjunct2, THEN conjunct2, THEN conjunct2, THEN conjunct2, THEN conjunct2, THEN conjunct1]
      conjI [OF hmm1 hmm2]]])
  have d11: "map_of (memStorage.materials (fullMemStorage\<lparr> memStorage.materials := [(1, spreadMaterial memMaterial renumberMaterialPatch)] \<rparr>)) 1 = Some (spreadMaterial memMaterial renumberMaterialPatch)"
    by (rule conjunct2 [OF mp [OF ta [THEN conjunct2, THEN conjunct2, THEN conjunct2, THEN conjunct2, THEN conjunct2, THEN conjunct2, THEN conjunct2, THEN conjunct2, THEN conjunct2, THEN conjunct2, THEN conjunct2, THEN conjunct2, THEN conjunct2, THEN conjunct2, THEN conjunct2, THEN conjunct2, THEN conjunct1]
      conjI [OF hmm1 hmm2]]])
  have c12: "map (workOrder.orderNumber \<circ> snd) (memStorage.workOrders (snd (MemStorage_updateWorkOrder 1 statusWorkOrderPatch fullMemStorage)))
       = map (workOrder.orderNumber \<circ> snd) (memStorage.workOrders fullMemStorage)"
    by (rule mp [OF ta [THEN conjunct2, THEN conjunct2, THEN conjunct2, THEN conjunct2, THEN conjunct2, THEN conjunct2, THEN conjunct2, THEN conjunct2, THEN conjunct2, THEN conjunct2, THEN conjunct2, THEN conjunct2, THEN conjunct2, THEN conjunct2, THEN conjunct2, THEN conjunct2, THEN conjunct2, THEN conjunct2, THEN conjunct1] hfw])
  have c13: "workOrder.orderNumber (spreadWorkOrder memWorkOrder sampleWorkOrderPatch) = orKeep (workOrder.orderNumber memWorkOrder) (partialInsertWorkOrder.orderNumber sampleWorkOrderPatch)"
    by (rule conjunct1 [OF mp [OF ta [THEN conjunct2, THEN conjunct2, THEN conjunct2, THEN conjunct2, THEN conjunct2, THEN conjunct2, THEN conjunct2, THEN conjunct2, THEN conjunct2, THEN conjunct2, THEN conjunct2, THEN conjunct2, THEN conjunct2, THEN conjunct2, THEN conjunct2, THEN conjunct2, THEN conjunct2, THEN conjunct2, THEN conjunct2, THEN conjunct1]
      conjI [OF hmw1 hmw2]]])
  have d13: "map_of (memStorage.workOrders (fullMemStorage\<lparr> memStorage.workOrders := [(1, spreadWorkOrder memWorkOrder sampleWorkOrderPatch)] \<rparr>)) 1 = Some (spreadWorkOrder memWorkOrder sampleWorkOrderPatch)"
    by (rule conjunct2 [OF mp [OF ta [THEN conjunct2, THEN conjunct2, THEN conjunct2, THEN conjunct2, THEN conjunct2, THEN conjunct2, THEN conjunct2, THEN conjunct2, THEN conjunct2, THEN conjunct2, THEN conjunct2, THEN conjunct2, THEN conjunct2, THEN conjunct2, THEN conjunct2, THEN conjunct2, THEN conjunct2, THEN conjunct2, THEN conjunct2, THEN conjunct1]
      conjI [OF hmw1 hmw2]]])
  have c14: "map (invoice.invoiceNumber \<circ> snd) (memStorage.invoices (snd (MemStorage_updateInvoice 1 sampleInvoicePatch fullMemStorage)))
       = map (invoice.invoiceNumber \<circ> snd) (memStorage.invoices fullMemStorage)"
    by (rule mp [OF ta [THEN conjunct2, THEN conjunct2, THEN conjunct2, THEN conjunct2, THEN conjunct2, THEN conjunct2, THEN conjunct2, THEN conjunct2, THEN conjunct2, THEN conjunct2, THEN conjunct2, THEN conjunct2, THEN conjunct2, THEN conjunct2, THEN conjunct2, THEN conjunct2, THEN conjunct2, THEN conjunct2, THEN conjunct2, THEN conjunct2, THEN conjunct2, THEN conjunct1] hfv])
  have c15: "invoice.invoiceNumber (spreadInvoice memInvoice renumberInvoicePatch) = orKeep (invoice.invoiceNumber memInvoice) (partialInsertInvoice.invoiceNumber renumberInvoicePatch)"
    by (rule conjunct1 [OF mp [OF ta [THEN conjunct2, THEN conjunct2, THEN conjunct2, THEN conjunct2, THEN conjunct2, THEN conjunct2, THEN conjunct2, THEN conjunct2, THEN conjunct2, THEN conjunct2, THEN conjunct2, THEN conjunct2, THEN conjunct2, THEN conjunct2, THEN conjunct2, THEN conjunct2, THEN conjunct2, THEN conjunct2, THEN conjunct2, THEN conjunct2, THEN conjunct2, THEN conjunct2, THEN conjunct1]
      conjI [OF hmv1 hmv2]]])
  have d15: "map_of (memStorage.invoices (fullMemStorage\<lparr> memStorage.invoices := [(1, spreadInvoice memInvoice renumberInvoicePatch)] \<rparr>)) 1 = Some (spreadInvoice memInvoice renumberInvoicePatch)"
    by (rule conjunct2 [OF mp [OF ta [THEN conjunct2, THEN conjunct2, THEN conjunct2, THEN conjunct2, THEN conjunct2, THEN conjunct2, THEN conjunct2, THEN conjunct2, THEN conjunct2, THEN conjunct2, THEN conjunct2, THEN conjunct2, THEN conjunct2, THEN conjunct2, THEN conjunct2, THEN conjunct2, THEN conjunct2, THEN conjunct2, THEN conjunct2, THEN conjunct2, THEN conjunct2, THEN conjunct2, THEN conjunct1]
      conjI [OF hmv1 hmv2]]])
  have c16: "snd (DatabaseStorage_updateWorkOrder NoFault NoFault 7 sampleWorkOrderPatch fullDatabase) = fullDatabase"
    by (rule mp [OF tb [THEN conjunct2, THEN conjunct2, THEN conjunct1] nw])
  have c17: "snd (DatabaseStorage_updateCustomer NoFault 7 renumberCustomerPatch fullDatabase) = fullDatabase"
    by (rule mp [OF tb [THEN conjunct2, THEN conjunct2, THEN conjunct2, THEN conjunct2, THEN conjunct2, THEN conjunct1] nc])
  have c18: "snd (DatabaseStorage_updateMaterial NoFault 7 renumberMaterialPatch fullDatabase) = fullDatabase"
    by (rule mp [OF tb [THEN conjunct2, THEN conjunct2, THEN conjunct2, THEN conjunct2, THEN conjunct2, THEN conjunct2, THEN conjunct2, THEN conjunct2, THEN conjunct1] nm])
  have c19: "snd (DatabaseStorage_updateInvoice NoFault 7 renumberInvoicePatch fullDatabase) = fullDatabase"
    by (rule mp [OF tb [THEN conjunct2, THEN conjunct2, THEN conjunct2, THEN conjunct2, THEN conjunct2, THEN conjunct2, THEN conjunct2, THEN conjunct2, THEN conjunct2, THEN conjunct2, THEN conjunct2, THEN conjunct1] nv])
  have c20: "snd (MemStorage_updateCustomer 7 renumberCustomerPatch fullMemStorage) = fullMemStorage"
    by (rule mp [OF tb [THEN conjunct2, THEN conjunct2, THEN conjunct2, THEN conjunct2, THEN conjunct2, THEN conjunct2, THEN conjunct2, THEN conjunct2, THEN conjunct2, THEN conjunct2, THEN conjunct2, THEN conjunct2, THEN conjunct2, THEN conjunct2, THEN conjunct1] nmc])
  have c21: "snd (MemStorage_updateMaterial 7 renumberMaterialPatch fullMemStorage) = fullMemStorage"
    by (rule mp [OF tb [THEN conjunct2, THEN conjunct2, THEN conjunct2, THEN conjunct2, THEN conjunct2, THEN conjunct2, THEN conjunct2, THEN conjunct2, THEN conjunct2, THEN conjunct2, THEN conjunct2, THEN conjunct2, THEN conjunct2, THEN conjunct2, THEN conjunct2, THEN conjunct2, THEN conjunct2, THEN conjunct1] nmm])
  have c22: "snd (MemStorage_updateWorkOrder 7 sampleWorkOrderPatch fullMemStorage) = fullMemStorage"
    by (rule mp [OF tb [THEN conjunct2, THEN conjunct2, THEN conjunct2, THEN conjunct2, THEN conjunct2, THEN conjunct2, THEN conjunct2, THEN conjunct2, THEN conjunct2, THEN conjunct2, THEN conjunct2, THEN conjunct2, THEN conjunct2, THEN conjunct2, THEN conjunct2, THEN conjunct2, THEN conjunct2, THEN conjunct2, THEN conjunct2, THEN conjunct2, THEN conjunct1] nmw])
  have c23: "snd (MemStorage_updateInvoice 7 renumberInvoicePatch fullMemStorage) = fullMemStorage"
    by (rule mp [OF tb [THEN conjunct2, THEN conjunct2, THEN conjunct2, THEN conjunct2, THEN conjunct2, THEN conjunct2, THEN conjunct2, THEN conjunct2, THEN conjunct2, THEN conjunct2, THEN conjunct2, THEN conjunct2, THEN conjunct2, THEN conjunct2, THEN conjunct2, THEN conjunct2, THEN conjunct2, THEN conjunct2, THEN conjunct2, THEN conjunct2, THEN conjunct2, THEN conjunct2, THEN conjunct2] nmv])
  have c24: "snd (DatabaseStorage_updateMaterial NoFault 2 collidingMaterialPatch garbledDatabase) = garbledDatabase"
    by (rule mp [OF td [THEN conjunct2, THEN conjunct2, THEN conjunct2, THEN conjunct2, THEN conjunct2, THEN conjunct2, THEN conjunct2, THEN conjunct2, THEN conjunct1] ncol])
  have c25: "snd (DatabaseStorage_updateCustomer Fault 1 renumberCustomerPatch fullDatabase) = fullDatabase"
    by (rule mp [OF te [THEN conjunct2, THEN conjunct2, THEN conjunct2, THEN conjunct2, THEN conjunct2, THEN conjunct1] ne])
  show ?thesis
    using hw1 hw2 hfc hrc1 hrc2 hfm hrm1 hrm2 hfv hrv1 hrv2 hmc1 hmc2 hmm1 hmm2 hfw hmw1 hmw2 hmv1 hmv2 nw nc nm nv nmc nmm nmw nmv nd1 nd2 ncol ne
      c1 d1 c2 c3 d3 c4 c5 d5 c6 c7 d7 c8 c9 d9 c10 c11 d11 c12 c13 d13 c14 c15 d15 c16 c17 c18 c19 c20 c21 c22 c23 c24 c25
    by (intro conjI)
qed

section \<open>The complete operation\<close>

lemma isDefined_destructure: "isDefined (destructure x) = isDefined x"
  by (cases x) (simp_all add: isDefined_def destructure_def)

lemma isDefined_iff: "isDefined x \<longleftrightarrow> x \<noteq> Missing \<and> x \<noteq> Undefined"
  by (cases x) (simp_all add: isDefined_def)

lemma whereId_present: "i \<in> set (map id' rows) \<Longrightarrow> whereId i rows \<noteq> []"
  by (induction rows) (auto simp add: whereId_def)

lemma updateWorkOrder_db_outcome:
  assumes "partialInsertWorkOrder.status p \<noteq> None"
  shows "fst (DatabaseStorage_updateWorkOrder lookup change i p db)
     = (if lookup = NoFault \<and> change = NoFault \<and> i \<in> set (map id' (work_orders db))
        then Resolved (Some (setWorkOrder p (hd (whereId i (work_orders db)))))
        else Resolved None)"
proof (cases "lookup = NoFault \<and> change = NoFault \<and> i \<in> set (map id' (work_orders db))")
  case True
  then obtain e rest where e: "whereId i (work_orders db) = e # rest"
    using whereId_present [of i "work_orders db"] by (cases "whereId i (work_orders db)") auto
  have m: "whereId i (map (\<lambda>r. if id' r = i then setWorkOrder p r else r) (work_orders db))
      = map (setWorkOrder p) (whereId i (work_orders db))"
    by (rule whereId_map_if) (rule setWorkOrder_id)
  have u: "updateParts p \<noteq> 0"
    using assms by (simp add: updateParts_def)
  show ?thesis
    using True e u
    by (simp add: DatabaseStorage_updateWorkOrder_def DatabaseStorage_getWorkOrder_def
        first_def Let_def m)
next
  case False
  have u: "updateParts p \<noteq> 0"
    using assms by (simp add: updateParts_def)
  have f: "lookup = Fault \<or> change = Fault \<or> i \<notin> set (map id' (work_orders db))"
    using False by (cases lookup; cases change) auto
  show ?thesis
    using False f u
    by (auto simp add: DatabaseStorage_updateWorkOrder_def DatabaseStorage_getWorkOrder_def
        first_def Let_def whereId_absent split: list.splits)
qed

lemma complete_db_status:
  "statusCode (fst (put_api_workorders_id_complete (DatabaseStorage_updateWorkOrder lookup change)
       i reqBody db))
     = (if \<not> isDefined (completeBody.laborHours reqBody) then 400
        else if lookup = NoFault \<and> change = NoFault \<and> i \<in> set (map id' (work_orders db))
        then 200 else 404)"
  by (simp add: put_api_workorders_id_complete_def Let_def isDefined_destructure
      split_beta updateWorkOrder_db_outcome split: prod.splits)

lemma complete_mem_status:
  "statusCode (fst (put_api_workorders_id_complete MemStorage_updateWorkOrder i reqBody st))
     = (if \<not> isDefined (completeBody.laborHours reqBody) then 400
        else if map_of (memStorage.workOrders st) i \<noteq> None then 200 else 404)"
  by (auto simp add: put_api_workorders_id_complete_def Let_def isDefined_destructure
      MemStorage_updateWorkOrder_def split: option.splits)

text \<open>
  Claim C5 says that the complete operation reports not-found exactly when the id does
  not exist, a not-found that is distinct from an operational failure, and rejects the
  request exactly when \<open>laborHours\<close> is absent. Two inputs contradict the first part:
  an id that does not exist with \<open>laborHours\<close> missing is answered with 400, and an
  existing id whose \<^verbatim>\<open>UPDATE\<close> statement fails is answered with 404.
\<close>

theorem C5_not_found_is_not_exact:
  "7 \<notin> set (map id' (work_orders oneWorkOrderDatabase))
   \<and> completeBody.laborHours bodyWithoutLaborHours = Missing
   \<and> fst (put_api_workorders_id_complete (DatabaseStorage_updateWorkOrder NoFault NoFault) 7
            bodyWithoutLaborHours oneWorkOrderDatabase)
       = Response 400 (Message ''Labor hours are required'')
   \<and> 1 \<in> set (map id' (work_orders oneWorkOrderDatabase))
   \<and> fst (put_api_workorders_id_complete (DatabaseStorage_updateWorkOrder NoFault Fault) 1
            sampleCompleteBody oneWorkOrderDatabase)
       = Response 404 (Message ''Work order not found'')"
  by (simp add: sample_defs update_defs put_api_workorders_id_complete_def destructure_def)

text \<open>
  Claim C5, as the code has it. The operation answers 400 exactly when \<open>laborHours\<close>
  is absent (missing or \<^verbatim>\<open>undefined\<close>), whatever the id; zero is accepted. With
  \<open>laborHours\<close> present it answers 200 when the work order exists and, for the
  database-backed repository, both statements of the update are answered: the lookup
  and the \<^verbatim>\<open>UPDATE\<close>. Otherwise it answers 404: for an id that does not exist, and
  for any id when a statement fails, as it does when the connection is lost or when the
  column refuses the labour hours. The photos play no part, so an empty list succeeds,
  and no case is answered with a thrown error.
\<close>

theorem C5_complete_outcomes:
  "(statusCode (fst (put_api_workorders_id_complete
        (DatabaseStorage_updateWorkOrder lookup change) i reqBody db)) = 400
     \<longleftrightarrow> completeBody.laborHours reqBody = Missing \<or> completeBody.laborHours reqBody = Undefined)
   \<and> (statusCode (fst (put_api_workorders_id_complete MemStorage_updateWorkOrder i reqBody st))
      = 400
     \<longleftrightarrow> completeBody.laborHours reqBody = Missing \<or> completeBody.laborHours reqBody = Undefined)
   \<and> (completeBody.laborHours reqBody \<noteq> Missing \<and> completeBody.laborHours reqBody \<noteq> Undefined
     \<longrightarrow> statusCode (fst (put_api_workorders_id_complete
            (DatabaseStorage_updateWorkOrder lookup change) i reqBody db))
          = (if lookup = NoFault \<and> change = NoFault \<and> i \<in> set (map id' (work_orders db))
             then 200 else 404)
        \<and> statusCode (fst (put_api_workorders_id_complete MemStorage_updateWorkOrder
            i reqBody st))
          = (if map_of (memStorage.workOrders st) i \<noteq> None then 200 else 404))
   \<and> (completeBody.laborHours reqBody = Value 0
     \<longrightarrow> statusCode (fst (put_api_workorders_id_complete
            (DatabaseStorage_updateWorkOrder lookup change) i reqBody db)) \<noteq> 400
        \<and> statusCode (fst (put_api_workorders_id_complete MemStorage_updateWorkOrder
            i reqBody st)) \<noteq> 400)"
  by (simp add: complete_db_status complete_mem_status isDefined_iff)

theorem C5_complete_outcomes_witness:
  "completeBody.laborHours bodyWithoutPhotos = Value 0
   \<and> completeBody.photos bodyWithoutPhotos = Value []
   \<and> 1 \<in> set (map id' (work_orders oneWorkOrderDatabase))
   \<and> 7 \<notin> set (map id' (work_orders oneWorkOrderDatabase))
   \<and> map_of (memStorage.workOrders oneWorkOrderMemStorage) 1 \<noteq> None
   \<and> map_of (memStorage.workOrders oneWorkOrderMemStorage) 7 = None
   \<and> statusCode (fst (put_api_workorders_id_complete
         (DatabaseStorage_updateWorkOrder NoFault NoFault) 1 bodyWithoutPhotos
         oneWorkOrderDatabase)) = 200
   \<and> statusCode (fst (put_api_workorders_id_complete MemStorage_updateWorkOrder 1
         bodyWithoutPhotos oneWorkOrderMemStorage)) = 200
   \<and> statusCode (fst (put_api_workorders_id_complete
         (DatabaseStorage_updateWorkOrder NoFault NoFault) 7 bodyWithoutPhotos
         oneWorkOrderDatabase)) = 404
   \<and> statusCode (fst (put_api_workorders_id_complete MemStorage_updateWorkOrder 7
         bodyWithoutPhotos oneWorkOrderMemStorage)) = 404
   \<and> statusCode (fst (put_api_workorders_id_complete
         (DatabaseStorage_updateWorkOrder NoFault Fault) 1 bodyWithoutPhotos
         oneWorkOrderDatabase)) = 404
   \<and> statusCode (fst (put_api_workorders_id_complete
         (DatabaseStorage_updateWorkOrder Fault NoFault) 1 bodyWithoutPhotos
         oneWorkOrderDatabase)) = 404"
proof -
  have h: "completeBody.laborHours bodyWithoutPhotos = Value 0"
    "completeBody.photos bodyWithoutPhotos = Value []"
    "1 \<in> set (map id' (work_orders oneWorkOrderDatabase))"
    "7 \<notin> set (map id' (work_orders oneWorkOrderDatabase))"
    "map_of (memStorage.workOrders oneWorkOrderMemStorage) 1 \<noteq> None"
    "map_of (memStorage.workOrders oneWorkOrderMemStorage) 7 = None"
    by (simp_all add: sample_defs)
  have d: "completeBody.laborHours bodyWithoutPhotos \<noteq> Missing
      \<and> completeBody.laborHours bodyWithoutPhotos \<noteq> Undefined"
    by (simp add: h(1))
  note t = C5_complete_outcomes [where reqBody = bodyWithoutPhotos
      and db = oneWorkOrderDatabase and st = oneWorkOrderMemStorage]
  from t [where i = 1 and lookup = NoFault and change = NoFault]
    t [where i = 7 and lookup = NoFault and change = NoFault]
    t [where i = 1 and lookup = NoFault and change = Fault]
    t [where i = 1 and lookup = Fault and change = NoFault] h d
  show ?thesis by simp
qed

end
